theory Spec2Isabelle
  imports Main "HOL-Library.Mapping" "HOL-Library.Char_ord" "HOL-Library.List_Lexorder"
    "HOL-Library.Multiset"
begin

section \<open>Errors\<close>

text \<open>
  Both contracts report failure through Go's \<open>error\<close> values built with \<open>fmt.Errorf\<close>.
  The constructors below name the kinds of failure; each source message belongs to one:
  \<^item> \<open>AuthorizationDenied\<close>: "unable to get MSP ID: ..." and
    "access denied: only Org1 (Police) can perform this operation";
  \<^item> \<open>NotFound\<close>: "the FIR ... does not exist", "the officer ... does not exist";
  \<^item> \<open>AlreadyExists\<close>: "the FIR ... already exists", "the officer ... already exists";
  \<^item> \<open>SerializationError\<close>: an error returned by \<open>json.Marshal\<close> or \<open>json.Unmarshal\<close>;
  \<^item> \<open>StorageError\<close>: an error returned by the ledger stub, wrapped
    ("failed to read from world state: ...", "failed to put to world state: ...") or passed on;
  \<^item> \<open>IdentityError\<close>: the error of \<open>GetMSPID\<close> itself, before \<open>onlyPolice\<close> wraps it.
\<close>

datatype error =
  AuthorizationDenied | NotFound | AlreadyExists | SerializationError | StorageError
  | IdentityError

section \<open>Stored values: JSON documents\<close>

text \<open>
  The ledger stores byte strings; both contracts write only the output of
  \<open>json.Marshal\<close> and read only through \<open>json.Unmarshal\<close>. A byte string is modelled by
  what the JSON parser makes of it: no JSON text at all (\<open>Malformed\<close>), or the document.
  Go strings are HOL strings: sequences of bytes.
\<close>

datatype json =
  JNull | JBool bool | JNumber string | JString string
  | JArray "json list" | JObject "(string \<times> json) list"

datatype bytes = Malformed | Doc json

text \<open>
  \<open>encoding/json\<close> coerces every string it writes or parses to valid UTF-8: it walks
  the string rune by rune (\<open>utf8.DecodeRune\<close>) and replaces each byte that does not
  start a well-formed encoding by U+FFFD (bytes EF BF BD). \<open>runeLen\<close> is the length the
  leading byte announces, \<open>secondOk\<close> the range allowed for the second byte (it excludes
  overlong forms, surrogates and code points above U+10FFFF), \<open>runeSize\<close> the number of
  bytes of the well-formed encoding at the head of a string, \<open>0\<close> when there is none.
\<close>

definition cont :: "char \<Rightarrow> bool" where
  "cont b = (CHR 0x80 \<le> b \<and> b \<le> CHR 0xBF)"

definition secondOk :: "char \<Rightarrow> char \<Rightarrow> bool" where
  "secondOk a b =
     (if a = CHR 0xE0 then CHR 0xA0 \<le> b \<and> b \<le> CHR 0xBF
      else if a = CHR 0xED then CHR 0x80 \<le> b \<and> b \<le> CHR 0x9F
      else if a = CHR 0xF0 then CHR 0x90 \<le> b \<and> b \<le> CHR 0xBF
      else if a = CHR 0xF4 then CHR 0x80 \<le> b \<and> b \<le> CHR 0x8F
      else cont b)"

definition runeLen :: "char \<Rightarrow> nat" where
  "runeLen a =
     (if a < CHR 0x80 then 1
      else if CHR 0xC2 \<le> a \<and> a \<le> CHR 0xDF then 2
      else if CHR 0xE0 \<le> a \<and> a \<le> CHR 0xEF then 3
      else if CHR 0xF0 \<le> a \<and> a \<le> CHR 0xF4 then 4
      else 0)"

fun tailOk :: "char \<Rightarrow> string \<Rightarrow> bool" where
  "tailOk a [] = True"
| "tailOk a (b # r) = (secondOk a b \<and> list_all cont r)"

definition runeSize :: "string \<Rightarrow> nat" where
  "runeSize s =
     (case s of
        [] \<Rightarrow> 0
      | a # cs \<Rightarrow>
          (case runeLen a of
             0 \<Rightarrow> 0
           | Suc m \<Rightarrow> if m \<le> length cs \<and> tailOk a (take m cs) then Suc m else 0))"

definition replacementChar :: string where
  "replacementChar = [CHR 0xEF, CHR 0xBF, CHR 0xBD]"

fun toValidUTF8 :: "string \<Rightarrow> string" where
  "toValidUTF8 [] = []"
| "toValidUTF8 (a # cs) =
     (case runeSize (a # cs) of
        0 \<Rightarrow> replacementChar @ toValidUTF8 cs
      | Suc m \<Rightarrow> a # take m cs @ toValidUTF8 (drop m cs))"

text \<open>\<open>utf8.ValidString\<close>: every byte belongs to a well-formed encoding.\<close>

fun validUTF8 :: "string \<Rightarrow> bool" where
  "validUTF8 [] = True"
| "validUTF8 (a # cs) =
     (case runeSize (a # cs) of 0 \<Rightarrow> False | Suc m \<Rightarrow> validUTF8 (drop m cs))"

text \<open>
  \<open>json.Unmarshal\<close> into a struct matches an object key against the JSON names of the
  fields, exactly or else by case folding. All field names of both records are ASCII, and
  they stay distinct under folding, so a key selects the field whose folded name equals the
  folded key. Folding maps ASCII letters to upper case; the only other characters that fold
  to an ASCII letter are U+212A (Kelvin sign, bytes E2 84 AA) to K and U+017F (long s,
  bytes C5 BF) to S.
\<close>

definition asciiUpper :: "char \<Rightarrow> char" where
  "asciiUpper c =
     (if CHR ''a'' \<le> c \<and> c \<le> CHR ''z'' then char_of (of_char c - (32::nat)) else c)"

fun foldName :: "string \<Rightarrow> string" where
  "foldName (a # b # c # cs) =
     (if a = CHR 0xE2 \<and> b = CHR 0x84 \<and> c = CHR 0xAA then CHR ''K'' # foldName cs
      else if a = CHR 0xC5 \<and> b = CHR 0xBF then CHR ''S'' # foldName (c # cs)
      else asciiUpper a # foldName (b # c # cs))"
| "foldName [a, b] =
     (if a = CHR 0xC5 \<and> b = CHR 0xBF then [CHR ''S''] else asciiUpper a # foldName [b])"
| "foldName [a] = [asciiUpper a]"
| "foldName [] = []"

definition keyMatches :: "string \<Rightarrow> string \<Rightarrow> bool" where
  "keyMatches name key = (foldName key = foldName name)"

text \<open>
  Decoding one string field: the members of the object are visited in order; a member
  whose key selects the field and whose value is a JSON string overwrites the field
  (with the string coerced to valid UTF-8), a
  \<open>null\<close> leaves it as it is, and any other value leaves it as it is and makes the whole
  \<open>Unmarshal\<close> return an error (\<open>typeMismatch\<close>). Keys that select no field are skipped.
\<close>

fun decodeField :: "string \<Rightarrow> (string \<times> json) list \<Rightarrow> string \<Rightarrow> string" where
  "decodeField name [] cur = cur"
| "decodeField name ((key, v) # ms) cur =
     (if keyMatches name key
      then (case v of
              JString s \<Rightarrow> decodeField name ms (toValidUTF8 s)
            | _ \<Rightarrow> decodeField name ms cur)
      else decodeField name ms cur)"

fun isStringOrNull :: "json \<Rightarrow> bool" where
  "isStringOrNull (JString s) = True"
| "isStringOrNull JNull = True"
| "isStringOrNull _ = False"

definition typeMismatch :: "string list \<Rightarrow> (string \<times> json) list \<Rightarrow> bool" where
  "typeMismatch names ms =
     list_ex (\<lambda>(key, v). list_ex (\<lambda>name. keyMatches name key) names \<and> \<not> isStringOrNull v) ms"

section \<open>The transaction context\<close>

text \<open>
  \<open>contractapi.TransactionContextInterface\<close> gives a contract the caller's identity and
  the ledger stub. Both are external to the contracts; they are modelled by their
  interface:
  \<^item> \<open>clientMSPID\<close>: what \<open>GetClientIdentity().GetMSPID()\<close> returns, \<open>None\<close> when it
    returns an error;
  \<^item> \<open>world\<close>: the world state, a finite map from keys to byte strings;
  \<^item> \<open>fault\<close>: the stub calls that the ledger answers with an error (for reasons outside
    the contract: a lost peer connection, a key the platform refuses);
  \<^item> \<open>trace\<close>: the stub calls made so far, oldest first.
\<close>

datatype stub_call =
  GetStateCall string | PutStateCall string | DelStateCall string
  | GetStateByRangeCall string string | NextCall string | CloseCall

record ctx =
  clientMSPID :: "string option"
  fault :: "stub_call \<Rightarrow> bool"
  world :: "(string, bytes) mapping"
  trace :: "stub_call list"

definition logCall :: "stub_call \<Rightarrow> ctx \<Rightarrow> ctx" where
  "logCall c ctx = ctx\<lparr>trace := trace ctx @ [c]\<rparr>"

definition GetState :: "ctx \<Rightarrow> string \<Rightarrow> (error + bytes option) \<times> ctx" where
  "GetState ctx key =
     (if fault ctx (GetStateCall key) then (Inl StorageError, logCall (GetStateCall key) ctx)
      else (Inr (Mapping.lookup (world ctx) key), logCall (GetStateCall key) ctx))"

definition PutState :: "ctx \<Rightarrow> string \<Rightarrow> bytes \<Rightarrow> (error + unit) \<times> ctx" where
  "PutState ctx key val =
     (if fault ctx (PutStateCall key) then (Inl StorageError, logCall (PutStateCall key) ctx)
      else (Inr (),
            logCall (PutStateCall key) (ctx\<lparr>world := Mapping.update key val (world ctx)\<rparr>)))"

definition DelState :: "ctx \<Rightarrow> string \<Rightarrow> (error + unit) \<times> ctx" where
  "DelState ctx key =
     (if fault ctx (DelStateCall key) then (Inl StorageError, logCall (DelStateCall key) ctx)
      else (Inr (),
            logCall (DelStateCall key) (ctx\<lparr>world := Mapping.delete key (world ctx)\<rparr>)))"

text \<open>
  A range query yields the entries in key order, from \<open>startKey\<close> (inclusive) to \<open>endKey\<close>
  (exclusive); an empty bound is open. The iterator is the list of entries still to come:
  \<open>HasNext\<close> is "the list is not empty", \<open>Next\<close> takes its head.
\<close>

definition inRange :: "string \<Rightarrow> string \<Rightarrow> string \<Rightarrow> bool" where
  "inRange startKey endKey key = (startKey \<le> key \<and> (endKey = [] \<or> key < endKey))"

definition GetStateByRange ::
  "ctx \<Rightarrow> string \<Rightarrow> string \<Rightarrow> (error + (string \<times> bytes) list) \<times> ctx" where
  "GetStateByRange ctx startKey endKey =
     (if fault ctx (GetStateByRangeCall startKey endKey)
      then (Inl StorageError, logCall (GetStateByRangeCall startKey endKey) ctx)
      else (Inr (filter (\<lambda>(key, val). inRange startKey endKey key)
                   (Mapping.ordered_entries (world ctx))),
            logCall (GetStateByRangeCall startKey endKey) ctx))"

definition Next :: "ctx \<Rightarrow> string \<times> bytes \<Rightarrow> (error + string \<times> bytes) \<times> ctx" where
  "Next ctx entry =
     (if fault ctx (NextCall (fst entry)) then (Inl StorageError, logCall (NextCall (fst entry)) ctx)
      else (Inr entry, logCall (NextCall (fst entry)) ctx))"

definition Close :: "ctx \<Rightarrow> ctx" where
  "Close ctx = logCall CloseCall ctx"

section \<open>fir-record/chaincode-go/smartcontract.go\<close>

record FIR =
  Accused :: string
  CrimeType :: string
  Description :: string
  FiledBy :: string
  FIRID :: string
  Status :: string
  Timestamp :: string

definition FIR_names :: "string list" where
  "FIR_names =
     [''Accused'', ''CrimeType'', ''Description'', ''FiledBy'', ''FIRID'', ''Status'',
      ''Timestamp'']"

text \<open>\<open>json.Marshal(fir)\<close>: an object with the fields in declaration order, each string
  coerced to valid UTF-8; it cannot fail on a struct of strings.\<close>

definition FIR_bytes :: "FIR \<Rightarrow> bytes" where
  "FIR_bytes fir =
     Doc (JObject
       [(''Accused'', JString (toValidUTF8 (Accused fir))),
        (''CrimeType'', JString (toValidUTF8 (CrimeType fir))),
        (''Description'', JString (toValidUTF8 (Description fir))),
        (''FiledBy'', JString (toValidUTF8 (FiledBy fir))),
        (''FIRID'', JString (toValidUTF8 (FIRID fir))),
        (''Status'', JString (toValidUTF8 (Status fir))),
        (''Timestamp'', JString (toValidUTF8 (Timestamp fir)))])"

definition Marshal_FIR :: "FIR \<Rightarrow> error + bytes" where
  "Marshal_FIR fir = Inr (FIR_bytes fir)"

text \<open>\<open>json.Unmarshal(firJSON, &fir)\<close> on a fresh (all-empty) \<open>fir\<close>.\<close>

definition Unmarshal_FIR :: "bytes \<Rightarrow> error + FIR" where
  "Unmarshal_FIR b =
     (case b of
        Malformed \<Rightarrow> Inl SerializationError
      | Doc JNull \<Rightarrow>
          Inr \<lparr>Accused = [], CrimeType = [], Description = [], FiledBy = [], FIRID = [],
               Status = [], Timestamp = []\<rparr>
      | Doc (JObject ms) \<Rightarrow>
          (if typeMismatch FIR_names ms then Inl SerializationError
           else Inr \<lparr>Accused = decodeField ''Accused'' ms [],
                     CrimeType = decodeField ''CrimeType'' ms [],
                     Description = decodeField ''Description'' ms [],
                     FiledBy = decodeField ''FiledBy'' ms [],
                     FIRID = decodeField ''FIRID'' ms [],
                     Status = decodeField ''Status'' ms [],
                     Timestamp = decodeField ''Timestamp'' ms []\<rparr>)
      | Doc _ \<Rightarrow> Inl SerializationError)"

text \<open>What a record becomes when it is marshalled and unmarshalled again, and the
  records that this leaves as they are.\<close>

definition FIR_coerced :: "FIR \<Rightarrow> FIR" where
  "FIR_coerced fir =
     \<lparr>Accused = toValidUTF8 (Accused fir), CrimeType = toValidUTF8 (CrimeType fir),
      Description = toValidUTF8 (Description fir), FiledBy = toValidUTF8 (FiledBy fir),
      FIRID = toValidUTF8 (FIRID fir), Status = toValidUTF8 (Status fir),
      Timestamp = toValidUTF8 (Timestamp fir)\<rparr>"

definition FIR_valid :: "FIR \<Rightarrow> bool" where
  "FIR_valid fir =
     list_all validUTF8
       [Accused fir, CrimeType fir, Description fir, FiledBy fir, FIRID fir, Status fir,
        Timestamp fir]"

definition fir_getMSPID :: "ctx \<Rightarrow> error + string" where
  "fir_getMSPID ctx = (case clientMSPID ctx of None \<Rightarrow> Inl IdentityError | Some m \<Rightarrow> Inr m)"

definition fir_onlyPolice :: "ctx \<Rightarrow> error + unit" where
  "fir_onlyPolice ctx =
     (case fir_getMSPID ctx of
        Inl err \<Rightarrow> Inl AuthorizationDenied
      | Inr mspid \<Rightarrow> if mspid \<noteq> ''Org1MSP'' then Inl AuthorizationDenied else Inr ())"

fun fir_putAll :: "ctx \<Rightarrow> FIR list \<Rightarrow> (error + unit) \<times> ctx" where
  "fir_putAll ctx [] = (Inr (), ctx)"
| "fir_putAll ctx (fir # firs) =
     (case Marshal_FIR fir of
        Inl err \<Rightarrow> (Inl err, ctx)
      | Inr firJSON \<Rightarrow>
          (case PutState ctx (FIRID fir) firJSON of
             (Inl err, ctx1) \<Rightarrow> (Inl StorageError, ctx1)
           | (Inr u, ctx1) \<Rightarrow> fir_putAll ctx1 firs))"

definition fir_seed :: "FIR list" where
  "fir_seed =
     [\<lparr>Accused = ''John Doe'', CrimeType = ''Theft'', Description = ''Stolen bike'',
       FiledBy = ''OfficerA'', FIRID = ''FIR1'', Status = ''Open'',
       Timestamp = ''2024-01-01T10:00:00Z''\<rparr>,
      \<lparr>Accused = ''Jane Smith'', CrimeType = ''Assault'',
       Description = ''Physical altercation'', FiledBy = ''OfficerB'', FIRID = ''FIR2'',
       Status = ''Investigation'', Timestamp = ''2024-01-02T14:30:00Z''\<rparr>]"

definition fir_InitLedger :: "ctx \<Rightarrow> (error + unit) \<times> ctx" where
  "fir_InitLedger ctx = fir_putAll ctx fir_seed"

definition FIRExists :: "ctx \<Rightarrow> string \<Rightarrow> (error + bool) \<times> ctx" where
  "FIRExists ctx firID =
     (case GetState ctx firID of
        (Inl err, ctx1) \<Rightarrow> (Inl StorageError, ctx1)
      | (Inr firJSON, ctx1) \<Rightarrow> (Inr (firJSON \<noteq> None), ctx1))"

definition FileFIR ::
  "[ctx, string, string, string, string, string, string, string]
     \<Rightarrow> (error + unit) \<times> ctx" where
  "FileFIR ctx firID filedBy accused crimeType description status timestamp =
     (case fir_onlyPolice ctx of
        Inl err \<Rightarrow> (Inl err, ctx)
      | Inr u \<Rightarrow>
          (case FIRExists ctx firID of
             (Inl err, ctx1) \<Rightarrow> (Inl err, ctx1)
           | (Inr exists, ctx1) \<Rightarrow>
               if exists then (Inl AlreadyExists, ctx1)
               else (case Marshal_FIR
                            \<lparr>Accused = accused, CrimeType = crimeType,
                             Description = description, FiledBy = filedBy, FIRID = firID,
                             Status = status, Timestamp = timestamp\<rparr> of
                       Inl err \<Rightarrow> (Inl err, ctx1)
                     | Inr firJSON \<Rightarrow> PutState ctx1 firID firJSON)))"

definition ReadFIR :: "ctx \<Rightarrow> string \<Rightarrow> (error + FIR) \<times> ctx" where
  "ReadFIR ctx firID =
     (case GetState ctx firID of
        (Inl err, ctx1) \<Rightarrow> (Inl StorageError, ctx1)
      | (Inr None, ctx1) \<Rightarrow> (Inl NotFound, ctx1)
      | (Inr (Some firJSON), ctx1) \<Rightarrow>
          (case Unmarshal_FIR firJSON of
             Inl err \<Rightarrow> (Inl err, ctx1)
           | Inr fir \<Rightarrow> (Inr fir, ctx1)))"

definition UpdateFIR :: "ctx \<Rightarrow> string \<Rightarrow> string \<Rightarrow> (error + unit) \<times> ctx" where
  "UpdateFIR ctx firID status =
     (case fir_onlyPolice ctx of
        Inl err \<Rightarrow> (Inl err, ctx)
      | Inr u \<Rightarrow>
          (case ReadFIR ctx firID of
             (Inl err, ctx1) \<Rightarrow> (Inl err, ctx1)
           | (Inr fir, ctx1) \<Rightarrow>
               (case Marshal_FIR (fir\<lparr>Status := status\<rparr>) of
                  Inl err \<Rightarrow> (Inl err, ctx1)
                | Inr updatedJSON \<Rightarrow> PutState ctx1 firID updatedJSON)))"

definition DeleteFIR :: "ctx \<Rightarrow> string \<Rightarrow> (error + unit) \<times> ctx" where
  "DeleteFIR ctx firID =
     (case fir_onlyPolice ctx of
        Inl err \<Rightarrow> (Inl err, ctx)
      | Inr u \<Rightarrow>
          (case FIRExists ctx firID of
             (Inl err, ctx1) \<Rightarrow> (Inl err, ctx1)
           | (Inr exists, ctx1) \<Rightarrow>
               if \<not> exists then (Inl NotFound, ctx1) else DelState ctx1 firID))"

fun fir_collect :: "ctx \<Rightarrow> (string \<times> bytes) list \<Rightarrow> FIR list \<Rightarrow> (error + FIR list) \<times> ctx" where
  "fir_collect ctx [] firs = (Inr firs, ctx)"
| "fir_collect ctx (entry # resultsIterator) firs =
     (case Next ctx entry of
        (Inl err, ctx1) \<Rightarrow> (Inl err, ctx1)
      | (Inr queryResponse, ctx1) \<Rightarrow>
          (case Unmarshal_FIR (snd queryResponse) of
             Inl err \<Rightarrow> (Inl err, ctx1)
           | Inr fir \<Rightarrow> fir_collect ctx1 resultsIterator (firs @ [fir])))"

definition GetAllFIRs :: "ctx \<Rightarrow> (error + FIR list) \<times> ctx" where
  "GetAllFIRs ctx =
     (case GetStateByRange ctx [] [] of
        (Inl err, ctx1) \<Rightarrow> (Inl err, ctx1)
      | (Inr resultsIterator, ctx1) \<Rightarrow>
          (case fir_collect ctx1 resultsIterator [] of
             (res, ctx2) \<Rightarrow> (res, Close ctx2)))"

section \<open>policeman-record/chaincode-go/smartcontract.go\<close>

record PolicePersonnel =
  OfficerID :: string
  Name :: string
  Rank :: string
  DOB :: string
  Posting :: string
  BadgeNumber :: string
  EmploymentStatus :: string
  DateOfJoining :: string
  Award :: string
  Suspension :: string
  LastUpdatedBy :: string
  LastUpdatedOn :: string

definition PolicePersonnel_names :: "string list" where
  "PolicePersonnel_names =
     [''officerId'', ''name'', ''rank'', ''dob'', ''posting'', ''badgeNumber'',
      ''employmentStatus'', ''dateOfJoining'', ''award'', ''suspension'', ''lastUpdatedBy'',
      ''lastUpdatedOn'']"

text \<open>\<open>json.Marshal(p)\<close>: the fields in declaration order under their \<open>json\<close> tags,
  each string coerced to valid UTF-8.\<close>

definition PolicePersonnel_bytes :: "PolicePersonnel \<Rightarrow> bytes" where
  "PolicePersonnel_bytes p =
     Doc (JObject
       [(''officerId'', JString (toValidUTF8 (OfficerID p))),
        (''name'', JString (toValidUTF8 (Name p))),
        (''rank'', JString (toValidUTF8 (Rank p))),
        (''dob'', JString (toValidUTF8 (DOB p))),
        (''posting'', JString (toValidUTF8 (Posting p))),
        (''badgeNumber'', JString (toValidUTF8 (BadgeNumber p))),
        (''employmentStatus'', JString (toValidUTF8 (EmploymentStatus p))),
        (''dateOfJoining'', JString (toValidUTF8 (DateOfJoining p))),
        (''award'', JString (toValidUTF8 (Award p))),
        (''suspension'', JString (toValidUTF8 (Suspension p))),
        (''lastUpdatedBy'', JString (toValidUTF8 (LastUpdatedBy p))),
        (''lastUpdatedOn'', JString (toValidUTF8 (LastUpdatedOn p)))])"

definition Marshal_PolicePersonnel :: "PolicePersonnel \<Rightarrow> error + bytes" where
  "Marshal_PolicePersonnel p = Inr (PolicePersonnel_bytes p)"

definition Unmarshal_PolicePersonnel :: "bytes \<Rightarrow> error + PolicePersonnel" where
  "Unmarshal_PolicePersonnel b =
     (case b of
        Malformed \<Rightarrow> Inl SerializationError
      | Doc JNull \<Rightarrow>
          Inr \<lparr>OfficerID = [], Name = [], Rank = [], DOB = [], Posting = [],
               BadgeNumber = [], EmploymentStatus = [], DateOfJoining = [], Award = [],
               Suspension = [], LastUpdatedBy = [], LastUpdatedOn = []\<rparr>
      | Doc (JObject ms) \<Rightarrow>
          (if typeMismatch PolicePersonnel_names ms then Inl SerializationError
           else Inr \<lparr>OfficerID = decodeField ''officerId'' ms [],
                     Name = decodeField ''name'' ms [],
                     Rank = decodeField ''rank'' ms [],
                     DOB = decodeField ''dob'' ms [],
                     Posting = decodeField ''posting'' ms [],
                     BadgeNumber = decodeField ''badgeNumber'' ms [],
                     EmploymentStatus = decodeField ''employmentStatus'' ms [],
                     DateOfJoining = decodeField ''dateOfJoining'' ms [],
                     Award = decodeField ''award'' ms [],
                     Suspension = decodeField ''suspension'' ms [],
                     LastUpdatedBy = decodeField ''lastUpdatedBy'' ms [],
                     LastUpdatedOn = decodeField ''lastUpdatedOn'' ms []\<rparr>)
      | Doc _ \<Rightarrow> Inl SerializationError)"

definition PolicePersonnel_coerced :: "PolicePersonnel \<Rightarrow> PolicePersonnel" where
  "PolicePersonnel_coerced p =
     \<lparr>OfficerID = toValidUTF8 (OfficerID p), Name = toValidUTF8 (Name p),
      Rank = toValidUTF8 (Rank p), DOB = toValidUTF8 (DOB p),
      Posting = toValidUTF8 (Posting p), BadgeNumber = toValidUTF8 (BadgeNumber p),
      EmploymentStatus = toValidUTF8 (EmploymentStatus p),
      DateOfJoining = toValidUTF8 (DateOfJoining p), Award = toValidUTF8 (Award p),
      Suspension = toValidUTF8 (Suspension p), LastUpdatedBy = toValidUTF8 (LastUpdatedBy p),
      LastUpdatedOn = toValidUTF8 (LastUpdatedOn p)\<rparr>"

definition PolicePersonnel_valid :: "PolicePersonnel \<Rightarrow> bool" where
  "PolicePersonnel_valid p =
     list_all validUTF8
       [OfficerID p, Name p, Rank p, DOB p, Posting p, BadgeNumber p, EmploymentStatus p,
        DateOfJoining p, Award p, Suspension p, LastUpdatedBy p, LastUpdatedOn p]"

definition personnel_getMSPID :: "ctx \<Rightarrow> error + string" where
  "personnel_getMSPID ctx =
     (case clientMSPID ctx of None \<Rightarrow> Inl IdentityError | Some m \<Rightarrow> Inr m)"

definition personnel_onlyPolice :: "ctx \<Rightarrow> error + unit" where
  "personnel_onlyPolice ctx =
     (case personnel_getMSPID ctx of
        Inl err \<Rightarrow> Inl AuthorizationDenied
      | Inr mspid \<Rightarrow> if mspid \<noteq> ''Org1MSP'' then Inl AuthorizationDenied else Inr ())"

fun personnel_putAll :: "ctx \<Rightarrow> PolicePersonnel list \<Rightarrow> (error + unit) \<times> ctx" where
  "personnel_putAll ctx [] = (Inr (), ctx)"
| "personnel_putAll ctx (p # ps) =
     (case Marshal_PolicePersonnel p of
        Inl err \<Rightarrow> (Inl err, ctx)
      | Inr pJSON \<Rightarrow>
          (case PutState ctx (OfficerID p) pJSON of
             (Inl err, ctx1) \<Rightarrow> (Inl StorageError, ctx1)
           | (Inr u, ctx1) \<Rightarrow> personnel_putAll ctx1 ps))"

definition personnel_seed :: "PolicePersonnel list" where
  "personnel_seed =
     [\<lparr>OfficerID = ''POL12345'', Name = ''Inspector Anjali Mehta'', Rank = ''Inspector'',
       DOB = ''1985-08-15'', Posting = ''Cyber Crime Unit, Mumbai'',
       BadgeNumber = ''MUM-4521'', EmploymentStatus = ''Active'',
       DateOfJoining = ''2010-06-12'', Award = ''Gallantry Award 2018'', Suspension = [],
       LastUpdatedBy = ''Org1'', LastUpdatedOn = ''2025-04-06''\<rparr>]"

definition personnel_InitLedger :: "ctx \<Rightarrow> (error + unit) \<times> ctx" where
  "personnel_InitLedger ctx =
     (case personnel_onlyPolice ctx of
        Inl err \<Rightarrow> (Inl err, ctx)
      | Inr u \<Rightarrow> personnel_putAll ctx personnel_seed)"

definition PersonnelExists :: "ctx \<Rightarrow> string \<Rightarrow> (error + bool) \<times> ctx" where
  "PersonnelExists ctx officerID =
     (case GetState ctx officerID of
        (Inl err, ctx1) \<Rightarrow> (Inl StorageError, ctx1)
      | (Inr pJSON, ctx1) \<Rightarrow> (Inr (pJSON \<noteq> None), ctx1))"

definition CreatePolicePersonnel ::
  "[ctx, string, string, string, string, string, string, string, string, string, string,
      string, string] \<Rightarrow> (error + unit) \<times> ctx" where
  "CreatePolicePersonnel ctx officerID name rank dob posting badgeNumber employmentStatus
       dateOfJoining award suspension lastUpdatedBy lastUpdatedOn =
     (case personnel_onlyPolice ctx of
        Inl err \<Rightarrow> (Inl err, ctx)
      | Inr u \<Rightarrow>
          (case PersonnelExists ctx officerID of
             (Inl err, ctx1) \<Rightarrow> (Inl err, ctx1)
           | (Inr exists, ctx1) \<Rightarrow>
               if exists then (Inl AlreadyExists, ctx1)
               else (case Marshal_PolicePersonnel
                            \<lparr>OfficerID = officerID, Name = name, Rank = rank, DOB = dob,
                             Posting = posting, BadgeNumber = badgeNumber,
                             EmploymentStatus = employmentStatus,
                             DateOfJoining = dateOfJoining, Award = award,
                             Suspension = suspension, LastUpdatedBy = lastUpdatedBy,
                             LastUpdatedOn = lastUpdatedOn\<rparr> of
                       Inl err \<Rightarrow> (Inl err, ctx1)
                     | Inr pJSON \<Rightarrow> PutState ctx1 officerID pJSON)))"

definition ReadPolicePersonnel :: "ctx \<Rightarrow> string \<Rightarrow> (error + PolicePersonnel) \<times> ctx" where
  "ReadPolicePersonnel ctx officerID =
     (case personnel_onlyPolice ctx of
        Inl err \<Rightarrow> (Inl err, ctx)
      | Inr u \<Rightarrow>
          (case GetState ctx officerID of
             (Inl err, ctx1) \<Rightarrow> (Inl StorageError, ctx1)
           | (Inr None, ctx1) \<Rightarrow> (Inl NotFound, ctx1)
           | (Inr (Some pJSON), ctx1) \<Rightarrow>
               (case Unmarshal_PolicePersonnel pJSON of
                  Inl err \<Rightarrow> (Inl err, ctx1)
                | Inr personnel \<Rightarrow> (Inr personnel, ctx1))))"

definition UpdatePolicePersonnel ::
  "[ctx, string, string, string, string, string, string, string, string, string, string,
      string, string] \<Rightarrow> (error + unit) \<times> ctx" where
  "UpdatePolicePersonnel ctx officerID name rank dob posting badgeNumber employmentStatus
       dateOfJoining award suspension lastUpdatedBy lastUpdatedOn =
     (case personnel_onlyPolice ctx of
        Inl err \<Rightarrow> (Inl err, ctx)
      | Inr u \<Rightarrow>
          (case PersonnelExists ctx officerID of
             (Inl err, ctx1) \<Rightarrow> (Inl err, ctx1)
           | (Inr exists, ctx1) \<Rightarrow>
               if \<not> exists then (Inl NotFound, ctx1)
               else (case Marshal_PolicePersonnel
                            \<lparr>OfficerID = officerID, Name = name, Rank = rank, DOB = dob,
                             Posting = posting, BadgeNumber = badgeNumber,
                             EmploymentStatus = employmentStatus,
                             DateOfJoining = dateOfJoining, Award = award,
                             Suspension = suspension, LastUpdatedBy = lastUpdatedBy,
                             LastUpdatedOn = lastUpdatedOn\<rparr> of
                       Inl err \<Rightarrow> (Inl err, ctx1)
                     | Inr pJSON \<Rightarrow> PutState ctx1 officerID pJSON)))"

definition DeletePolicePersonnel :: "ctx \<Rightarrow> string \<Rightarrow> (error + unit) \<times> ctx" where
  "DeletePolicePersonnel ctx officerID =
     (case personnel_onlyPolice ctx of
        Inl err \<Rightarrow> (Inl err, ctx)
      | Inr u \<Rightarrow>
          (case PersonnelExists ctx officerID of
             (Inl err, ctx1) \<Rightarrow> (Inl err, ctx1)
           | (Inr exists, ctx1) \<Rightarrow>
               if \<not> exists then (Inl NotFound, ctx1) else DelState ctx1 officerID))"

fun personnel_collect ::
  "ctx \<Rightarrow> (string \<times> bytes) list \<Rightarrow> PolicePersonnel list
     \<Rightarrow> (error + PolicePersonnel list) \<times> ctx" where
  "personnel_collect ctx [] personnelList = (Inr personnelList, ctx)"
| "personnel_collect ctx (entry # resultsIterator) personnelList =
     (case Next ctx entry of
        (Inl err, ctx1) \<Rightarrow> (Inl err, ctx1)
      | (Inr queryResponse, ctx1) \<Rightarrow>
          (case Unmarshal_PolicePersonnel (snd queryResponse) of
             Inl err \<Rightarrow> (Inl err, ctx1)
           | Inr personnel \<Rightarrow>
               personnel_collect ctx1 resultsIterator (personnelList @ [personnel])))"

definition GetAllPersonnel :: "ctx \<Rightarrow> (error + PolicePersonnel list) \<times> ctx" where
  "GetAllPersonnel ctx =
     (case GetStateByRange ctx [] [] of
        (Inl err, ctx1) \<Rightarrow> (Inl err, ctx1)
      | (Inr resultsIterator, ctx1) \<Rightarrow>
          (case personnel_collect ctx1 resultsIterator [] of
             (res, ctx2) \<Rightarrow> (res, Close ctx2)))"

section \<open>Sequences of transactions\<close>

text \<open>
  A client submits one transaction after another; each runs on the world state the
  previous one left. \<open>fileAll\<close> and \<open>createAll\<close> submit one create call per record of
  a list, in order, and stop at the first call that fails.
\<close>

fun fileAll :: "ctx \<Rightarrow> FIR list \<Rightarrow> (error + unit) \<times> ctx" where
  "fileAll ctx [] = (Inr (), ctx)"
| "fileAll ctx (f # fs) =
     (case FileFIR ctx (FIRID f) (FiledBy f) (Accused f) (CrimeType f) (Description f)
             (Status f) (Timestamp f) of
        (Inl err, ctx1) \<Rightarrow> (Inl err, ctx1)
      | (Inr u, ctx1) \<Rightarrow> fileAll ctx1 fs)"

fun createAll :: "ctx \<Rightarrow> PolicePersonnel list \<Rightarrow> (error + unit) \<times> ctx" where
  "createAll ctx [] = (Inr (), ctx)"
| "createAll ctx (p # ps) =
     (case CreatePolicePersonnel ctx (OfficerID p) (Name p) (Rank p) (DOB p) (Posting p)
             (BadgeNumber p) (EmploymentStatus p) (DateOfJoining p) (Award p)
             (Suspension p) (LastUpdatedBy p) (LastUpdatedOn p) of
        (Inl err, ctx1) \<Rightarrow> (Inl err, ctx1)
      | (Inr u, ctx1) \<Rightarrow> createAll ctx1 ps)"

text \<open>
  A transaction names an operation of the contract and carries its string arguments.
  \<open>fir_invoke\<close> and \<open>personnel_invoke\<close> run it and keep the context it leaves. The world
  states a contract can reach are those obtained from the empty one by its own
  transactions, submitted by any caller and under any faults of the ledger; the writes of
  a transaction that fails midway are kept here, which only enlarges the set.
\<close>

datatype fir_tx =
  Tx_fir_InitLedger
  | Tx_FileFIR string string string string string string string
  | Tx_ReadFIR string
  | Tx_UpdateFIR string string
  | Tx_DeleteFIR string
  | Tx_FIRExists string
  | Tx_GetAllFIRs

fun fir_invoke :: "ctx \<Rightarrow> fir_tx \<Rightarrow> ctx" where
  "fir_invoke ctx Tx_fir_InitLedger = snd (fir_InitLedger ctx)"
| "fir_invoke ctx (Tx_FileFIR firID filedBy accused crimeType description status timestamp) =
     snd (FileFIR ctx firID filedBy accused crimeType description status timestamp)"
| "fir_invoke ctx (Tx_ReadFIR firID) = snd (ReadFIR ctx firID)"
| "fir_invoke ctx (Tx_UpdateFIR firID status) = snd (UpdateFIR ctx firID status)"
| "fir_invoke ctx (Tx_DeleteFIR firID) = snd (DeleteFIR ctx firID)"
| "fir_invoke ctx (Tx_FIRExists firID) = snd (FIRExists ctx firID)"
| "fir_invoke ctx Tx_GetAllFIRs = snd (GetAllFIRs ctx)"

inductive fir_reachable :: "(string, bytes) mapping \<Rightarrow> bool" where
  fir_empty: "fir_reachable Mapping.empty"
| fir_step: "fir_reachable (world ctx) \<Longrightarrow> fir_reachable (world (fir_invoke ctx tx))"

datatype personnel_tx =
  Tx_personnel_InitLedger
  | Tx_CreatePolicePersonnel string string string string string string string string
      string string string string
  | Tx_ReadPolicePersonnel string
  | Tx_UpdatePolicePersonnel string string string string string string string string
      string string string string
  | Tx_DeletePolicePersonnel string
  | Tx_PersonnelExists string
  | Tx_GetAllPersonnel

fun personnel_invoke :: "ctx \<Rightarrow> personnel_tx \<Rightarrow> ctx" where
  "personnel_invoke ctx Tx_personnel_InitLedger = snd (personnel_InitLedger ctx)"
| "personnel_invoke ctx
     (Tx_CreatePolicePersonnel officerID name rank dob posting badgeNumber employmentStatus
        dateOfJoining award suspension lastUpdatedBy lastUpdatedOn) =
     snd (CreatePolicePersonnel ctx officerID name rank dob posting badgeNumber
            employmentStatus dateOfJoining award suspension lastUpdatedBy lastUpdatedOn)"
| "personnel_invoke ctx (Tx_ReadPolicePersonnel officerID) =
     snd (ReadPolicePersonnel ctx officerID)"
| "personnel_invoke ctx
     (Tx_UpdatePolicePersonnel officerID name rank dob posting badgeNumber employmentStatus
        dateOfJoining award suspension lastUpdatedBy lastUpdatedOn) =
     snd (UpdatePolicePersonnel ctx officerID name rank dob posting badgeNumber
            employmentStatus dateOfJoining award suspension lastUpdatedBy lastUpdatedOn)"
| "personnel_invoke ctx (Tx_DeletePolicePersonnel officerID) =
     snd (DeletePolicePersonnel ctx officerID)"
| "personnel_invoke ctx (Tx_PersonnelExists officerID) = snd (PersonnelExists ctx officerID)"
| "personnel_invoke ctx Tx_GetAllPersonnel = snd (GetAllPersonnel ctx)"

inductive personnel_reachable :: "(string, bytes) mapping \<Rightarrow> bool" where
  personnel_empty: "personnel_reachable Mapping.empty"
| personnel_step:
    "personnel_reachable (world ctx) \<Longrightarrow> personnel_reachable (world (personnel_invoke ctx tx))"

text \<open>The world states reached when both contracts run their transactions on one and
  the same world state, as the specification describes the keyspace.\<close>

inductive shared_reachable :: "(string, bytes) mapping \<Rightarrow> bool" where
  shared_empty: "shared_reachable Mapping.empty"
| shared_fir: "shared_reachable (world ctx) \<Longrightarrow> shared_reachable (world (fir_invoke ctx tx))"
| shared_personnel:
    "shared_reachable (world ctx) \<Longrightarrow> shared_reachable (world (personnel_invoke ctx ptx))"

text \<open>Contexts for the concrete runs below: a caller of the given organization on the
  given world state, with a ledger that answers every call.\<close>

definition callerOn :: "string \<Rightarrow> (string, bytes) mapping \<Rightarrow> ctx" where
  "callerOn org w = \<lparr>clientMSPID = Some org, fault = (\<lambda>c. False), world = w, trace = []\<rparr>"

text \<open>The same with a ledger that refuses the empty key, as the Fabric shim does, and
  answers every other call.\<close>

definition strictCallerOn :: "string \<Rightarrow> (string, bytes) mapping \<Rightarrow> ctx" where
  "strictCallerOn org w =
     \<lparr>clientMSPID = Some org,
      fault = (\<lambda>c. c = GetStateCall [] \<or> c = PutStateCall [] \<or> c = DelStateCall []),
      world = w, trace = []\<rparr>"

section \<open>The JSON codec on the contracts' own documents\<close>

lemma foldName_FIR:
  "foldName ''Accused'' = ''ACCUSED''"
  "foldName ''CrimeType'' = ''CRIMETYPE''"
  "foldName ''Description'' = ''DESCRIPTION''"
  "foldName ''FiledBy'' = ''FILEDBY''"
  "foldName ''FIRID'' = ''FIRID''"
  "foldName ''Status'' = ''STATUS''"
  "foldName ''Timestamp'' = ''TIMESTAMP''"
  by code_simp+

lemma foldName_PolicePersonnel:
  "foldName ''officerId'' = ''OFFICERID''"
  "foldName ''name'' = ''NAME''"
  "foldName ''rank'' = ''RANK''"
  "foldName ''dob'' = ''DOB''"
  "foldName ''posting'' = ''POSTING''"
  "foldName ''badgeNumber'' = ''BADGENUMBER''"
  "foldName ''employmentStatus'' = ''EMPLOYMENTSTATUS''"
  "foldName ''dateOfJoining'' = ''DATEOFJOINING''"
  "foldName ''award'' = ''AWARD''"
  "foldName ''suspension'' = ''SUSPENSION''"
  "foldName ''lastUpdatedBy'' = ''LASTUPDATEDBY''"
  "foldName ''lastUpdatedOn'' = ''LASTUPDATEDON''"
  by code_simp+

declare foldName.simps [simp del]

subsection \<open>Coercion to valid UTF-8\<close>

lemma runeSize_le: "runeSize (a # cs) = Suc m \<Longrightarrow> m \<le> length cs"
  by (simp add: runeSize_def split: nat.splits if_splits)

lemma runeSize_prefix:
  assumes "runeSize (a # cs) = Suc m"
  shows "runeSize (a # take m cs @ t) = Suc m"
proof -
  from assms have len: "runeLen a = Suc m" and le: "m \<le> length cs"
    and ok: "tailOk a (take m cs)"
    by (simp_all add: runeSize_def split: nat.splits if_splits)
  from le have "take m (take m cs @ t) = take m cs"
    by simp
  with len le ok show ?thesis
    by (simp add: runeSize_def)
qed

lemma runeSize_replacement: "runeSize [CHR 0xEF, CHR 0xBF, CHR 0xBD] = Suc 2"
  by code_simp

lemma runeSize_replacementChar: "runeSize (replacementChar @ t) = Suc 2"
  using runeSize_prefix [OF runeSize_replacement, of t]
  by (simp add: replacementChar_def)

text \<open>Valid strings are left as they are, and the result of the coercion is valid, so
  coercing twice is coercing once.\<close>

lemma toValidUTF8_valid: "validUTF8 s \<Longrightarrow> toValidUTF8 s = s"
  by (induction s rule: validUTF8.induct) (simp_all split: nat.splits)

lemma validUTF8_toValidUTF8: "validUTF8 (toValidUTF8 s)"
proof (induction s rule: toValidUTF8.induct)
  case 1
  show ?case by simp
next
  case (2 a cs)
  show ?case
  proof (cases "runeSize (a # cs)")
    case 0
    then have "validUTF8 (toValidUTF8 cs)"
      by (rule "2.IH"(1))
    then have "validUTF8 (replacementChar @ toValidUTF8 cs)"
      using runeSize_replacementChar [of "toValidUTF8 cs"]
      by (simp add: replacementChar_def)
    then show ?thesis
      using 0 by simp
  next
    case (Suc m)
    then have ih: "validUTF8 (toValidUTF8 (drop m cs))"
      by (rule "2.IH"(2))
    have "m \<le> length cs"
      using Suc by (rule runeSize_le)
    then have "drop m (take m cs @ toValidUTF8 (drop m cs)) = toValidUTF8 (drop m cs)"
      by simp
    then show ?thesis
      using Suc ih runeSize_prefix [OF Suc, of "toValidUTF8 (drop m cs)"] by simp
  qed
qed

lemma toValidUTF8_idem [simp]: "toValidUTF8 (toValidUTF8 s) = toValidUTF8 s"
  by (simp add: toValidUTF8_valid validUTF8_toValidUTF8)

lemma toValidUTF8_invalid_byte: "toValidUTF8 [CHR 0xFF] = [CHR 0xEF, CHR 0xBF, CHR 0xBD]"
  by code_simp

declare toValidUTF8.simps(2) [simp del] validUTF8.simps(2) [simp del]

subsection \<open>Marshal, then Unmarshal\<close>

text \<open>Decoding what \<open>json.Marshal\<close> wrote gives the record with its strings coerced, for
  both kinds; a record of valid UTF-8 strings comes back as it was.\<close>

lemma Unmarshal_FIR_bytes [simp]: "Unmarshal_FIR (FIR_bytes fir) = Inr (FIR_coerced fir)"
  by (simp add: Unmarshal_FIR_def FIR_bytes_def FIR_coerced_def typeMismatch_def FIR_names_def
      keyMatches_def foldName_FIR)

lemma Unmarshal_PolicePersonnel_bytes [simp]:
  "Unmarshal_PolicePersonnel (PolicePersonnel_bytes p) = Inr (PolicePersonnel_coerced p)"
  by (simp add: Unmarshal_PolicePersonnel_def PolicePersonnel_bytes_def
      PolicePersonnel_coerced_def typeMismatch_def PolicePersonnel_names_def keyMatches_def
      foldName_PolicePersonnel)

lemma FIR_coerced_valid: "FIR_valid fir \<Longrightarrow> FIR_coerced fir = fir"
  by (simp add: FIR_valid_def FIR_coerced_def toValidUTF8_valid)

lemma PolicePersonnel_coerced_valid:
  "PolicePersonnel_valid p \<Longrightarrow> PolicePersonnel_coerced p = p"
  by (simp add: PolicePersonnel_valid_def PolicePersonnel_coerced_def toValidUTF8_valid)

lemma FIR_bytes_coerced [simp]: "FIR_bytes (FIR_coerced fir) = FIR_bytes fir"
  by (simp add: FIR_bytes_def FIR_coerced_def)

lemma FIR_bytes_coerced_Status [simp]:
  "FIR_bytes ((FIR_coerced fir)\<lparr>Status := s\<rparr>) = FIR_bytes (fir\<lparr>Status := s\<rparr>)"
  by (simp add: FIR_bytes_def FIR_coerced_def)

lemma PolicePersonnel_bytes_coerced [simp]:
  "PolicePersonnel_bytes (PolicePersonnel_coerced p) = PolicePersonnel_bytes p"
  by (simp add: PolicePersonnel_bytes_def PolicePersonnel_coerced_def)

text \<open>The only error of \<open>json.Unmarshal\<close> is a serialization error.\<close>

lemma Unmarshal_FIR_error: "Unmarshal_FIR b = Inl e \<Longrightarrow> e = SerializationError"
  by (auto simp: Unmarshal_FIR_def split: bytes.splits json.splits if_splits)

lemma Unmarshal_PolicePersonnel_error:
  "Unmarshal_PolicePersonnel b = Inl e \<Longrightarrow> e = SerializationError"
  by (auto simp: Unmarshal_PolicePersonnel_def split: bytes.splits json.splits if_splits)

section \<open>The stub calls\<close>

lemma logCall_simps [simp]:
  "clientMSPID (logCall c ctx) = clientMSPID ctx"
  "fault (logCall c ctx) = fault ctx"
  "world (logCall c ctx) = world ctx"
  "trace (logCall c ctx) = trace ctx @ [c]"
  by (simp_all add: logCall_def)

section \<open>The authorization gate\<close>

lemma fir_onlyPolice_eq:
  "fir_onlyPolice ctx =
     (if clientMSPID ctx = Some ''Org1MSP'' then Inr () else Inl AuthorizationDenied)"
  by (simp add: fir_onlyPolice_def fir_getMSPID_def split: option.splits)

lemma personnel_onlyPolice_eq:
  "personnel_onlyPolice ctx =
     (if clientMSPID ctx = Some ''Org1MSP'' then Inr () else Inl AuthorizationDenied)"
  by (simp add: personnel_onlyPolice_def personnel_getMSPID_def split: option.splits)

section \<open>What each operation computes\<close>

lemma FIRExists_eq:
  "FIRExists ctx k =
     (if fault ctx (GetStateCall k) then Inl StorageError
      else Inr (Mapping.lookup (world ctx) k \<noteq> None), logCall (GetStateCall k) ctx)"
  by (simp add: FIRExists_def GetState_def)

lemma PersonnelExists_eq:
  "PersonnelExists ctx k =
     (if fault ctx (GetStateCall k) then Inl StorageError
      else Inr (Mapping.lookup (world ctx) k \<noteq> None), logCall (GetStateCall k) ctx)"
  by (simp add: PersonnelExists_def GetState_def)

lemma FileFIR_eq:
  "FileFIR ctx k fb a ct d s t =
     (if clientMSPID ctx \<noteq> Some ''Org1MSP'' then (Inl AuthorizationDenied, ctx)
      else if fault ctx (GetStateCall k) then (Inl StorageError, logCall (GetStateCall k) ctx)
      else if Mapping.lookup (world ctx) k \<noteq> None
        then (Inl AlreadyExists, logCall (GetStateCall k) ctx)
      else PutState (logCall (GetStateCall k) ctx) k
             (FIR_bytes \<lparr>Accused = a, CrimeType = ct, Description = d, FiledBy = fb,
                FIRID = k, Status = s, Timestamp = t\<rparr>))"
  by (simp add: FileFIR_def fir_onlyPolice_eq FIRExists_eq Marshal_FIR_def)

lemma ReadFIR_eq:
  "ReadFIR ctx k =
     (if fault ctx (GetStateCall k) then Inl StorageError
      else case Mapping.lookup (world ctx) k of
             None \<Rightarrow> Inl NotFound
           | Some b \<Rightarrow> Unmarshal_FIR b,
      logCall (GetStateCall k) ctx)"
  by (simp add: ReadFIR_def GetState_def split: option.splits sum.splits)

lemma UpdateFIR_eq:
  "UpdateFIR ctx k s =
     (if clientMSPID ctx \<noteq> Some ''Org1MSP'' then (Inl AuthorizationDenied, ctx)
      else case fst (ReadFIR ctx k) of
             Inl e \<Rightarrow> (Inl e, logCall (GetStateCall k) ctx)
           | Inr fir \<Rightarrow>
               PutState (logCall (GetStateCall k) ctx) k (FIR_bytes (fir\<lparr>Status := s\<rparr>)))"
  by (simp add: UpdateFIR_def fir_onlyPolice_eq ReadFIR_eq Marshal_FIR_def
      split: option.splits sum.splits)

lemma DeleteFIR_eq:
  "DeleteFIR ctx k =
     (if clientMSPID ctx \<noteq> Some ''Org1MSP'' then (Inl AuthorizationDenied, ctx)
      else if fault ctx (GetStateCall k) then (Inl StorageError, logCall (GetStateCall k) ctx)
      else if Mapping.lookup (world ctx) k = None
        then (Inl NotFound, logCall (GetStateCall k) ctx)
      else DelState (logCall (GetStateCall k) ctx) k)"
  by (simp add: DeleteFIR_def fir_onlyPolice_eq FIRExists_eq)

lemma CreatePolicePersonnel_eq:
  "CreatePolicePersonnel ctx k n r dob po b es dj aw su lb lo =
     (if clientMSPID ctx \<noteq> Some ''Org1MSP'' then (Inl AuthorizationDenied, ctx)
      else if fault ctx (GetStateCall k) then (Inl StorageError, logCall (GetStateCall k) ctx)
      else if Mapping.lookup (world ctx) k \<noteq> None
        then (Inl AlreadyExists, logCall (GetStateCall k) ctx)
      else PutState (logCall (GetStateCall k) ctx) k
             (PolicePersonnel_bytes
                \<lparr>OfficerID = k, Name = n, Rank = r, DOB = dob, Posting = po,
                 BadgeNumber = b, EmploymentStatus = es, DateOfJoining = dj, Award = aw,
                 Suspension = su, LastUpdatedBy = lb, LastUpdatedOn = lo\<rparr>))"
  by (simp add: CreatePolicePersonnel_def personnel_onlyPolice_eq PersonnelExists_eq
      Marshal_PolicePersonnel_def)

lemma UpdatePolicePersonnel_eq:
  "UpdatePolicePersonnel ctx k n r dob po b es dj aw su lb lo =
     (if clientMSPID ctx \<noteq> Some ''Org1MSP'' then (Inl AuthorizationDenied, ctx)
      else if fault ctx (GetStateCall k) then (Inl StorageError, logCall (GetStateCall k) ctx)
      else if Mapping.lookup (world ctx) k = None
        then (Inl NotFound, logCall (GetStateCall k) ctx)
      else PutState (logCall (GetStateCall k) ctx) k
             (PolicePersonnel_bytes
                \<lparr>OfficerID = k, Name = n, Rank = r, DOB = dob, Posting = po,
                 BadgeNumber = b, EmploymentStatus = es, DateOfJoining = dj, Award = aw,
                 Suspension = su, LastUpdatedBy = lb, LastUpdatedOn = lo\<rparr>))"
  by (simp add: UpdatePolicePersonnel_def personnel_onlyPolice_eq PersonnelExists_eq
      Marshal_PolicePersonnel_def)

lemma ReadPolicePersonnel_eq:
  "ReadPolicePersonnel ctx k =
     (if clientMSPID ctx \<noteq> Some ''Org1MSP'' then (Inl AuthorizationDenied, ctx)
      else (if fault ctx (GetStateCall k) then Inl StorageError
            else case Mapping.lookup (world ctx) k of
                   None \<Rightarrow> Inl NotFound
                 | Some b \<Rightarrow> Unmarshal_PolicePersonnel b,
            logCall (GetStateCall k) ctx))"
  by (simp add: ReadPolicePersonnel_def personnel_onlyPolice_eq GetState_def
      split: option.splits sum.splits)

lemma DeletePolicePersonnel_eq:
  "DeletePolicePersonnel ctx k =
     (if clientMSPID ctx \<noteq> Some ''Org1MSP'' then (Inl AuthorizationDenied, ctx)
      else if fault ctx (GetStateCall k) then (Inl StorageError, logCall (GetStateCall k) ctx)
      else if Mapping.lookup (world ctx) k = None
        then (Inl NotFound, logCall (GetStateCall k) ctx)
      else DelState (logCall (GetStateCall k) ctx) k)"
  by (simp add: DeletePolicePersonnel_def personnel_onlyPolice_eq PersonnelExists_eq)

lemma PutState_fst:
  "fst (PutState ctx k v) = (if fault ctx (PutStateCall k) then Inl StorageError else Inr ())"
  by (simp add: PutState_def)

lemma DelState_fst:
  "fst (DelState ctx k) = (if fault ctx (DelStateCall k) then Inl StorageError else Inr ())"
  by (simp add: DelState_def)

lemma fir_putAll_fst:
  "fst (fir_putAll ctx firs) = Inr () \<or> fst (fir_putAll ctx firs) = Inl StorageError"
  by (induction firs arbitrary: ctx) (auto simp: Marshal_FIR_def PutState_def)

lemma personnel_putAll_fst:
  "fst (personnel_putAll ctx ps) = Inr () \<or> fst (personnel_putAll ctx ps) = Inl StorageError"
  by (induction ps arbitrary: ctx) (auto simp: Marshal_PolicePersonnel_def PutState_def)

lemma fir_collect_fst:
  "fst (fir_collect ctx it acc) \<noteq> Inl AuthorizationDenied"
  by (induction it arbitrary: ctx acc)
     (auto simp: Next_def split: sum.splits dest: Unmarshal_FIR_error)

lemma personnel_collect_fst:
  "fst (personnel_collect ctx it acc) \<noteq> Inl AuthorizationDenied"
  by (induction it arbitrary: ctx acc)
     (auto simp: Next_def split: sum.splits dest: Unmarshal_PolicePersonnel_error)

section \<open>Claims\<close>

lemma callerOn_simps [simp]:
  "clientMSPID (callerOn org w) = Some org"
  "fault (callerOn org w) c = False"
  "world (callerOn org w) = w"
  "trace (callerOn org w) = []"
  by (simp_all add: callerOn_def)

lemma read_error_not_denied:
  "fst (ReadFIR ctx k) = Inl e \<Longrightarrow> e \<noteq> AuthorizationDenied"
  by (auto simp: ReadFIR_eq split: if_splits option.splits dest: Unmarshal_FIR_error)

text \<open>
  Claim C1. On every context and for every argument list, each gated operation (personnel:
  InitLedger, Create, Read, Update, Delete; case records: FileFIR, UpdateFIR, DeleteFIR)
  lets a caller of \<open>Org1MSP\<close> past the gate: \<open>onlyPolice\<close> returns no error and the
  operation does not end in \<open>AuthorizationDenied\<close>. For any other caller (another
  organization, or an identity that cannot be read) it returns \<open>AuthorizationDenied\<close> and
  the context it was given, unchanged: same world state, and no stub call added to the
  trace.
\<close>

theorem C1_authorization_gate:
  "(clientMSPID ctx = Some ''Org1MSP'' \<longrightarrow>
      personnel_onlyPolice ctx = Inr () \<and> fir_onlyPolice ctx = Inr () \<and>
      fst (personnel_InitLedger ctx) \<noteq> Inl AuthorizationDenied \<and>
      fst (CreatePolicePersonnel ctx k n r dob po b es dj aw su lb lo)
        \<noteq> Inl AuthorizationDenied \<and>
      fst (ReadPolicePersonnel ctx k) \<noteq> Inl AuthorizationDenied \<and>
      fst (UpdatePolicePersonnel ctx k n r dob po b es dj aw su lb lo)
        \<noteq> Inl AuthorizationDenied \<and>
      fst (DeletePolicePersonnel ctx k) \<noteq> Inl AuthorizationDenied \<and>
      fst (FileFIR ctx k fb a ct d s t) \<noteq> Inl AuthorizationDenied \<and>
      fst (UpdateFIR ctx k s) \<noteq> Inl AuthorizationDenied \<and>
      fst (DeleteFIR ctx k) \<noteq> Inl AuthorizationDenied) \<and>
   (clientMSPID ctx \<noteq> Some ''Org1MSP'' \<longrightarrow>
      personnel_onlyPolice ctx = Inl AuthorizationDenied \<and>
      fir_onlyPolice ctx = Inl AuthorizationDenied \<and>
      personnel_InitLedger ctx = (Inl AuthorizationDenied, ctx) \<and>
      CreatePolicePersonnel ctx k n r dob po b es dj aw su lb lo
        = (Inl AuthorizationDenied, ctx) \<and>
      ReadPolicePersonnel ctx k = (Inl AuthorizationDenied, ctx) \<and>
      UpdatePolicePersonnel ctx k n r dob po b es dj aw su lb lo
        = (Inl AuthorizationDenied, ctx) \<and>
      DeletePolicePersonnel ctx k = (Inl AuthorizationDenied, ctx) \<and>
      FileFIR ctx k fb a ct d s t = (Inl AuthorizationDenied, ctx) \<and>
      UpdateFIR ctx k s = (Inl AuthorizationDenied, ctx) \<and>
      DeleteFIR ctx k = (Inl AuthorizationDenied, ctx))"
proof (intro conjI impI)
  assume org1: "clientMSPID ctx = Some ''Org1MSP''"
  show "personnel_onlyPolice ctx = Inr ()" "fir_onlyPolice ctx = Inr ()"
    using org1 by (simp_all add: personnel_onlyPolice_eq fir_onlyPolice_eq)
  show "fst (personnel_InitLedger ctx) \<noteq> Inl AuthorizationDenied"
    using org1 personnel_putAll_fst [of ctx personnel_seed]
    by (auto simp: personnel_InitLedger_def personnel_onlyPolice_eq)
  show "fst (CreatePolicePersonnel ctx k n r dob po b es dj aw su lb lo)
          \<noteq> Inl AuthorizationDenied"
    using org1 by (simp add: CreatePolicePersonnel_eq PutState_fst)
  show "fst (ReadPolicePersonnel ctx k) \<noteq> Inl AuthorizationDenied"
    using org1
    by (auto simp: ReadPolicePersonnel_eq split: option.splits
        dest: Unmarshal_PolicePersonnel_error)
  show "fst (UpdatePolicePersonnel ctx k n r dob po b es dj aw su lb lo)
          \<noteq> Inl AuthorizationDenied"
    using org1 by (simp add: UpdatePolicePersonnel_eq PutState_fst)
  show "fst (DeletePolicePersonnel ctx k) \<noteq> Inl AuthorizationDenied"
    using org1 by (simp add: DeletePolicePersonnel_eq DelState_fst)
  show "fst (FileFIR ctx k fb a ct d s t) \<noteq> Inl AuthorizationDenied"
    using org1 by (simp add: FileFIR_eq PutState_fst)
  show "fst (UpdateFIR ctx k s) \<noteq> Inl AuthorizationDenied"
    using org1 read_error_not_denied [of ctx k]
    by (auto simp: UpdateFIR_eq PutState_fst split: sum.splits)
  show "fst (DeleteFIR ctx k) \<noteq> Inl AuthorizationDenied"
    using org1 by (simp add: DeleteFIR_eq DelState_fst)
next
  assume other: "clientMSPID ctx \<noteq> Some ''Org1MSP''"
  show "personnel_onlyPolice ctx = Inl AuthorizationDenied"
    "fir_onlyPolice ctx = Inl AuthorizationDenied"
    using other by (simp_all add: personnel_onlyPolice_eq fir_onlyPolice_eq)
  show "personnel_InitLedger ctx = (Inl AuthorizationDenied, ctx)"
    using other by (simp add: personnel_InitLedger_def personnel_onlyPolice_eq)
  show "CreatePolicePersonnel ctx k n r dob po b es dj aw su lb lo
          = (Inl AuthorizationDenied, ctx)"
    using other by (simp add: CreatePolicePersonnel_eq)
  show "ReadPolicePersonnel ctx k = (Inl AuthorizationDenied, ctx)"
    using other by (simp add: ReadPolicePersonnel_eq)
  show "UpdatePolicePersonnel ctx k n r dob po b es dj aw su lb lo
          = (Inl AuthorizationDenied, ctx)"
    using other by (simp add: UpdatePolicePersonnel_eq)
  show "DeletePolicePersonnel ctx k = (Inl AuthorizationDenied, ctx)"
    using other by (simp add: DeletePolicePersonnel_eq)
  show "FileFIR ctx k fb a ct d s t = (Inl AuthorizationDenied, ctx)"
    using other by (simp add: FileFIR_eq)
  show "UpdateFIR ctx k s = (Inl AuthorizationDenied, ctx)"
    using other by (simp add: UpdateFIR_eq)
  show "DeleteFIR ctx k = (Inl AuthorizationDenied, ctx)"
    using other by (simp add: DeleteFIR_eq)
qed

theorem C1_witness:
  "clientMSPID (callerOn ''Org1MSP'' Mapping.empty) = Some ''Org1MSP'' \<and>
   personnel_onlyPolice (callerOn ''Org1MSP'' Mapping.empty) = Inr () \<and>
   fir_onlyPolice (callerOn ''Org1MSP'' Mapping.empty) = Inr () \<and>
   fst (FileFIR (callerOn ''Org1MSP'' Mapping.empty) ''FIR3'' ''OfficerC'' ''Robbery''
          ''Bank robbery at downtown'' ''Alex Murphy'' ''Open'' ''2024-01-03T12:00:00Z'')
     \<noteq> Inl AuthorizationDenied \<and>
   clientMSPID (callerOn ''Org2MSP'' Mapping.empty) \<noteq> Some ''Org1MSP'' \<and>
   FileFIR (callerOn ''Org2MSP'' Mapping.empty) ''FIR3'' ''OfficerC'' ''Robbery''
       ''Bank robbery at downtown'' ''Alex Murphy'' ''Open'' ''2024-01-03T12:00:00Z''
     = (Inl AuthorizationDenied, callerOn ''Org2MSP'' Mapping.empty) \<and>
   ReadPolicePersonnel (callerOn ''Org2MSP'' Mapping.empty) ''FIR3''
     = (Inl AuthorizationDenied, callerOn ''Org2MSP'' Mapping.empty) \<and>
   personnel_InitLedger (callerOn ''Org2MSP'' Mapping.empty)
     = (Inl AuthorizationDenied, callerOn ''Org2MSP'' Mapping.empty)"
proof -
  have org1: "clientMSPID (callerOn ''Org1MSP'' Mapping.empty) = Some ''Org1MSP''"
    by simp
  have org2: "clientMSPID (callerOn ''Org2MSP'' Mapping.empty) \<noteq> Some ''Org1MSP''"
    by simp
  note passed =
    C1_authorization_gate [where ctx = "callerOn ''Org1MSP'' Mapping.empty"
      and k = "''FIR3''" and fb = "''OfficerC''" and a = "''Robbery''"
      and ct = "''Bank robbery at downtown''" and d = "''Alex Murphy''" and s = "''Open''"
      and t = "''2024-01-03T12:00:00Z''", THEN conjunct1, THEN mp, OF org1]
  note denied =
    C1_authorization_gate [where ctx = "callerOn ''Org2MSP'' Mapping.empty"
      and k = "''FIR3''" and fb = "''OfficerC''" and a = "''Robbery''"
      and ct = "''Bank robbery at downtown''" and d = "''Alex Murphy''" and s = "''Open''"
      and t = "''2024-01-03T12:00:00Z''", THEN conjunct2, THEN mp, OF org2]
  show ?thesis
    using org1 org2 passed denied by simp
qed

subsection \<open>Operations that never consult the caller's identity\<close>

lemma PutState_clientMSPID:
  "PutState (ctx\<lparr>clientMSPID := m\<rparr>) k v =
     (fst (PutState ctx k v), (snd (PutState ctx k v))\<lparr>clientMSPID := m\<rparr>)"
  by (simp add: PutState_def logCall_def)

lemma Next_clientMSPID:
  "Next (ctx\<lparr>clientMSPID := m\<rparr>) e =
     (fst (Next ctx e), (snd (Next ctx e))\<lparr>clientMSPID := m\<rparr>)"
  by (simp add: Next_def logCall_def)

lemma fir_putAll_clientMSPID:
  "fir_putAll (ctx\<lparr>clientMSPID := m\<rparr>) firs =
     (fst (fir_putAll ctx firs), (snd (fir_putAll ctx firs))\<lparr>clientMSPID := m\<rparr>)"
proof (induction firs arbitrary: ctx)
  case Nil
  show ?case by simp
next
  case (Cons fir firs)
  show ?case
  proof (cases "PutState ctx (FIRID fir) (FIR_bytes fir)")
    case (Pair r c)
    then have "PutState (ctx\<lparr>clientMSPID := m\<rparr>) (FIRID fir) (FIR_bytes fir)
                 = (r, c\<lparr>clientMSPID := m\<rparr>)"
      by (simp add: PutState_clientMSPID)
    then show ?thesis
      using Pair Cons.IH [of c] by (cases r) (simp_all add: Marshal_FIR_def)
  qed
qed

lemma fir_collect_clientMSPID:
  "fir_collect (ctx\<lparr>clientMSPID := m\<rparr>) it acc =
     (fst (fir_collect ctx it acc), (snd (fir_collect ctx it acc))\<lparr>clientMSPID := m\<rparr>)"
proof (induction it arbitrary: ctx acc)
  case Nil
  show ?case by simp
next
  case (Cons e it)
  show ?case
  proof (cases "Next ctx e")
    case (Pair r c)
    then have "Next (ctx\<lparr>clientMSPID := m\<rparr>) e = (r, c\<lparr>clientMSPID := m\<rparr>)"
      by (simp add: Next_clientMSPID)
    then show ?thesis
      using Pair Cons.IH [of c]
      by (cases r) (simp_all split: sum.splits)
  qed
qed

lemma personnel_collect_clientMSPID:
  "personnel_collect (ctx\<lparr>clientMSPID := m\<rparr>) it acc =
     (fst (personnel_collect ctx it acc),
      (snd (personnel_collect ctx it acc))\<lparr>clientMSPID := m\<rparr>)"
proof (induction it arbitrary: ctx acc)
  case Nil
  show ?case by simp
next
  case (Cons e it)
  show ?case
  proof (cases "Next ctx e")
    case (Pair r c)
    then have "Next (ctx\<lparr>clientMSPID := m\<rparr>) e = (r, c\<lparr>clientMSPID := m\<rparr>)"
      by (simp add: Next_clientMSPID)
    then show ?thesis
      using Pair Cons.IH [of c]
      by (cases r) (simp_all split: sum.splits)
  qed
qed

lemma GetStateByRange_clientMSPID:
  "GetStateByRange (ctx\<lparr>clientMSPID := m\<rparr>) lo hi =
     (fst (GetStateByRange ctx lo hi), (snd (GetStateByRange ctx lo hi))\<lparr>clientMSPID := m\<rparr>)"
  by (simp add: GetStateByRange_def logCall_def)

lemma Close_clientMSPID: "Close (ctx\<lparr>clientMSPID := m\<rparr>) = (Close ctx)\<lparr>clientMSPID := m\<rparr>"
  by (simp add: Close_def logCall_def)

lemma GetAllFIRs_clientMSPID:
  "GetAllFIRs (ctx\<lparr>clientMSPID := m\<rparr>) =
     (fst (GetAllFIRs ctx), (snd (GetAllFIRs ctx))\<lparr>clientMSPID := m\<rparr>)"
  by (cases "GetStateByRange ctx [] []")
     (auto simp: GetAllFIRs_def GetStateByRange_clientMSPID fir_collect_clientMSPID
        Close_clientMSPID split: sum.splits prod.splits)

lemma GetAllPersonnel_clientMSPID:
  "GetAllPersonnel (ctx\<lparr>clientMSPID := m\<rparr>) =
     (fst (GetAllPersonnel ctx), (snd (GetAllPersonnel ctx))\<lparr>clientMSPID := m\<rparr>)"
  by (cases "GetStateByRange ctx [] []")
     (auto simp: GetAllPersonnel_def GetStateByRange_clientMSPID
        personnel_collect_clientMSPID Close_clientMSPID split: sum.splits prod.splits)

lemma GetAllFIRs_fst:
  "fst (GetAllFIRs ctx) =
     (if fault ctx (GetStateByRangeCall [] []) then Inl StorageError
      else fst (fir_collect (logCall (GetStateByRangeCall [] []) ctx)
                  (filter (\<lambda>(key, val). inRange [] [] key)
                     (Mapping.ordered_entries (world ctx))) []))"
  by (simp add: GetAllFIRs_def GetStateByRange_def split: prod.splits)

lemma GetAllPersonnel_fst:
  "fst (GetAllPersonnel ctx) =
     (if fault ctx (GetStateByRangeCall [] []) then Inl StorageError
      else fst (personnel_collect (logCall (GetStateByRangeCall [] []) ctx)
                  (filter (\<lambda>(key, val). inRange [] [] key)
                     (Mapping.ordered_entries (world ctx))) []))"
  by (simp add: GetAllPersonnel_def GetStateByRange_def split: prod.splits)

lemma GetAllFIRs_not_denied: "fst (GetAllFIRs ctx) \<noteq> Inl AuthorizationDenied"
  by (simp add: GetAllFIRs_fst fir_collect_fst)

lemma GetAllPersonnel_not_denied: "fst (GetAllPersonnel ctx) \<noteq> Inl AuthorizationDenied"
  by (simp add: GetAllPersonnel_fst personnel_collect_fst)

text \<open>
  Claim C2. For a caller that is not of \<open>Org1MSP\<close>, on every context: the gate guards
  create, update and delete of both kinds, read of personnel records and the personnel
  seeding (each ends in \<open>AuthorizationDenied\<close>); it does not guard \<open>ReadFIR\<close>,
  \<open>FIRExists\<close>, \<open>GetAllFIRs\<close>, \<open>PersonnelExists\<close>, \<open>GetAllPersonnel\<close> nor the seeding
  of case records: none of them ends in \<open>AuthorizationDenied\<close>, and each gives this caller
  the very result and world state it gives a caller of \<open>Org1MSP\<close>.
\<close>

theorem C2_gate_coverage:
  assumes other: "clientMSPID ctx \<noteq> Some ''Org1MSP''"
  shows
    "fst (personnel_InitLedger ctx) = Inl AuthorizationDenied \<and>
     fst (CreatePolicePersonnel ctx k n r dob po b es dj aw su lb lo)
       = Inl AuthorizationDenied \<and>
     fst (ReadPolicePersonnel ctx k) = Inl AuthorizationDenied \<and>
     fst (UpdatePolicePersonnel ctx k n r dob po b es dj aw su lb lo)
       = Inl AuthorizationDenied \<and>
     fst (DeletePolicePersonnel ctx k) = Inl AuthorizationDenied \<and>
     fst (FileFIR ctx k fb a ct d s t) = Inl AuthorizationDenied \<and>
     fst (UpdateFIR ctx k s) = Inl AuthorizationDenied \<and>
     fst (DeleteFIR ctx k) = Inl AuthorizationDenied \<and>
     fst (PersonnelExists ctx k) \<noteq> Inl AuthorizationDenied \<and>
     fst (GetAllPersonnel ctx) \<noteq> Inl AuthorizationDenied \<and>
     fst (fir_InitLedger ctx) \<noteq> Inl AuthorizationDenied \<and>
     fst (ReadFIR ctx k) \<noteq> Inl AuthorizationDenied \<and>
     fst (FIRExists ctx k) \<noteq> Inl AuthorizationDenied \<and>
     fst (GetAllFIRs ctx) \<noteq> Inl AuthorizationDenied \<and>
     fst (PersonnelExists ctx k)
       = fst (PersonnelExists (ctx\<lparr>clientMSPID := Some ''Org1MSP''\<rparr>) k) \<and>
     fst (GetAllPersonnel ctx)
       = fst (GetAllPersonnel (ctx\<lparr>clientMSPID := Some ''Org1MSP''\<rparr>)) \<and>
     fst (fir_InitLedger ctx)
       = fst (fir_InitLedger (ctx\<lparr>clientMSPID := Some ''Org1MSP''\<rparr>)) \<and>
     fst (ReadFIR ctx k) = fst (ReadFIR (ctx\<lparr>clientMSPID := Some ''Org1MSP''\<rparr>) k) \<and>
     fst (FIRExists ctx k) = fst (FIRExists (ctx\<lparr>clientMSPID := Some ''Org1MSP''\<rparr>) k) \<and>
     fst (GetAllFIRs ctx) = fst (GetAllFIRs (ctx\<lparr>clientMSPID := Some ''Org1MSP''\<rparr>)) \<and>
     world (snd (PersonnelExists ctx k))
       = world (snd (PersonnelExists (ctx\<lparr>clientMSPID := Some ''Org1MSP''\<rparr>) k)) \<and>
     world (snd (GetAllPersonnel ctx))
       = world (snd (GetAllPersonnel (ctx\<lparr>clientMSPID := Some ''Org1MSP''\<rparr>))) \<and>
     world (snd (fir_InitLedger ctx))
       = world (snd (fir_InitLedger (ctx\<lparr>clientMSPID := Some ''Org1MSP''\<rparr>))) \<and>
     world (snd (ReadFIR ctx k))
       = world (snd (ReadFIR (ctx\<lparr>clientMSPID := Some ''Org1MSP''\<rparr>) k)) \<and>
     world (snd (FIRExists ctx k))
       = world (snd (FIRExists (ctx\<lparr>clientMSPID := Some ''Org1MSP''\<rparr>) k)) \<and>
     world (snd (GetAllFIRs ctx))
       = world (snd (GetAllFIRs (ctx\<lparr>clientMSPID := Some ''Org1MSP''\<rparr>)))"
proof -
  have gated:
    "fst (personnel_InitLedger ctx) = Inl AuthorizationDenied"
    "fst (CreatePolicePersonnel ctx k n r dob po b es dj aw su lb lo)
       = Inl AuthorizationDenied"
    "fst (ReadPolicePersonnel ctx k) = Inl AuthorizationDenied"
    "fst (UpdatePolicePersonnel ctx k n r dob po b es dj aw su lb lo)
       = Inl AuthorizationDenied"
    "fst (DeletePolicePersonnel ctx k) = Inl AuthorizationDenied"
    "fst (FileFIR ctx k fb a ct d s t) = Inl AuthorizationDenied"
    "fst (UpdateFIR ctx k s) = Inl AuthorizationDenied"
    "fst (DeleteFIR ctx k) = Inl AuthorizationDenied"
    using other
    by (simp_all add: personnel_InitLedger_def personnel_onlyPolice_eq
        CreatePolicePersonnel_eq ReadPolicePersonnel_eq UpdatePolicePersonnel_eq
        DeletePolicePersonnel_eq FileFIR_eq UpdateFIR_eq DeleteFIR_eq)
  have seed: "fst (fir_InitLedger ctx) \<noteq> Inl AuthorizationDenied"
    using fir_putAll_fst [of ctx fir_seed] by (auto simp: fir_InitLedger_def)
  have read: "fst (ReadFIR ctx k) \<noteq> Inl AuthorizationDenied"
    using read_error_not_denied [of ctx k] by auto
  have open_ops:
    "fst (PersonnelExists ctx k) \<noteq> Inl AuthorizationDenied"
    "fst (GetAllPersonnel ctx) \<noteq> Inl AuthorizationDenied"
    "fst (FIRExists ctx k) \<noteq> Inl AuthorizationDenied"
    "fst (GetAllFIRs ctx) \<noteq> Inl AuthorizationDenied"
    by (simp_all add: PersonnelExists_eq FIRExists_eq GetAllPersonnel_not_denied
        GetAllFIRs_not_denied)
  have same:
    "fst (PersonnelExists ctx k)
       = fst (PersonnelExists (ctx\<lparr>clientMSPID := Some ''Org1MSP''\<rparr>) k)"
    "fst (GetAllPersonnel ctx)
       = fst (GetAllPersonnel (ctx\<lparr>clientMSPID := Some ''Org1MSP''\<rparr>))"
    "fst (fir_InitLedger ctx)
       = fst (fir_InitLedger (ctx\<lparr>clientMSPID := Some ''Org1MSP''\<rparr>))"
    "fst (ReadFIR ctx k) = fst (ReadFIR (ctx\<lparr>clientMSPID := Some ''Org1MSP''\<rparr>) k)"
    "fst (FIRExists ctx k) = fst (FIRExists (ctx\<lparr>clientMSPID := Some ''Org1MSP''\<rparr>) k)"
    "fst (GetAllFIRs ctx) = fst (GetAllFIRs (ctx\<lparr>clientMSPID := Some ''Org1MSP''\<rparr>))"
    by (simp_all add: PersonnelExists_eq FIRExists_eq ReadFIR_eq GetAllPersonnel_clientMSPID
        GetAllFIRs_clientMSPID fir_InitLedger_def fir_putAll_clientMSPID)
  have same_world:
    "world (snd (PersonnelExists ctx k))
       = world (snd (PersonnelExists (ctx\<lparr>clientMSPID := Some ''Org1MSP''\<rparr>) k))"
    "world (snd (GetAllPersonnel ctx))
       = world (snd (GetAllPersonnel (ctx\<lparr>clientMSPID := Some ''Org1MSP''\<rparr>)))"
    "world (snd (fir_InitLedger ctx))
       = world (snd (fir_InitLedger (ctx\<lparr>clientMSPID := Some ''Org1MSP''\<rparr>)))"
    "world (snd (ReadFIR ctx k))
       = world (snd (ReadFIR (ctx\<lparr>clientMSPID := Some ''Org1MSP''\<rparr>) k))"
    "world (snd (FIRExists ctx k))
       = world (snd (FIRExists (ctx\<lparr>clientMSPID := Some ''Org1MSP''\<rparr>) k))"
    "world (snd (GetAllFIRs ctx))
       = world (snd (GetAllFIRs (ctx\<lparr>clientMSPID := Some ''Org1MSP''\<rparr>)))"
    by (simp_all add: PersonnelExists_eq FIRExists_eq ReadFIR_eq GetAllPersonnel_clientMSPID
        GetAllFIRs_clientMSPID fir_InitLedger_def fir_putAll_clientMSPID)
  show ?thesis
    using gated seed read open_ops same same_world by (intro conjI)
qed

theorem C2_witness:
  "clientMSPID (callerOn ''Org2MSP'' Mapping.empty) \<noteq> Some ''Org1MSP'' \<and>
   fst (DeleteFIR (callerOn ''Org2MSP'' Mapping.empty) ''FIR1'') = Inl AuthorizationDenied \<and>
   fst (ReadPolicePersonnel (callerOn ''Org2MSP'' Mapping.empty) ''FIR1'')
     = Inl AuthorizationDenied \<and>
   fst (personnel_InitLedger (callerOn ''Org2MSP'' Mapping.empty)) = Inl AuthorizationDenied \<and>
   fst (ReadFIR (callerOn ''Org2MSP'' Mapping.empty) ''FIR1'') \<noteq> Inl AuthorizationDenied \<and>
   fst (ReadFIR (callerOn ''Org2MSP'' Mapping.empty) ''FIR1'') = Inl NotFound \<and>
   fst (FIRExists (callerOn ''Org2MSP'' Mapping.empty) ''FIR1'') = Inr False \<and>
   fst (PersonnelExists (callerOn ''Org2MSP'' Mapping.empty) ''FIR1'') = Inr False \<and>
   fst (fir_InitLedger (callerOn ''Org2MSP'' Mapping.empty))
     = fst (fir_InitLedger ((callerOn ''Org2MSP'' Mapping.empty)
                              \<lparr>clientMSPID := Some ''Org1MSP''\<rparr>))"
proof -
  have org2: "clientMSPID (callerOn ''Org2MSP'' Mapping.empty) \<noteq> Some ''Org1MSP''"
    by simp
  note cover =
    C2_gate_coverage [where ctx = "callerOn ''Org2MSP'' Mapping.empty" and k = "''FIR1''",
      OF org2]
  show ?thesis
    using org2 cover by (simp add: ReadFIR_eq FIRExists_eq PersonnelExists_eq)
qed

subsection \<open>Create, read, update and delete on one key\<close>

lemma PutState_ok:
  "\<not> fault ctx (PutStateCall k) \<Longrightarrow>
   PutState ctx k v =
     (Inr (), logCall (PutStateCall k) (ctx\<lparr>world := Mapping.update k v (world ctx)\<rparr>))"
  by (simp add: PutState_def)

text \<open>
  Claim C3 (as amended). An authorized caller creates a record under a key \<open>k\<close> that the
  world state does not hold, the ledger answering the two stub calls involved: the create
  call succeeds, and a read of \<open>k\<close> on the world state it leaves (by an authorized caller
  for personnel records, by any caller for case records) returns the fields given to
  create with every byte that is not part of valid UTF-8 replaced by U+FFFD. So the read
  returns the fields unchanged when the key and the fields are valid UTF-8. Both kinds:
  \<open>CreatePolicePersonnel\<close> then \<open>ReadPolicePersonnel\<close>, \<open>FileFIR\<close> then \<open>ReadFIR\<close>.
\<close>

theorem C3_create_then_read:
  assumes org1: "clientMSPID ctx = Some ''Org1MSP''"
    and absent: "Mapping.lookup (world ctx) k = None"
    and get_ok: "\<not> fault ctx (GetStateCall k)"
    and put_ok: "\<not> fault ctx (PutStateCall k)"
  shows
    "fst (CreatePolicePersonnel ctx k n r dob po b es dj aw su lb lo) = Inr () \<and>
     (\<forall>rd. world rd = world (snd (CreatePolicePersonnel ctx k n r dob po b es dj aw su lb lo))
            \<and> clientMSPID rd = Some ''Org1MSP'' \<and> \<not> fault rd (GetStateCall k) \<longrightarrow>
        fst (ReadPolicePersonnel rd k) =
          Inr (PolicePersonnel_coerced
            \<lparr>OfficerID = k, Name = n, Rank = r, DOB = dob, Posting = po, BadgeNumber = b,
               EmploymentStatus = es, DateOfJoining = dj, Award = aw, Suspension = su,
               LastUpdatedBy = lb, LastUpdatedOn = lo\<rparr>) \<and>
        (PolicePersonnel_valid
            \<lparr>OfficerID = k, Name = n, Rank = r, DOB = dob, Posting = po, BadgeNumber = b,
               EmploymentStatus = es, DateOfJoining = dj, Award = aw, Suspension = su,
               LastUpdatedBy = lb, LastUpdatedOn = lo\<rparr> \<longrightarrow>
         fst (ReadPolicePersonnel rd k) =
          Inr \<lparr>OfficerID = k, Name = n, Rank = r, DOB = dob, Posting = po, BadgeNumber = b,
               EmploymentStatus = es, DateOfJoining = dj, Award = aw, Suspension = su,
               LastUpdatedBy = lb, LastUpdatedOn = lo\<rparr>)) \<and>
     fst (FileFIR ctx k fb a ct d s t) = Inr () \<and>
     (\<forall>rd. world rd = world (snd (FileFIR ctx k fb a ct d s t))
            \<and> \<not> fault rd (GetStateCall k) \<longrightarrow>
        fst (ReadFIR rd k) =
          Inr (FIR_coerced
            \<lparr>Accused = a, CrimeType = ct, Description = d, FiledBy = fb, FIRID = k,
               Status = s, Timestamp = t\<rparr>) \<and>
        (FIR_valid
            \<lparr>Accused = a, CrimeType = ct, Description = d, FiledBy = fb, FIRID = k,
               Status = s, Timestamp = t\<rparr> \<longrightarrow>
         fst (ReadFIR rd k) =
          Inr \<lparr>Accused = a, CrimeType = ct, Description = d, FiledBy = fb, FIRID = k,
               Status = s, Timestamp = t\<rparr>))"
proof (intro conjI allI impI)
  show "fst (CreatePolicePersonnel ctx k n r dob po b es dj aw su lb lo) = Inr ()"
    using assms by (simp add: CreatePolicePersonnel_eq PutState_ok)
  show "fst (FileFIR ctx k fb a ct d s t) = Inr ()"
    using assms by (simp add: FileFIR_eq PutState_ok)
next
  fix rd :: ctx
  assume rd: "world rd = world (snd (CreatePolicePersonnel ctx k n r dob po b es dj aw su lb lo))
            \<and> clientMSPID rd = Some ''Org1MSP'' \<and> \<not> fault rd (GetStateCall k)"
  then show coerced: "fst (ReadPolicePersonnel rd k) =
          Inr (PolicePersonnel_coerced
            \<lparr>OfficerID = k, Name = n, Rank = r, DOB = dob, Posting = po, BadgeNumber = b,
               EmploymentStatus = es, DateOfJoining = dj, Award = aw, Suspension = su,
               LastUpdatedBy = lb, LastUpdatedOn = lo\<rparr>)"
    using assms by (simp add: CreatePolicePersonnel_eq PutState_ok ReadPolicePersonnel_eq)
  assume "PolicePersonnel_valid
            \<lparr>OfficerID = k, Name = n, Rank = r, DOB = dob, Posting = po, BadgeNumber = b,
               EmploymentStatus = es, DateOfJoining = dj, Award = aw, Suspension = su,
               LastUpdatedBy = lb, LastUpdatedOn = lo\<rparr>"
  then show "fst (ReadPolicePersonnel rd k) =
          Inr \<lparr>OfficerID = k, Name = n, Rank = r, DOB = dob, Posting = po, BadgeNumber = b,
               EmploymentStatus = es, DateOfJoining = dj, Award = aw, Suspension = su,
               LastUpdatedBy = lb, LastUpdatedOn = lo\<rparr>"
    using coerced by (simp add: PolicePersonnel_coerced_valid)
next
  fix rd :: ctx
  assume rd: "world rd = world (snd (FileFIR ctx k fb a ct d s t))
            \<and> \<not> fault rd (GetStateCall k)"
  then show coerced: "fst (ReadFIR rd k) =
          Inr (FIR_coerced
            \<lparr>Accused = a, CrimeType = ct, Description = d, FiledBy = fb, FIRID = k,
               Status = s, Timestamp = t\<rparr>)"
    using assms by (simp add: FileFIR_eq PutState_ok ReadFIR_eq)
  assume "FIR_valid
            \<lparr>Accused = a, CrimeType = ct, Description = d, FiledBy = fb, FIRID = k,
               Status = s, Timestamp = t\<rparr>"
  then show "fst (ReadFIR rd k) =
          Inr \<lparr>Accused = a, CrimeType = ct, Description = d, FiledBy = fb, FIRID = k,
               Status = s, Timestamp = t\<rparr>"
    using coerced by (simp add: FIR_coerced_valid)
qed

text \<open>
  Claim C4. After a create call for key \<open>k\<close> has succeeded, a second create call for
  \<open>k\<close> by an authorized caller, on the world state the first one left (the ledger
  answering its one read), fails with \<open>AlreadyExists\<close>; it makes no write, and \<open>k\<close> still
  holds the record written by the first call. Both \<open>CreatePolicePersonnel\<close> and
  \<open>FileFIR\<close>.
\<close>

theorem C4_second_create_fails:
  "(fst (CreatePolicePersonnel ctx k n r dob po b es dj aw su lb lo) = Inr () \<and>
    world ctxP = world (snd (CreatePolicePersonnel ctx k n r dob po b es dj aw su lb lo)) \<and>
    clientMSPID ctxP = Some ''Org1MSP'' \<and> \<not> fault ctxP (GetStateCall k) \<longrightarrow>
      CreatePolicePersonnel ctxP k n' r' dob' po' b' es' dj' aw' su' lb' lo'
        = (Inl AlreadyExists, logCall (GetStateCall k) ctxP) \<and>
      world (snd (CreatePolicePersonnel ctxP k n' r' dob' po' b' es' dj' aw' su' lb' lo'))
        = world ctxP \<and>
      Mapping.lookup (world ctxP) k =
        Some (PolicePersonnel_bytes
                \<lparr>OfficerID = k, Name = n, Rank = r, DOB = dob, Posting = po,
                 BadgeNumber = b, EmploymentStatus = es, DateOfJoining = dj, Award = aw,
                 Suspension = su, LastUpdatedBy = lb, LastUpdatedOn = lo\<rparr>)) \<and>
   (fst (FileFIR ctx k fb a ct d s t) = Inr () \<and>
    world ctxF = world (snd (FileFIR ctx k fb a ct d s t)) \<and>
    clientMSPID ctxF = Some ''Org1MSP'' \<and> \<not> fault ctxF (GetStateCall k) \<longrightarrow>
      FileFIR ctxF k fb' a' ct' d' s' t' = (Inl AlreadyExists, logCall (GetStateCall k) ctxF) \<and>
      world (snd (FileFIR ctxF k fb' a' ct' d' s' t')) = world ctxF \<and>
      Mapping.lookup (world ctxF) k =
        Some (FIR_bytes \<lparr>Accused = a, CrimeType = ct, Description = d, FiledBy = fb,
                FIRID = k, Status = s, Timestamp = t\<rparr>))"
proof (intro conjI impI)
  assume h: "fst (CreatePolicePersonnel ctx k n r dob po b es dj aw su lb lo) = Inr () \<and>
    world ctxP = world (snd (CreatePolicePersonnel ctx k n r dob po b es dj aw su lb lo)) \<and>
    clientMSPID ctxP = Some ''Org1MSP'' \<and> \<not> fault ctxP (GetStateCall k)"
  then have stored: "Mapping.lookup (world ctxP) k =
        Some (PolicePersonnel_bytes
                \<lparr>OfficerID = k, Name = n, Rank = r, DOB = dob, Posting = po,
                 BadgeNumber = b, EmploymentStatus = es, DateOfJoining = dj, Award = aw,
                 Suspension = su, LastUpdatedBy = lb, LastUpdatedOn = lo\<rparr>)"
    by (auto simp: CreatePolicePersonnel_eq PutState_def split: if_splits)
  then show "Mapping.lookup (world ctxP) k =
        Some (PolicePersonnel_bytes
                \<lparr>OfficerID = k, Name = n, Rank = r, DOB = dob, Posting = po,
                 BadgeNumber = b, EmploymentStatus = es, DateOfJoining = dj, Award = aw,
                 Suspension = su, LastUpdatedBy = lb, LastUpdatedOn = lo\<rparr>)" .
  show "CreatePolicePersonnel ctxP k n' r' dob' po' b' es' dj' aw' su' lb' lo'
        = (Inl AlreadyExists, logCall (GetStateCall k) ctxP)"
    using h stored by (simp add: CreatePolicePersonnel_eq)
  then show "world (snd (CreatePolicePersonnel ctxP k n' r' dob' po' b' es' dj' aw' su' lb' lo'))
        = world ctxP"
    by simp
next
  assume h: "fst (FileFIR ctx k fb a ct d s t) = Inr () \<and>
    world ctxF = world (snd (FileFIR ctx k fb a ct d s t)) \<and>
    clientMSPID ctxF = Some ''Org1MSP'' \<and> \<not> fault ctxF (GetStateCall k)"
  then have stored: "Mapping.lookup (world ctxF) k =
        Some (FIR_bytes \<lparr>Accused = a, CrimeType = ct, Description = d, FiledBy = fb,
                FIRID = k, Status = s, Timestamp = t\<rparr>)"
    by (auto simp: FileFIR_eq PutState_def split: if_splits)
  then show "Mapping.lookup (world ctxF) k =
        Some (FIR_bytes \<lparr>Accused = a, CrimeType = ct, Description = d, FiledBy = fb,
                FIRID = k, Status = s, Timestamp = t\<rparr>)" .
  show "FileFIR ctxF k fb' a' ct' d' s' t' = (Inl AlreadyExists, logCall (GetStateCall k) ctxF)"
    using h stored by (simp add: FileFIR_eq)
  then show "world (snd (FileFIR ctxF k fb' a' ct' d' s' t')) = world ctxF"
    by simp
qed

text \<open>
  Claim C5 (as amended). Key \<open>k\<close> holds the case record \<open>fir\<close> as \<open>json.Marshal\<close> wrote
  it, so that a read of \<open>k\<close> returns \<open>FIR_coerced fir\<close>; the caller is authorized and the
  ledger answers the read and the write of \<open>k\<close>. Then \<open>UpdateFIR k s\<close> succeeds, the world
  state it leaves is the old one rewritten at \<open>k\<close> alone, and a read of \<open>k\<close> returns the
  record read before with \<open>Status\<close> set to \<open>s\<close> coerced to valid UTF-8: to \<open>s\<close> itself
  when \<open>s\<close> is valid UTF-8. The fields \<open>FIRID\<close>, \<open>FiledBy\<close>, \<open>Accused\<close>, \<open>CrimeType\<close>,
  \<open>Description\<close> and \<open>Timestamp\<close> are as they were, and so is every other key.
\<close>

theorem C5_UpdateFIR_status_only:
  assumes org1: "clientMSPID ctx = Some ''Org1MSP''"
    and stored: "Mapping.lookup (world ctx) k = Some (FIR_bytes fir)"
    and get_ok: "\<not> fault ctx (GetStateCall k)"
    and put_ok: "\<not> fault ctx (PutStateCall k)"
  shows
    "fst (UpdateFIR ctx k s) = Inr () \<and>
     fst (ReadFIR ctx k) = Inr (FIR_coerced fir) \<and>
     world (snd (UpdateFIR ctx k s))
       = Mapping.update k (FIR_bytes (fir\<lparr>Status := s\<rparr>)) (world ctx) \<and>
     (\<forall>k'. k' \<noteq> k \<longrightarrow>
        Mapping.lookup (world (snd (UpdateFIR ctx k s))) k' = Mapping.lookup (world ctx) k') \<and>
     (\<forall>rd. world rd = world (snd (UpdateFIR ctx k s)) \<and> \<not> fault rd (GetStateCall k) \<longrightarrow>
        fst (ReadFIR rd k) =
          Inr \<lparr>Accused = Accused (FIR_coerced fir), CrimeType = CrimeType (FIR_coerced fir),
               Description = Description (FIR_coerced fir),
               FiledBy = FiledBy (FIR_coerced fir), FIRID = FIRID (FIR_coerced fir),
               Status = toValidUTF8 s, Timestamp = Timestamp (FIR_coerced fir)\<rparr> \<and>
        (validUTF8 s \<longrightarrow>
         fst (ReadFIR rd k) =
          Inr \<lparr>Accused = Accused (FIR_coerced fir), CrimeType = CrimeType (FIR_coerced fir),
               Description = Description (FIR_coerced fir),
               FiledBy = FiledBy (FIR_coerced fir), FIRID = FIRID (FIR_coerced fir),
               Status = s, Timestamp = Timestamp (FIR_coerced fir)\<rparr>))"
proof -
  have before: "fst (ReadFIR ctx k) = Inr (FIR_coerced fir)"
    using stored get_ok by (simp add: ReadFIR_eq)
  have upd: "UpdateFIR ctx k s =
      (Inr (), logCall (PutStateCall k)
                 ((logCall (GetStateCall k) ctx)
                    \<lparr>world := Mapping.update k (FIR_bytes (fir\<lparr>Status := s\<rparr>)) (world ctx)\<rparr>))"
    using org1 put_ok by (simp add: UpdateFIR_eq before PutState_ok)
  have rec: "FIR_coerced (fir\<lparr>Status := s\<rparr>) =
      \<lparr>Accused = Accused (FIR_coerced fir), CrimeType = CrimeType (FIR_coerced fir),
       Description = Description (FIR_coerced fir), FiledBy = FiledBy (FIR_coerced fir),
       FIRID = FIRID (FIR_coerced fir), Status = toValidUTF8 s,
       Timestamp = Timestamp (FIR_coerced fir)\<rparr>"
    by (simp add: FIR_coerced_def)
  show ?thesis
    unfolding upd using before by (simp add: ReadFIR_eq rec toValidUTF8_valid)
qed

text \<open>
  Claim C6. Key \<open>k\<close> is absent, the caller is authorized and the ledger answers the read
  of \<open>k\<close>: \<open>UpdatePolicePersonnel\<close>, \<open>UpdateFIR\<close>, \<open>DeletePolicePersonnel\<close> and
  \<open>DeleteFIR\<close> fail with \<open>NotFound\<close>. The only stub call each makes is that one
  \<open>GetState\<close>: no write, no delete, and the world state is what it was.
\<close>

theorem C6_absent_key_not_found:
  assumes org1: "clientMSPID ctx = Some ''Org1MSP''"
    and absent: "Mapping.lookup (world ctx) k = None"
    and get_ok: "\<not> fault ctx (GetStateCall k)"
  shows
    "UpdatePolicePersonnel ctx k n r dob po b es dj aw su lb lo
       = (Inl NotFound, logCall (GetStateCall k) ctx) \<and>
     UpdateFIR ctx k s = (Inl NotFound, logCall (GetStateCall k) ctx) \<and>
     DeletePolicePersonnel ctx k = (Inl NotFound, logCall (GetStateCall k) ctx) \<and>
     DeleteFIR ctx k = (Inl NotFound, logCall (GetStateCall k) ctx) \<and>
     world (logCall (GetStateCall k) ctx) = world ctx \<and>
     trace (logCall (GetStateCall k) ctx) = trace ctx @ [GetStateCall k]"
  using assms
  by (simp add: UpdatePolicePersonnel_eq UpdateFIR_eq ReadFIR_eq DeletePolicePersonnel_eq
      DeleteFIR_eq)

text \<open>
  Claim C8. On every context and key, \<open>PersonnelExists\<close> and \<open>FIRExists\<close> return an error
  exactly when the ledger fails the read (a storage error); otherwise they return whether
  the key is among the keys of the world state: \<open>True\<close> for a present key, \<open>False\<close>, not
  an error, for an absent one. The world state is left as it was.
\<close>

theorem C8_exists:
  "fst (PersonnelExists ctx k) =
     (if fault ctx (GetStateCall k) then Inl StorageError
      else Inr (k \<in> Mapping.keys (world ctx))) \<and>
   world (snd (PersonnelExists ctx k)) = world ctx \<and>
   fst (FIRExists ctx k) =
     (if fault ctx (GetStateCall k) then Inl StorageError
      else Inr (k \<in> Mapping.keys (world ctx))) \<and>
   world (snd (FIRExists ctx k)) = world ctx"
  by (simp add: PersonnelExists_eq FIRExists_eq keys_is_none_rep Option.is_none_def)

text \<open>
  Claim C10. Create looks only at whether the key holds anything. If \<open>k\<close> holds a case
  record, \<open>CreatePolicePersonnel\<close> for \<open>k\<close> by an authorized caller fails with
  \<open>AlreadyExists\<close>; if \<open>k\<close> holds a personnel record, \<open>FileFIR\<close> for \<open>k\<close> fails with
  \<open>AlreadyExists\<close>; and so do both for any stored bytes \<open>v\<close> whatever. The ledger answers
  the read of \<open>k\<close>; the world state is left as it was.
\<close>

theorem C10_create_ignores_record_kind:
  assumes org1: "clientMSPID ctx = Some ''Org1MSP''"
    and get_ok: "\<not> fault ctx (GetStateCall k)"
  shows
    "(Mapping.lookup (world ctx) k = Some (FIR_bytes fir) \<longrightarrow>
        fst (CreatePolicePersonnel ctx k n r dob po b es dj aw su lb lo) = Inl AlreadyExists \<and>
        world (snd (CreatePolicePersonnel ctx k n r dob po b es dj aw su lb lo)) = world ctx) \<and>
     (Mapping.lookup (world ctx) k = Some (PolicePersonnel_bytes p) \<longrightarrow>
        fst (FileFIR ctx k fb a ct d s t) = Inl AlreadyExists \<and>
        world (snd (FileFIR ctx k fb a ct d s t)) = world ctx) \<and>
     (Mapping.lookup (world ctx) k = Some v \<longrightarrow>
        fst (PersonnelExists ctx k) = Inr True \<and> fst (FIRExists ctx k) = Inr True \<and>
        fst (CreatePolicePersonnel ctx k n r dob po b es dj aw su lb lo) = Inl AlreadyExists \<and>
        fst (FileFIR ctx k fb a ct d s t) = Inl AlreadyExists)"
  using assms
  by (simp add: CreatePolicePersonnel_eq FileFIR_eq PersonnelExists_eq FIRExists_eq)

subsection \<open>Concrete runs\<close>

text \<open>The scenarios of the specification, run on the model: a police caller on an empty
  ledger creates officer \<open>POL12346\<close> and files case \<open>FIR3\<close>.\<close>

theorem C3_witness:
  "clientMSPID (callerOn ''Org1MSP'' Mapping.empty) = Some ''Org1MSP'' \<and>
   Mapping.lookup (world (callerOn ''Org1MSP'' Mapping.empty)) ''POL12346'' = None \<and>
   Mapping.lookup (world (callerOn ''Org1MSP'' Mapping.empty)) ''FIR3'' = None \<and>
   PolicePersonnel_valid
     \<lparr>OfficerID = ''POL12346'', Name = ''Raj Kumar'', Rank = ''Sub-Inspector'',
          DOB = ''1990-01-25'', Posting = ''Crime Branch, Delhi'', BadgeNumber = ''DEL-7890'',
          EmploymentStatus = ''Active'', DateOfJoining = ''2015-07-10'',
          Award = ''Meritorious Service Medal'', Suspension = [], LastUpdatedBy = ''Org1'',
          LastUpdatedOn = ''2025-01-01''\<rparr> \<and>
   fst (CreatePolicePersonnel (callerOn ''Org1MSP'' Mapping.empty) ''POL12346''
          ''Raj Kumar'' ''Sub-Inspector'' ''1990-01-25'' ''Crime Branch, Delhi''
          ''DEL-7890'' ''Active'' ''2015-07-10'' ''Meritorious Service Medal''
          [] ''Org1'' ''2025-01-01'') = Inr () \<and>
   fst (ReadPolicePersonnel
          (callerOn ''Org1MSP'' (world (snd (CreatePolicePersonnel (callerOn ''Org1MSP'' Mapping.empty) ''POL12346''
          ''Raj Kumar'' ''Sub-Inspector'' ''1990-01-25'' ''Crime Branch, Delhi''
          ''DEL-7890'' ''Active'' ''2015-07-10'' ''Meritorious Service Medal''
          [] ''Org1'' ''2025-01-01''))))
          ''POL12346'')
     = Inr \<lparr>OfficerID = ''POL12346'', Name = ''Raj Kumar'', Rank = ''Sub-Inspector'',
          DOB = ''1990-01-25'', Posting = ''Crime Branch, Delhi'', BadgeNumber = ''DEL-7890'',
          EmploymentStatus = ''Active'', DateOfJoining = ''2015-07-10'',
          Award = ''Meritorious Service Medal'', Suspension = [], LastUpdatedBy = ''Org1'',
          LastUpdatedOn = ''2025-01-01''\<rparr> \<and>
   FIR_valid
     \<lparr>Accused = ''Robbery'', CrimeType = ''Bank robbery at downtown'',
          Description = ''Alex Murphy'', FiledBy = ''OfficerC'', FIRID = ''FIR3'',
          Status = ''Open'', Timestamp = ''2024-01-03T12:00:00Z''\<rparr> \<and>
   fst (FileFIR (callerOn ''Org1MSP'' Mapping.empty) ''FIR3''
          ''OfficerC'' ''Robbery'' ''Bank robbery at downtown'' ''Alex Murphy''
          ''Open'' ''2024-01-03T12:00:00Z'') = Inr () \<and>
   fst (ReadFIR
          (callerOn ''Org2MSP'' (world (snd (FileFIR (callerOn ''Org1MSP'' Mapping.empty) ''FIR3''
          ''OfficerC'' ''Robbery'' ''Bank robbery at downtown'' ''Alex Murphy''
          ''Open'' ''2024-01-03T12:00:00Z''))))
          ''FIR3'')
     = Inr \<lparr>Accused = ''Robbery'', CrimeType = ''Bank robbery at downtown'',
          Description = ''Alex Murphy'', FiledBy = ''OfficerC'', FIRID = ''FIR3'',
          Status = ''Open'', Timestamp = ''2024-01-03T12:00:00Z''\<rparr>"
proof -
  let ?officer = "callerOn ''Org1MSP'' (world (snd (CreatePolicePersonnel (callerOn ''Org1MSP'' Mapping.empty) ''POL12346''
          ''Raj Kumar'' ''Sub-Inspector'' ''1990-01-25'' ''Crime Branch, Delhi''
          ''DEL-7890'' ''Active'' ''2015-07-10'' ''Meritorious Service Medal''
          [] ''Org1'' ''2025-01-01'')))"
  let ?reader = "callerOn ''Org2MSP'' (world (snd (FileFIR (callerOn ''Org1MSP'' Mapping.empty) ''FIR3''
          ''OfficerC'' ''Robbery'' ''Bank robbery at downtown'' ''Alex Murphy''
          ''Open'' ''2024-01-03T12:00:00Z'')))"
  have org1: "clientMSPID (callerOn ''Org1MSP'' Mapping.empty) = Some ''Org1MSP''"
    by simp
  have absent: "Mapping.lookup (world (callerOn ''Org1MSP'' Mapping.empty)) key = None" for key
    by simp
  have ok: "\<not> fault (callerOn ''Org1MSP'' Mapping.empty) c" for c
    by simp
  have validP: "PolicePersonnel_valid
     \<lparr>OfficerID = ''POL12346'', Name = ''Raj Kumar'', Rank = ''Sub-Inspector'',
          DOB = ''1990-01-25'', Posting = ''Crime Branch, Delhi'', BadgeNumber = ''DEL-7890'',
          EmploymentStatus = ''Active'', DateOfJoining = ''2015-07-10'',
          Award = ''Meritorious Service Medal'', Suspension = [], LastUpdatedBy = ''Org1'',
          LastUpdatedOn = ''2025-01-01''\<rparr>"
    by code_simp
  have validF: "FIR_valid
     \<lparr>Accused = ''Robbery'', CrimeType = ''Bank robbery at downtown'',
          Description = ''Alex Murphy'', FiledBy = ''OfficerC'', FIRID = ''FIR3'',
          Status = ''Open'', Timestamp = ''2024-01-03T12:00:00Z''\<rparr>"
    by code_simp
  have rdP: "world ?officer = world (snd (CreatePolicePersonnel (callerOn ''Org1MSP'' Mapping.empty) ''POL12346''
          ''Raj Kumar'' ''Sub-Inspector'' ''1990-01-25'' ''Crime Branch, Delhi''
          ''DEL-7890'' ''Active'' ''2015-07-10'' ''Meritorious Service Medal''
          [] ''Org1'' ''2025-01-01''))
      \<and> clientMSPID ?officer = Some ''Org1MSP'' \<and> \<not> fault ?officer (GetStateCall ''POL12346'')"
    by simp
  have rdF: "world ?reader = world (snd (FileFIR (callerOn ''Org1MSP'' Mapping.empty) ''FIR3''
          ''OfficerC'' ''Robbery'' ''Bank robbery at downtown'' ''Alex Murphy''
          ''Open'' ''2024-01-03T12:00:00Z''))
      \<and> \<not> fault ?reader (GetStateCall ''FIR3'')"
    by simp
  note officer =
    C3_create_then_read [where ctx = "callerOn ''Org1MSP'' Mapping.empty" and k = "''POL12346''"
      and n = "''Raj Kumar''" and r = "''Sub-Inspector''" and dob = "''1990-01-25''"
      and po = "''Crime Branch, Delhi''" and b = "''DEL-7890''" and es = "''Active''"
      and dj = "''2015-07-10''" and aw = "''Meritorious Service Medal''" and su = "[]"
      and lb = "''Org1''" and lo = "''2025-01-01''", OF org1 absent ok ok]
  note filed =
    C3_create_then_read [where ctx = "callerOn ''Org1MSP'' Mapping.empty" and k = "''FIR3''"
      and fb = "''OfficerC''" and a = "''Robbery''"
      and ct = "''Bank robbery at downtown''" and d = "''Alex Murphy''"
      and s = "''Open''" and t = "''2024-01-03T12:00:00Z''", OF org1 absent ok ok]
  note created = officer [THEN conjunct1]
  note readP = officer [THEN conjunct2, THEN conjunct1, THEN spec, THEN mp, OF rdP,
      THEN conjunct2, THEN mp, OF validP]
  note fileOk = filed [THEN conjunct2, THEN conjunct2, THEN conjunct1]
  note readF = filed [THEN conjunct2, THEN conjunct2, THEN conjunct2, THEN spec, THEN mp,
      OF rdF, THEN conjunct2, THEN mp, OF validF]
  show ?thesis
    using org1 absent validP created readP validF fileOk readF by (intro conjI)
qed

text \<open>The claim as first stated, for every field tuple, fails on a field that is not
  valid UTF-8: filed with description \<open>FF\<close>, case \<open>FIR3\<close> is read back with description
  U+FFFD.\<close>

theorem C3_counterexample:
  "Mapping.lookup (world (callerOn ''Org1MSP'' Mapping.empty)) ''FIR3'' = None \<and>
   fst (FileFIR (callerOn ''Org1MSP'' Mapping.empty) ''FIR3''
          ''OfficerC'' ''Robbery'' ''Bank robbery at downtown'' [CHR 0xFF]
          ''Open'' ''2024-01-03T12:00:00Z'') = Inr () \<and>
   fst (ReadFIR
          (callerOn ''Org1MSP'' (world (snd (FileFIR (callerOn ''Org1MSP'' Mapping.empty) ''FIR3''
          ''OfficerC'' ''Robbery'' ''Bank robbery at downtown'' [CHR 0xFF]
          ''Open'' ''2024-01-03T12:00:00Z''))))
          ''FIR3'')
     = Inr \<lparr>Accused = ''Robbery'', CrimeType = ''Bank robbery at downtown'',
          Description = [CHR 0xEF, CHR 0xBF, CHR 0xBD], FiledBy = ''OfficerC'', FIRID = ''FIR3'',
          Status = ''Open'', Timestamp = ''2024-01-03T12:00:00Z''\<rparr> \<and>
   fst (ReadFIR
          (callerOn ''Org1MSP'' (world (snd (FileFIR (callerOn ''Org1MSP'' Mapping.empty) ''FIR3''
          ''OfficerC'' ''Robbery'' ''Bank robbery at downtown'' [CHR 0xFF]
          ''Open'' ''2024-01-03T12:00:00Z''))))
          ''FIR3'')
     \<noteq> Inr \<lparr>Accused = ''Robbery'', CrimeType = ''Bank robbery at downtown'',
          Description = [CHR 0xFF], FiledBy = ''OfficerC'', FIRID = ''FIR3'',
          Status = ''Open'', Timestamp = ''2024-01-03T12:00:00Z''\<rparr>"
proof -
  have coerced: "FIR_coerced
          \<lparr>Accused = ''Robbery'', CrimeType = ''Bank robbery at downtown'',
          Description = [CHR 0xFF], FiledBy = ''OfficerC'', FIRID = ''FIR3'',
          Status = ''Open'', Timestamp = ''2024-01-03T12:00:00Z''\<rparr>
       = \<lparr>Accused = ''Robbery'', CrimeType = ''Bank robbery at downtown'',
          Description = [CHR 0xEF, CHR 0xBF, CHR 0xBD], FiledBy = ''OfficerC'', FIRID = ''FIR3'',
          Status = ''Open'', Timestamp = ''2024-01-03T12:00:00Z''\<rparr>"
    by code_simp
  show ?thesis
    by (simp add: FileFIR_eq PutState_ok ReadFIR_eq coerced)
qed

theorem C4_witness:
  "fst (CreatePolicePersonnel (callerOn ''Org1MSP'' Mapping.empty) ''POL12346''
          ''Raj Kumar'' ''Sub-Inspector'' ''1990-01-25'' ''Crime Branch, Delhi''
          ''DEL-7890'' ''Active'' ''2015-07-10'' ''Meritorious Service Medal''
          [] ''Org1'' ''2025-01-01'') = Inr () \<and>
   fst (CreatePolicePersonnel
          (callerOn ''Org1MSP'' (world (snd (CreatePolicePersonnel (callerOn ''Org1MSP'' Mapping.empty) ''POL12346''
          ''Raj Kumar'' ''Sub-Inspector'' ''1990-01-25'' ''Crime Branch, Delhi''
          ''DEL-7890'' ''Active'' ''2015-07-10'' ''Meritorious Service Medal''
          [] ''Org1'' ''2025-01-01''))))
          ''POL12346''
          ''Raj K.'' ''Inspector'' ''1990-01-25'' ''Crime Branch, Delhi''
          ''DEL-7890'' ''Suspended'' ''2015-07-10'' [] ''Pending inquiry''
          ''Org1'' ''2025-02-02'')
     = Inl AlreadyExists \<and>
   Mapping.lookup (world (snd (CreatePolicePersonnel
          (callerOn ''Org1MSP'' (world (snd (CreatePolicePersonnel (callerOn ''Org1MSP'' Mapping.empty) ''POL12346''
          ''Raj Kumar'' ''Sub-Inspector'' ''1990-01-25'' ''Crime Branch, Delhi''
          ''DEL-7890'' ''Active'' ''2015-07-10'' ''Meritorious Service Medal''
          [] ''Org1'' ''2025-01-01''))))
          ''POL12346''
          ''Raj K.'' ''Inspector'' ''1990-01-25'' ''Crime Branch, Delhi''
          ''DEL-7890'' ''Suspended'' ''2015-07-10'' [] ''Pending inquiry''
          ''Org1'' ''2025-02-02''))) ''POL12346''
     = Some (PolicePersonnel_bytes
          \<lparr>OfficerID = ''POL12346'', Name = ''Raj Kumar'', Rank = ''Sub-Inspector'',
          DOB = ''1990-01-25'', Posting = ''Crime Branch, Delhi'', BadgeNumber = ''DEL-7890'',
          EmploymentStatus = ''Active'', DateOfJoining = ''2015-07-10'',
          Award = ''Meritorious Service Medal'', Suspension = [], LastUpdatedBy = ''Org1'',
          LastUpdatedOn = ''2025-01-01''\<rparr>) \<and>
   fst (FileFIR (callerOn ''Org1MSP'' Mapping.empty) ''FIR3''
          ''OfficerC'' ''Robbery'' ''Bank robbery at downtown'' ''Alex Murphy''
          ''Open'' ''2024-01-03T12:00:00Z'') = Inr () \<and>
   fst (FileFIR
          (callerOn ''Org1MSP'' (world (snd (FileFIR (callerOn ''Org1MSP'' Mapping.empty) ''FIR3''
          ''OfficerC'' ''Robbery'' ''Bank robbery at downtown'' ''Alex Murphy''
          ''Open'' ''2024-01-03T12:00:00Z''))))
          ''FIR3''
          ''OfficerD'' ''Fraud'' ''Forged cheque'' ''Sam Reed'' ''Open''
          ''2024-02-01T09:00:00Z'')
     = Inl AlreadyExists"
proof -
  have first: "fst (CreatePolicePersonnel (callerOn ''Org1MSP'' Mapping.empty) ''POL12346''
          ''Raj Kumar'' ''Sub-Inspector'' ''1990-01-25'' ''Crime Branch, Delhi''
          ''DEL-7890'' ''Active'' ''2015-07-10'' ''Meritorious Service Medal''
          [] ''Org1'' ''2025-01-01'') = Inr ()"
    by (simp add: CreatePolicePersonnel_eq PutState_ok)
  have filed: "fst (FileFIR (callerOn ''Org1MSP'' Mapping.empty) ''FIR3''
          ''OfficerC'' ''Robbery'' ''Bank robbery at downtown'' ''Alex Murphy''
          ''Open'' ''2024-01-03T12:00:00Z'') = Inr ()"
    by (simp add: FileFIR_eq PutState_ok)
  note again =
    C4_second_create_fails [where ctx = "callerOn ''Org1MSP'' Mapping.empty" and k = "''POL12346''"
      and n = "''Raj Kumar''" and r = "''Sub-Inspector''" and dob = "''1990-01-25''"
      and po = "''Crime Branch, Delhi''" and b = "''DEL-7890''" and es = "''Active''"
      and dj = "''2015-07-10''" and aw = "''Meritorious Service Medal''" and su = "[]"
      and lb = "''Org1''" and lo = "''2025-01-01''"
      and ctxP = "callerOn ''Org1MSP'' (world (snd (CreatePolicePersonnel (callerOn ''Org1MSP'' Mapping.empty) ''POL12346''
          ''Raj Kumar'' ''Sub-Inspector'' ''1990-01-25'' ''Crime Branch, Delhi''
          ''DEL-7890'' ''Active'' ''2015-07-10'' ''Meritorious Service Medal''
          [] ''Org1'' ''2025-01-01'')))"
      and n' = "''Raj K.''" and r' = "''Inspector''" and dob' = "''1990-01-25''"
      and po' = "''Crime Branch, Delhi''" and b' = "''DEL-7890''" and es' = "''Suspended''"
      and dj' = "''2015-07-10''" and aw' = "[]" and su' = "''Pending inquiry''"
      and lb' = "''Org1''" and lo' = "''2025-02-02''", THEN conjunct1, THEN mp]
  note refiled =
    C4_second_create_fails [where ctx = "callerOn ''Org1MSP'' Mapping.empty" and k = "''FIR3''"
      and fb = "''OfficerC''" and a = "''Robbery''" and ct = "''Bank robbery at downtown''"
      and d = "''Alex Murphy''" and s = "''Open''" and t = "''2024-01-03T12:00:00Z''"
      and ctxF = "callerOn ''Org1MSP'' (world (snd (FileFIR (callerOn ''Org1MSP'' Mapping.empty) ''FIR3''
          ''OfficerC'' ''Robbery'' ''Bank robbery at downtown'' ''Alex Murphy''
          ''Open'' ''2024-01-03T12:00:00Z'')))"
      and fb' = "''OfficerD''" and a' = "''Fraud''" and ct' = "''Forged cheque''"
      and d' = "''Sam Reed''" and s' = "''Open''"
      and t' = "''2024-02-01T09:00:00Z''", THEN conjunct2, THEN mp]
  have "fst (CreatePolicePersonnel
          (callerOn ''Org1MSP'' (world (snd (CreatePolicePersonnel (callerOn ''Org1MSP'' Mapping.empty) ''POL12346''
          ''Raj Kumar'' ''Sub-Inspector'' ''1990-01-25'' ''Crime Branch, Delhi''
          ''DEL-7890'' ''Active'' ''2015-07-10'' ''Meritorious Service Medal''
          [] ''Org1'' ''2025-01-01''))))
          ''POL12346''
          ''Raj K.'' ''Inspector'' ''1990-01-25'' ''Crime Branch, Delhi''
          ''DEL-7890'' ''Suspended'' ''2015-07-10'' [] ''Pending inquiry''
          ''Org1'' ''2025-02-02'')
     = Inl AlreadyExists \<and>
   Mapping.lookup (world (snd (CreatePolicePersonnel
          (callerOn ''Org1MSP'' (world (snd (CreatePolicePersonnel (callerOn ''Org1MSP'' Mapping.empty) ''POL12346''
          ''Raj Kumar'' ''Sub-Inspector'' ''1990-01-25'' ''Crime Branch, Delhi''
          ''DEL-7890'' ''Active'' ''2015-07-10'' ''Meritorious Service Medal''
          [] ''Org1'' ''2025-01-01''))))
          ''POL12346''
          ''Raj K.'' ''Inspector'' ''1990-01-25'' ''Crime Branch, Delhi''
          ''DEL-7890'' ''Suspended'' ''2015-07-10'' [] ''Pending inquiry''
          ''Org1'' ''2025-02-02''))) ''POL12346''
     = Some (PolicePersonnel_bytes
          \<lparr>OfficerID = ''POL12346'', Name = ''Raj Kumar'', Rank = ''Sub-Inspector'',
          DOB = ''1990-01-25'', Posting = ''Crime Branch, Delhi'', BadgeNumber = ''DEL-7890'',
          EmploymentStatus = ''Active'', DateOfJoining = ''2015-07-10'',
          Award = ''Meritorious Service Medal'', Suspension = [], LastUpdatedBy = ''Org1'',
          LastUpdatedOn = ''2025-01-01''\<rparr>)"
    using again first by simp
  moreover have "fst (FileFIR
          (callerOn ''Org1MSP'' (world (snd (FileFIR (callerOn ''Org1MSP'' Mapping.empty) ''FIR3''
          ''OfficerC'' ''Robbery'' ''Bank robbery at downtown'' ''Alex Murphy''
          ''Open'' ''2024-01-03T12:00:00Z''))))
          ''FIR3''
          ''OfficerD'' ''Fraud'' ''Forged cheque'' ''Sam Reed'' ''Open''
          ''2024-02-01T09:00:00Z'')
     = Inl AlreadyExists"
    using refiled filed by simp
  ultimately show ?thesis
    using first filed by simp
qed

theorem C5_witness:
  "Mapping.lookup
     (world (callerOn ''Org1MSP''
        (Mapping.update ''FIR3''
          (FIR_bytes
          \<lparr>Accused = ''Robbery'', CrimeType = ''Bank robbery at downtown'',
          Description = ''Alex Murphy'', FiledBy = ''OfficerC'', FIRID = ''FIR3'',
          Status = ''Open'', Timestamp = ''2024-01-03T12:00:00Z''\<rparr>)
          Mapping.empty))) ''FIR3''
     = Some (FIR_bytes
          \<lparr>Accused = ''Robbery'', CrimeType = ''Bank robbery at downtown'',
          Description = ''Alex Murphy'', FiledBy = ''OfficerC'', FIRID = ''FIR3'',
          Status = ''Open'', Timestamp = ''2024-01-03T12:00:00Z''\<rparr>) \<and>
   validUTF8 ''Closed'' \<and>
   fst (UpdateFIR (callerOn ''Org1MSP''
        (Mapping.update ''FIR3''
          (FIR_bytes
          \<lparr>Accused = ''Robbery'', CrimeType = ''Bank robbery at downtown'',
          Description = ''Alex Murphy'', FiledBy = ''OfficerC'', FIRID = ''FIR3'',
          Status = ''Open'', Timestamp = ''2024-01-03T12:00:00Z''\<rparr>)
          Mapping.empty)) ''FIR3'' ''Closed'')
     = Inr () \<and>
   fst (ReadFIR (callerOn ''Org1MSP''
        (Mapping.update ''FIR3''
          (FIR_bytes
          \<lparr>Accused = ''Robbery'', CrimeType = ''Bank robbery at downtown'',
          Description = ''Alex Murphy'', FiledBy = ''OfficerC'', FIRID = ''FIR3'',
          Status = ''Open'', Timestamp = ''2024-01-03T12:00:00Z''\<rparr>)
          Mapping.empty)) ''FIR3'')
     = Inr \<lparr>Accused = ''Robbery'', CrimeType = ''Bank robbery at downtown'',
          Description = ''Alex Murphy'', FiledBy = ''OfficerC'', FIRID = ''FIR3'',
          Status = ''Open'', Timestamp = ''2024-01-03T12:00:00Z''\<rparr> \<and>
   fst (ReadFIR (callerOn ''Org2MSP'' (world (snd (UpdateFIR (callerOn ''Org1MSP''
        (Mapping.update ''FIR3''
          (FIR_bytes
          \<lparr>Accused = ''Robbery'', CrimeType = ''Bank robbery at downtown'',
          Description = ''Alex Murphy'', FiledBy = ''OfficerC'', FIRID = ''FIR3'',
          Status = ''Open'', Timestamp = ''2024-01-03T12:00:00Z''\<rparr>)
          Mapping.empty)) ''FIR3'' ''Closed''))))
        ''FIR3'')
     = Inr \<lparr>Accused = ''Robbery'', CrimeType = ''Bank robbery at downtown'',
          Description = ''Alex Murphy'', FiledBy = ''OfficerC'', FIRID = ''FIR3'',
          Status = ''Closed'', Timestamp = ''2024-01-03T12:00:00Z''\<rparr>"
proof -
  let ?c = "callerOn ''Org1MSP''
        (Mapping.update ''FIR3''
          (FIR_bytes
          \<lparr>Accused = ''Robbery'', CrimeType = ''Bank robbery at downtown'',
          Description = ''Alex Murphy'', FiledBy = ''OfficerC'', FIRID = ''FIR3'',
          Status = ''Open'', Timestamp = ''2024-01-03T12:00:00Z''\<rparr>)
          Mapping.empty)"
  let ?rd = "callerOn ''Org2MSP'' (world (snd (UpdateFIR ?c ''FIR3'' ''Closed'')))"
  have org1: "clientMSPID ?c = Some ''Org1MSP''"
    by simp
  have stored: "Mapping.lookup (world ?c) ''FIR3'' = Some (FIR_bytes
          \<lparr>Accused = ''Robbery'', CrimeType = ''Bank robbery at downtown'',
          Description = ''Alex Murphy'', FiledBy = ''OfficerC'', FIRID = ''FIR3'',
          Status = ''Open'', Timestamp = ''2024-01-03T12:00:00Z''\<rparr>)"
    by simp
  have ok: "\<not> fault ?c c" for c
    by simp
  have valid: "validUTF8 ''Closed''"
    by code_simp
  have same: "FIR_coerced
          \<lparr>Accused = ''Robbery'', CrimeType = ''Bank robbery at downtown'',
          Description = ''Alex Murphy'', FiledBy = ''OfficerC'', FIRID = ''FIR3'',
          Status = ''Open'', Timestamp = ''2024-01-03T12:00:00Z''\<rparr>
       = \<lparr>Accused = ''Robbery'', CrimeType = ''Bank robbery at downtown'',
          Description = ''Alex Murphy'', FiledBy = ''OfficerC'', FIRID = ''FIR3'',
          Status = ''Open'', Timestamp = ''2024-01-03T12:00:00Z''\<rparr>"
    by code_simp
  have rd: "world ?rd = world (snd (UpdateFIR ?c ''FIR3'' ''Closed''))
      \<and> \<not> fault ?rd (GetStateCall ''FIR3'')"
    by simp
  note closed =
    C5_UpdateFIR_status_only [where ctx = ?c and k = "''FIR3''" and s = "''Closed''",
      OF org1 stored ok ok]
  note after = closed [THEN conjunct2, THEN conjunct2, THEN conjunct2, THEN conjunct2,
      THEN spec, THEN mp, OF rd, THEN conjunct2, THEN mp, OF valid]
  have "fst (UpdateFIR ?c ''FIR3'' ''Closed'') = Inr ()"
    using closed by blast
  moreover have "fst (ReadFIR ?c ''FIR3'') = Inr
          \<lparr>Accused = ''Robbery'', CrimeType = ''Bank robbery at downtown'',
          Description = ''Alex Murphy'', FiledBy = ''OfficerC'', FIRID = ''FIR3'',
          Status = ''Open'', Timestamp = ''2024-01-03T12:00:00Z''\<rparr>"
    using closed same by simp
  moreover have "fst (ReadFIR ?rd ''FIR3'') = Inr
          \<lparr>Accused = ''Robbery'', CrimeType = ''Bank robbery at downtown'',
          Description = ''Alex Murphy'', FiledBy = ''OfficerC'', FIRID = ''FIR3'',
          Status = ''Closed'', Timestamp = ''2024-01-03T12:00:00Z''\<rparr>"
    using after by (simp add: same)
  ultimately show ?thesis
    using stored valid by (intro conjI)
qed

text \<open>The claim as first stated, for every status, fails on a status that is not valid
  UTF-8: updated to status \<open>FF\<close>, case \<open>FIR3\<close> is read back with status U+FFFD.\<close>

theorem C5_counterexample:
  "Mapping.lookup
     (world (callerOn ''Org1MSP''
        (Mapping.update ''FIR3''
          (FIR_bytes
          \<lparr>Accused = ''Robbery'', CrimeType = ''Bank robbery at downtown'',
          Description = ''Alex Murphy'', FiledBy = ''OfficerC'', FIRID = ''FIR3'',
          Status = ''Open'', Timestamp = ''2024-01-03T12:00:00Z''\<rparr>)
          Mapping.empty))) ''FIR3''
     = Some (FIR_bytes
          \<lparr>Accused = ''Robbery'', CrimeType = ''Bank robbery at downtown'',
          Description = ''Alex Murphy'', FiledBy = ''OfficerC'', FIRID = ''FIR3'',
          Status = ''Open'', Timestamp = ''2024-01-03T12:00:00Z''\<rparr>) \<and>
   fst (UpdateFIR (callerOn ''Org1MSP''
        (Mapping.update ''FIR3''
          (FIR_bytes
          \<lparr>Accused = ''Robbery'', CrimeType = ''Bank robbery at downtown'',
          Description = ''Alex Murphy'', FiledBy = ''OfficerC'', FIRID = ''FIR3'',
          Status = ''Open'', Timestamp = ''2024-01-03T12:00:00Z''\<rparr>)
          Mapping.empty)) ''FIR3'' [CHR 0xFF])
     = Inr () \<and>
   fst (ReadFIR (callerOn ''Org1MSP'' (world (snd (UpdateFIR (callerOn ''Org1MSP''
        (Mapping.update ''FIR3''
          (FIR_bytes
          \<lparr>Accused = ''Robbery'', CrimeType = ''Bank robbery at downtown'',
          Description = ''Alex Murphy'', FiledBy = ''OfficerC'', FIRID = ''FIR3'',
          Status = ''Open'', Timestamp = ''2024-01-03T12:00:00Z''\<rparr>)
          Mapping.empty)) ''FIR3'' [CHR 0xFF]))))
        ''FIR3'')
     = Inr \<lparr>Accused = ''Robbery'', CrimeType = ''Bank robbery at downtown'',
          Description = ''Alex Murphy'', FiledBy = ''OfficerC'', FIRID = ''FIR3'',
          Status = [CHR 0xEF, CHR 0xBF, CHR 0xBD], Timestamp = ''2024-01-03T12:00:00Z''\<rparr> \<and>
   fst (ReadFIR (callerOn ''Org1MSP'' (world (snd (UpdateFIR (callerOn ''Org1MSP''
        (Mapping.update ''FIR3''
          (FIR_bytes
          \<lparr>Accused = ''Robbery'', CrimeType = ''Bank robbery at downtown'',
          Description = ''Alex Murphy'', FiledBy = ''OfficerC'', FIRID = ''FIR3'',
          Status = ''Open'', Timestamp = ''2024-01-03T12:00:00Z''\<rparr>)
          Mapping.empty)) ''FIR3'' [CHR 0xFF]))))
        ''FIR3'')
     \<noteq> Inr \<lparr>Accused = ''Robbery'', CrimeType = ''Bank robbery at downtown'',
          Description = ''Alex Murphy'', FiledBy = ''OfficerC'', FIRID = ''FIR3'',
          Status = [CHR 0xFF], Timestamp = ''2024-01-03T12:00:00Z''\<rparr>"
proof -
  have coerced: "FIR_coerced
          \<lparr>Accused = ''Robbery'', CrimeType = ''Bank robbery at downtown'',
          Description = ''Alex Murphy'', FiledBy = ''OfficerC'', FIRID = ''FIR3'',
          Status = ''Open'', Timestamp = ''2024-01-03T12:00:00Z''\<rparr>
       = \<lparr>Accused = ''Robbery'', CrimeType = ''Bank robbery at downtown'',
          Description = ''Alex Murphy'', FiledBy = ''OfficerC'', FIRID = ''FIR3'',
          Status = ''Open'', Timestamp = ''2024-01-03T12:00:00Z''\<rparr>"
    by code_simp
  have coerced': "FIR_coerced
          \<lparr>Accused = ''Robbery'', CrimeType = ''Bank robbery at downtown'',
          Description = ''Alex Murphy'', FiledBy = ''OfficerC'', FIRID = ''FIR3'',
          Status = [CHR 0xFF], Timestamp = ''2024-01-03T12:00:00Z''\<rparr>
       = \<lparr>Accused = ''Robbery'', CrimeType = ''Bank robbery at downtown'',
          Description = ''Alex Murphy'', FiledBy = ''OfficerC'', FIRID = ''FIR3'',
          Status = [CHR 0xEF, CHR 0xBF, CHR 0xBD], Timestamp = ''2024-01-03T12:00:00Z''\<rparr>"
    by code_simp
  show ?thesis
    by (simp add: UpdateFIR_eq PutState_ok ReadFIR_eq coerced coerced')
qed

theorem C6_witness:
  "clientMSPID (callerOn ''Org1MSP'' Mapping.empty) = Some ''Org1MSP'' \<and>
   Mapping.lookup (world (callerOn ''Org1MSP'' Mapping.empty)) ''NON_EXISTENT'' = None \<and>
   fst (UpdateFIR (callerOn ''Org1MSP'' Mapping.empty) ''NON_EXISTENT'' ''Closed'') = Inl NotFound \<and>
   world (snd (UpdateFIR (callerOn ''Org1MSP'' Mapping.empty) ''NON_EXISTENT'' ''Closed'')) = Mapping.empty \<and>
   trace (snd (UpdateFIR (callerOn ''Org1MSP'' Mapping.empty) ''NON_EXISTENT'' ''Closed''))
     = [GetStateCall ''NON_EXISTENT''] \<and>
   fst (DeleteFIR (callerOn ''Org1MSP'' Mapping.empty) ''NON_EXISTENT'') = Inl NotFound \<and>
   fst (DeletePolicePersonnel (callerOn ''Org1MSP'' Mapping.empty) ''NON_EXISTENT'') = Inl NotFound \<and>
   fst (UpdatePolicePersonnel (callerOn ''Org1MSP'' Mapping.empty) ''NON_EXISTENT''
          ''Raj Kumar'' ''Sub-Inspector'' ''1990-01-25'' ''Crime Branch, Delhi''
          ''DEL-7890'' ''Active'' ''2015-07-10'' ''Meritorious Service Medal''
          [] ''Org1'' ''2025-01-01'') = Inl NotFound"
proof -
  have org1: "clientMSPID (callerOn ''Org1MSP'' Mapping.empty) = Some ''Org1MSP''"
    by simp
  have absent: "Mapping.lookup (world (callerOn ''Org1MSP'' Mapping.empty)) ''NON_EXISTENT'' = None"
    by simp
  have ok: "\<not> fault (callerOn ''Org1MSP'' Mapping.empty) (GetStateCall ''NON_EXISTENT'')"
    by simp
  note missing =
    C6_absent_key_not_found [where ctx = "callerOn ''Org1MSP'' Mapping.empty" and k = "''NON_EXISTENT''"
      and s = "''Closed''" and n = "''Raj Kumar''" and r = "''Sub-Inspector''"
      and dob = "''1990-01-25''" and po = "''Crime Branch, Delhi''" and b = "''DEL-7890''"
      and es = "''Active''" and dj = "''2015-07-10''"
      and aw = "''Meritorious Service Medal''" and su = "[]" and lb = "''Org1''"
      and lo = "''2025-01-01''", OF org1 absent ok]
  show ?thesis
    using org1 absent missing by simp
qed

theorem C8_witness:
  "fst (FIRExists (callerOn ''Org2MSP''
          (Mapping.update ''FIR3'' (FIR_bytes
          \<lparr>Accused = ''Robbery'', CrimeType = ''Bank robbery at downtown'',
          Description = ''Alex Murphy'', FiledBy = ''OfficerC'', FIRID = ''FIR3'',
          Status = ''Open'', Timestamp = ''2024-01-03T12:00:00Z''\<rparr>) Mapping.empty)) ''FIR3'')
     = Inr True \<and>
   fst (PersonnelExists (callerOn ''Org2MSP'' Mapping.empty) ''POL12346'') = Inr False \<and>
   world (snd (FIRExists (callerOn ''Org2MSP'' Mapping.empty) ''FIR3'')) = Mapping.empty"
  using
    C8_exists [where ctx = "callerOn ''Org2MSP''
          (Mapping.update ''FIR3'' (FIR_bytes
          \<lparr>Accused = ''Robbery'', CrimeType = ''Bank robbery at downtown'',
          Description = ''Alex Murphy'', FiledBy = ''OfficerC'', FIRID = ''FIR3'',
          Status = ''Open'', Timestamp = ''2024-01-03T12:00:00Z''\<rparr>) Mapping.empty)" and k = "''FIR3''"]
    C8_exists [where ctx = "callerOn ''Org2MSP'' Mapping.empty" and k = "''POL12346''"]
    C8_exists [where ctx = "callerOn ''Org2MSP'' Mapping.empty" and k = "''FIR3''"]
  by simp

theorem C10_witness:
  "Mapping.lookup
     (world (callerOn ''Org1MSP''
        (Mapping.update ''FIR3'' (FIR_bytes
          \<lparr>Accused = ''Robbery'', CrimeType = ''Bank robbery at downtown'',
          Description = ''Alex Murphy'', FiledBy = ''OfficerC'', FIRID = ''FIR3'',
          Status = ''Open'', Timestamp = ''2024-01-03T12:00:00Z''\<rparr>) Mapping.empty))) ''FIR3''
     = Some (FIR_bytes \<lparr>Accused = ''Robbery'', CrimeType = ''Bank robbery at downtown'',
          Description = ''Alex Murphy'', FiledBy = ''OfficerC'', FIRID = ''FIR3'',
          Status = ''Open'', Timestamp = ''2024-01-03T12:00:00Z''\<rparr>) \<and>
   fst (CreatePolicePersonnel (callerOn ''Org1MSP''
        (Mapping.update ''FIR3'' (FIR_bytes
          \<lparr>Accused = ''Robbery'', CrimeType = ''Bank robbery at downtown'',
          Description = ''Alex Murphy'', FiledBy = ''OfficerC'', FIRID = ''FIR3'',
          Status = ''Open'', Timestamp = ''2024-01-03T12:00:00Z''\<rparr>) Mapping.empty)) ''FIR3''
          ''Raj Kumar'' ''Sub-Inspector'' ''1990-01-25'' ''Crime Branch, Delhi''
          ''DEL-7890'' ''Active'' ''2015-07-10'' ''Meritorious Service Medal''
          [] ''Org1'' ''2025-01-01'')
     = Inl AlreadyExists \<and>
   Mapping.lookup
     (world (callerOn ''Org1MSP''
        (Mapping.update ''POL12346'' (PolicePersonnel_bytes
          \<lparr>OfficerID = ''POL12346'', Name = ''Raj Kumar'', Rank = ''Sub-Inspector'',
          DOB = ''1990-01-25'', Posting = ''Crime Branch, Delhi'', BadgeNumber = ''DEL-7890'',
          EmploymentStatus = ''Active'', DateOfJoining = ''2015-07-10'',
          Award = ''Meritorious Service Medal'', Suspension = [], LastUpdatedBy = ''Org1'',
          LastUpdatedOn = ''2025-01-01''\<rparr>) Mapping.empty)))
     ''POL12346''
     = Some (PolicePersonnel_bytes
          \<lparr>OfficerID = ''POL12346'', Name = ''Raj Kumar'', Rank = ''Sub-Inspector'',
          DOB = ''1990-01-25'', Posting = ''Crime Branch, Delhi'', BadgeNumber = ''DEL-7890'',
          EmploymentStatus = ''Active'', DateOfJoining = ''2015-07-10'',
          Award = ''Meritorious Service Medal'', Suspension = [], LastUpdatedBy = ''Org1'',
          LastUpdatedOn = ''2025-01-01''\<rparr>) \<and>
   fst (FileFIR (callerOn ''Org1MSP''
        (Mapping.update ''POL12346'' (PolicePersonnel_bytes
          \<lparr>OfficerID = ''POL12346'', Name = ''Raj Kumar'', Rank = ''Sub-Inspector'',
          DOB = ''1990-01-25'', Posting = ''Crime Branch, Delhi'', BadgeNumber = ''DEL-7890'',
          EmploymentStatus = ''Active'', DateOfJoining = ''2015-07-10'',
          Award = ''Meritorious Service Medal'', Suspension = [], LastUpdatedBy = ''Org1'',
          LastUpdatedOn = ''2025-01-01''\<rparr>) Mapping.empty))
          ''POL12346''
          ''OfficerC'' ''Robbery'' ''Bank robbery at downtown'' ''Alex Murphy''
          ''Open'' ''2024-01-03T12:00:00Z'')
     = Inl AlreadyExists"
proof -
  let ?c = "callerOn ''Org1MSP''
        (Mapping.update ''FIR3'' (FIR_bytes
          \<lparr>Accused = ''Robbery'', CrimeType = ''Bank robbery at downtown'',
          Description = ''Alex Murphy'', FiledBy = ''OfficerC'', FIRID = ''FIR3'',
          Status = ''Open'', Timestamp = ''2024-01-03T12:00:00Z''\<rparr>) Mapping.empty)"
  let ?d = "callerOn ''Org1MSP''
        (Mapping.update ''POL12346'' (PolicePersonnel_bytes
          \<lparr>OfficerID = ''POL12346'', Name = ''Raj Kumar'', Rank = ''Sub-Inspector'',
          DOB = ''1990-01-25'', Posting = ''Crime Branch, Delhi'', BadgeNumber = ''DEL-7890'',
          EmploymentStatus = ''Active'', DateOfJoining = ''2015-07-10'',
          Award = ''Meritorious Service Medal'', Suspension = [], LastUpdatedBy = ''Org1'',
          LastUpdatedOn = ''2025-01-01''\<rparr>) Mapping.empty)"
  have org1: "clientMSPID ?c = Some ''Org1MSP''" "clientMSPID ?d = Some ''Org1MSP''"
    by simp_all
  have ok: "\<not> fault ?c c" "\<not> fault ?d c" for c
    by simp_all
  have held: "Mapping.lookup (world ?c) ''FIR3'' = Some (FIR_bytes
          \<lparr>Accused = ''Robbery'', CrimeType = ''Bank robbery at downtown'',
          Description = ''Alex Murphy'', FiledBy = ''OfficerC'', FIRID = ''FIR3'',
          Status = ''Open'', Timestamp = ''2024-01-03T12:00:00Z''\<rparr>)"
    "Mapping.lookup (world ?d) ''POL12346'' = Some (PolicePersonnel_bytes
          \<lparr>OfficerID = ''POL12346'', Name = ''Raj Kumar'', Rank = ''Sub-Inspector'',
          DOB = ''1990-01-25'', Posting = ''Crime Branch, Delhi'', BadgeNumber = ''DEL-7890'',
          EmploymentStatus = ''Active'', DateOfJoining = ''2015-07-10'',
          Award = ''Meritorious Service Medal'', Suspension = [], LastUpdatedBy = ''Org1'',
          LastUpdatedOn = ''2025-01-01''\<rparr>)"
    by simp_all
  note officer_on_case =
    C10_create_ignores_record_kind [where ctx = ?c and k = "''FIR3''"
      and fir = "\<lparr>Accused = ''Robbery'', CrimeType = ''Bank robbery at downtown'',
          Description = ''Alex Murphy'', FiledBy = ''OfficerC'', FIRID = ''FIR3'',
          Status = ''Open'', Timestamp = ''2024-01-03T12:00:00Z''\<rparr>"
      and n = "''Raj Kumar''" and r = "''Sub-Inspector''" and dob = "''1990-01-25''"
      and po = "''Crime Branch, Delhi''" and b = "''DEL-7890''" and es = "''Active''"
      and dj = "''2015-07-10''" and aw = "''Meritorious Service Medal''" and su = "[]"
      and lb = "''Org1''"
      and lo = "''2025-01-01''", OF org1(1) ok(1), THEN conjunct1, THEN mp, OF held(1)]
  note case_on_officer =
    C10_create_ignores_record_kind [where ctx = ?d and k = "''POL12346''"
      and p = "\<lparr>OfficerID = ''POL12346'', Name = ''Raj Kumar'', Rank = ''Sub-Inspector'',
          DOB = ''1990-01-25'', Posting = ''Crime Branch, Delhi'', BadgeNumber = ''DEL-7890'',
          EmploymentStatus = ''Active'', DateOfJoining = ''2015-07-10'',
          Award = ''Meritorious Service Medal'', Suspension = [], LastUpdatedBy = ''Org1'',
          LastUpdatedOn = ''2025-01-01''\<rparr>"
      and fb = "''OfficerC''" and a = "''Robbery''" and ct = "''Bank robbery at downtown''"
      and d = "''Alex Murphy''" and s = "''Open''"
      and t = "''2024-01-03T12:00:00Z''", OF org1(2) ok(2), THEN conjunct2, THEN conjunct1, THEN mp, OF held(2)]
  show ?thesis
    using held officer_on_case case_on_officer by simp
qed

subsection \<open>The stored identifier is the key\<close>

lemma lookup_delete_if:
  "Mapping.lookup (Mapping.delete k m) k' = (if k = k' then None else Mapping.lookup m k')"
  by simp

text \<open>A property \<open>P\<close> of all entries of the world state is kept by a write of an entry
  that has it, and by a delete.\<close>

lemma kept_update:
  assumes "\<forall>k v. Mapping.lookup w k = Some v \<longrightarrow> P k v" and "P key val"
  shows "\<forall>k v. Mapping.lookup (Mapping.update key val w) k = Some v \<longrightarrow> P k v"
  using assms by (auto simp: lookup_update')

lemma kept_delete:
  assumes "\<forall>k v. Mapping.lookup w k = Some v \<longrightarrow> P k v"
  shows "\<forall>k v. Mapping.lookup (Mapping.delete key w) k = Some v \<longrightarrow> P k v"
  using assms by (auto simp: lookup_delete_if split: if_splits)

lemma fir_putAll_kept:
  assumes "\<forall>k v. Mapping.lookup (world ctx) k = Some v \<longrightarrow> P k v"
    and fresh: "\<forall>x. P (FIRID x) (FIR_bytes x)"
  shows "\<forall>k v. Mapping.lookup (world (snd (fir_putAll ctx firs))) k = Some v \<longrightarrow> P k v"
  using assms(1)
proof (induction firs arbitrary: ctx)
  case Nil
  then show ?case by simp
next
  case (Cons fir firs)
  show ?case
  proof (cases "fault ctx (PutStateCall (FIRID fir))")
    case True
    then show ?thesis
      using Cons.prems by (simp add: Marshal_FIR_def PutState_def)
  next
    case False
    have "\<forall>k v. Mapping.lookup (Mapping.update (FIRID fir) (FIR_bytes fir) (world ctx)) k = Some v
            \<longrightarrow> P k v"
      using Cons.prems fresh by (intro kept_update) simp_all
    then show ?thesis
      using False
        Cons.IH [of "logCall (PutStateCall (FIRID fir))
                       (ctx\<lparr>world := Mapping.update (FIRID fir) (FIR_bytes fir) (world ctx)\<rparr>)"]
      by (simp add: Marshal_FIR_def PutState_def)
  qed
qed

lemma personnel_putAll_kept:
  assumes "\<forall>k v. Mapping.lookup (world ctx) k = Some v \<longrightarrow> P k v"
    and fresh: "\<forall>x. P (OfficerID x) (PolicePersonnel_bytes x)"
  shows "\<forall>k v. Mapping.lookup (world (snd (personnel_putAll ctx ps))) k = Some v \<longrightarrow> P k v"
  using assms(1)
proof (induction ps arbitrary: ctx)
  case Nil
  then show ?case by simp
next
  case (Cons p ps)
  show ?case
  proof (cases "fault ctx (PutStateCall (OfficerID p))")
    case True
    then show ?thesis
      using Cons.prems by (simp add: Marshal_PolicePersonnel_def PutState_def)
  next
    case False
    have "\<forall>k v. Mapping.lookup
                   (Mapping.update (OfficerID p) (PolicePersonnel_bytes p) (world ctx)) k = Some v
            \<longrightarrow> P k v"
      using Cons.prems fresh by (intro kept_update) simp_all
    then show ?thesis
      using False
        Cons.IH [of "logCall (PutStateCall (OfficerID p))
                       (ctx\<lparr>world := Mapping.update (OfficerID p) (PolicePersonnel_bytes p)
                                        (world ctx)\<rparr>)"]
      by (simp add: Marshal_PolicePersonnel_def PutState_def)
  qed
qed

lemma fir_putAll_fault: "fault (snd (fir_putAll ctx firs)) = fault ctx"
  by (induction firs arbitrary: ctx) (auto simp: Marshal_FIR_def PutState_def)

lemma fir_InitLedger_fault: "fault (snd (fir_InitLedger ctx)) = fault ctx"
  by (simp add: fir_InitLedger_def fir_putAll_fault)

lemma fir_collect_world: "world (snd (fir_collect ctx it acc)) = world ctx"
  by (induction it arbitrary: ctx acc) (auto simp: Next_def split: sum.splits)

lemma personnel_collect_world: "world (snd (personnel_collect ctx it acc)) = world ctx"
  by (induction it arbitrary: ctx acc) (auto simp: Next_def split: sum.splits)

lemma GetAllFIRs_world: "world (snd (GetAllFIRs ctx)) = world ctx"
  by (auto simp: GetAllFIRs_def GetStateByRange_def Close_def fir_collect_world
      split: prod.splits if_splits dest: arg_cong [where f = "\<lambda>x. world (snd x)"])

lemma GetAllPersonnel_world: "world (snd (GetAllPersonnel ctx)) = world ctx"
  by (auto simp: GetAllPersonnel_def GetStateByRange_def Close_def personnel_collect_world
      split: prod.splits if_splits dest: arg_cong [where f = "\<lambda>x. world (snd x)"])

text \<open>
  The transactions of the case-record contract keep \<open>P\<close> when \<open>P\<close> holds of a record
  written under its own \<open>FIRID\<close> and survives the rewrite \<open>UpdateFIR\<close> makes of what it
  decoded; those of the personnel contract keep \<open>P\<close> when it holds of a record written
  under its own \<open>OfficerID\<close>.
\<close>

lemma fir_invoke_kept:
  assumes inv: "\<forall>k v. Mapping.lookup (world ctx) k = Some v \<longrightarrow> P k v"
    and fresh: "\<forall>x. P (FIRID x) (FIR_bytes x)"
    and rewrite: "\<forall>k v fir s. P k v \<and> Unmarshal_FIR v = Inr fir
                    \<longrightarrow> P k (FIR_bytes (fir\<lparr>Status := s\<rparr>))"
  shows "\<forall>k v. Mapping.lookup (world (fir_invoke ctx tx)) k = Some v \<longrightarrow> P k v"
proof (cases tx)
  case Tx_fir_InitLedger
  then show ?thesis
    using fir_putAll_kept [OF inv fresh] by (simp add: fir_InitLedger_def)
next
  case (Tx_FileFIR k fb a ct d s t)
  let ?fir = "\<lparr>Accused = a, CrimeType = ct, Description = d, FiledBy = fb, FIRID = k,
               Status = s, Timestamp = t\<rparr>"
  have "P k (FIR_bytes ?fir)"
    using fresh [THEN spec, of ?fir] by simp
  with inv have "\<forall>k' v. Mapping.lookup (Mapping.update k (FIR_bytes ?fir) (world ctx)) k' = Some v
          \<longrightarrow> P k' v"
    by (rule kept_update)
  then show ?thesis
    using inv Tx_FileFIR by (simp add: FileFIR_eq PutState_def)
next
  case (Tx_ReadFIR k)
  then show ?thesis using inv by (simp add: ReadFIR_eq)
next
  case (Tx_UpdateFIR k s)
  show ?thesis
  proof (cases "fst (ReadFIR ctx k)")
    case (Inl e)
    then show ?thesis
      using inv Tx_UpdateFIR by (simp add: UpdateFIR_eq)
  next
    case (Inr fir)
    then obtain v where v: "Mapping.lookup (world ctx) k = Some v" "Unmarshal_FIR v = Inr fir"
      by (auto simp: ReadFIR_eq split: if_splits option.splits)
    with inv have "P k v"
      by blast
    with v rewrite have "P k (FIR_bytes (fir\<lparr>Status := s\<rparr>))"
      by blast
    with inv have "\<forall>k' v. Mapping.lookup
                     (Mapping.update k (FIR_bytes (fir\<lparr>Status := s\<rparr>)) (world ctx)) k' = Some v
          \<longrightarrow> P k' v"
      by (rule kept_update)
    then show ?thesis
      using inv Inr Tx_UpdateFIR by (simp add: UpdateFIR_eq PutState_def)
  qed
next
  case (Tx_DeleteFIR k)
  then show ?thesis
    using inv kept_delete [OF inv, of k] by (simp add: DeleteFIR_eq DelState_def)
next
  case (Tx_FIRExists k)
  then show ?thesis using inv by (simp add: FIRExists_eq)
next
  case Tx_GetAllFIRs
  then show ?thesis using inv by (simp add: GetAllFIRs_world)
qed

lemma personnel_invoke_kept:
  assumes inv: "\<forall>k v. Mapping.lookup (world ctx) k = Some v \<longrightarrow> P k v"
    and fresh: "\<forall>x. P (OfficerID x) (PolicePersonnel_bytes x)"
  shows "\<forall>k v. Mapping.lookup (world (personnel_invoke ctx tx)) k = Some v \<longrightarrow> P k v"
proof (cases tx)
  case Tx_personnel_InitLedger
  then show ?thesis
    using inv personnel_putAll_kept [OF inv fresh]
    by (simp add: personnel_InitLedger_def personnel_onlyPolice_eq)
next
  case (Tx_CreatePolicePersonnel k n r dob po b es dj aw su lb lo)
  let ?p = "\<lparr>OfficerID = k, Name = n, Rank = r, DOB = dob, Posting = po, BadgeNumber = b,
             EmploymentStatus = es, DateOfJoining = dj, Award = aw, Suspension = su,
             LastUpdatedBy = lb, LastUpdatedOn = lo\<rparr>"
  have "P k (PolicePersonnel_bytes ?p)"
    using fresh [THEN spec, of ?p] by simp
  with inv have "\<forall>k' v. Mapping.lookup (Mapping.update k (PolicePersonnel_bytes ?p) (world ctx)) k'
                  = Some v \<longrightarrow> P k' v"
    by (rule kept_update)
  then show ?thesis
    using inv Tx_CreatePolicePersonnel by (simp add: CreatePolicePersonnel_eq PutState_def)
next
  case (Tx_ReadPolicePersonnel k)
  then show ?thesis using inv by (simp add: ReadPolicePersonnel_eq)
next
  case (Tx_UpdatePolicePersonnel k n r dob po b es dj aw su lb lo)
  let ?p = "\<lparr>OfficerID = k, Name = n, Rank = r, DOB = dob, Posting = po, BadgeNumber = b,
             EmploymentStatus = es, DateOfJoining = dj, Award = aw, Suspension = su,
             LastUpdatedBy = lb, LastUpdatedOn = lo\<rparr>"
  have "P k (PolicePersonnel_bytes ?p)"
    using fresh [THEN spec, of ?p] by simp
  with inv have "\<forall>k' v. Mapping.lookup (Mapping.update k (PolicePersonnel_bytes ?p) (world ctx)) k'
                  = Some v \<longrightarrow> P k' v"
    by (rule kept_update)
  then show ?thesis
    using inv Tx_UpdatePolicePersonnel by (simp add: UpdatePolicePersonnel_eq PutState_def)
next
  case (Tx_DeletePolicePersonnel k)
  then show ?thesis
    using inv kept_delete [OF inv, of k] by (simp add: DeletePolicePersonnel_eq DelState_def)
next
  case (Tx_PersonnelExists k)
  then show ?thesis using inv by (simp add: PersonnelExists_eq)
next
  case Tx_GetAllPersonnel
  then show ?thesis using inv by (simp add: GetAllPersonnel_world)
qed

text \<open>The properties of an entry: a case record, or a personnel record, that decodes to
  itself and carries the key (coerced to valid UTF-8) as its identifier.\<close>

lemma FIRID_coerced [simp]: "FIRID (FIR_coerced x) = toValidUTF8 (FIRID x)"
  by (simp add: FIR_coerced_def)

lemma FIR_coerced_Status [simp]:
  "FIR_coerced ((FIR_coerced x)\<lparr>Status := s\<rparr>) = FIR_coerced (x\<lparr>Status := s\<rparr>)"
  by (simp add: FIR_coerced_def)

lemma OfficerID_coerced [simp]:
  "OfficerID (PolicePersonnel_coerced x) = toValidUTF8 (OfficerID x)"
  by (simp add: PolicePersonnel_coerced_def)

lemma fir_record_fresh:
  "\<exists>fir. FIR_bytes x = FIR_bytes fir \<and> Unmarshal_FIR (FIR_bytes x) = Inr fir \<and>
         FIRID fir = toValidUTF8 (FIRID x)"
  by (intro exI [of _ "FIR_coerced x"] conjI) simp_all

lemma personnel_record_fresh:
  "\<exists>p. PolicePersonnel_bytes x = PolicePersonnel_bytes p \<and>
       Unmarshal_PolicePersonnel (PolicePersonnel_bytes x) = Inr p \<and>
       OfficerID p = toValidUTF8 (OfficerID x)"
  by (intro exI [of _ "PolicePersonnel_coerced x"] conjI) simp_all

lemma fir_record_rewrite:
  assumes "v = FIR_bytes fir0" and "Unmarshal_FIR v = Inr fir"
  shows "\<exists>fir'. FIR_bytes (fir\<lparr>Status := s\<rparr>) = FIR_bytes fir' \<and>
           Unmarshal_FIR (FIR_bytes (fir\<lparr>Status := s\<rparr>)) = Inr fir' \<and> FIRID fir' = FIRID fir"
proof -
  from assms have "fir = FIR_coerced fir0"
    by simp
  then show ?thesis
    by (intro exI [of _ "FIR_coerced (fir\<lparr>Status := s\<rparr>)"] conjI) simp_all
qed

lemma Unmarshal_FIR_of_personnel:
  "Unmarshal_FIR (PolicePersonnel_bytes p) =
     Inr \<lparr>Accused = [], CrimeType = [], Description = [], FiledBy = [], FIRID = [],
          Status = [], Timestamp = []\<rparr>"
  by (simp add: Unmarshal_FIR_def PolicePersonnel_bytes_def typeMismatch_def FIR_names_def
      keyMatches_def foldName_FIR foldName_PolicePersonnel)

lemma Unmarshal_PolicePersonnel_of_FIR:
  "Unmarshal_PolicePersonnel (FIR_bytes fir) =
     Inr \<lparr>OfficerID = [], Name = [], Rank = [], DOB = [], Posting = [], BadgeNumber = [],
          EmploymentStatus = [], DateOfJoining = [], Award = [], Suspension = [],
          LastUpdatedBy = [], LastUpdatedOn = []\<rparr>"
  by (simp add: Unmarshal_PolicePersonnel_def FIR_bytes_def typeMismatch_def
      PolicePersonnel_names_def keyMatches_def foldName_FIR foldName_PolicePersonnel)

lemma fir_reachable_keyed:
  "fir_reachable w \<Longrightarrow>
   \<forall>k v. Mapping.lookup w k = Some v \<longrightarrow>
     (\<exists>fir. v = FIR_bytes fir \<and> Unmarshal_FIR v = Inr fir \<and> FIRID fir = toValidUTF8 k)"
proof (induction rule: fir_reachable.induct)
  case fir_empty
  show ?case by simp
next
  case (fir_step ctx tx)
  show ?case
  proof (rule fir_invoke_kept [OF fir_step.IH])
    show "\<forall>x. \<exists>fir. FIR_bytes x = FIR_bytes fir \<and> Unmarshal_FIR (FIR_bytes x) = Inr fir \<and>
                   FIRID fir = toValidUTF8 (FIRID x)"
      using fir_record_fresh by blast
    show "\<forall>k v fir s.
        (\<exists>fir. v = FIR_bytes fir \<and> Unmarshal_FIR v = Inr fir \<and> FIRID fir = toValidUTF8 k) \<and>
        Unmarshal_FIR v = Inr fir \<longrightarrow>
        (\<exists>fir'. FIR_bytes (fir\<lparr>Status := s\<rparr>) = FIR_bytes fir' \<and>
            Unmarshal_FIR (FIR_bytes (fir\<lparr>Status := s\<rparr>)) = Inr fir' \<and>
            FIRID fir' = toValidUTF8 k)"
    proof (intro allI impI)
      fix k v fir s
      assume h: "(\<exists>fir. v = FIR_bytes fir \<and> Unmarshal_FIR v = Inr fir \<and>
                    FIRID fir = toValidUTF8 k) \<and> Unmarshal_FIR v = Inr fir"
      then obtain fir0 where v: "v = FIR_bytes fir0" and id: "FIRID fir = toValidUTF8 k"
        by auto
      from h have dec: "Unmarshal_FIR v = Inr fir"
        by blast
      show "\<exists>fir'. FIR_bytes (fir\<lparr>Status := s\<rparr>) = FIR_bytes fir' \<and>
            Unmarshal_FIR (FIR_bytes (fir\<lparr>Status := s\<rparr>)) = Inr fir' \<and>
            FIRID fir' = toValidUTF8 k"
        using fir_record_rewrite [OF v dec, of s] id by auto
    qed
  qed
qed

lemma personnel_reachable_keyed:
  "personnel_reachable w \<Longrightarrow>
   \<forall>k v. Mapping.lookup w k = Some v \<longrightarrow>
     (\<exists>p. v = PolicePersonnel_bytes p \<and> Unmarshal_PolicePersonnel v = Inr p \<and>
          OfficerID p = toValidUTF8 k)"
proof (induction rule: personnel_reachable.induct)
  case personnel_empty
  show ?case by simp
next
  case (personnel_step ctx tx)
  show ?case
  proof (rule personnel_invoke_kept [OF personnel_step.IH])
    show "\<forall>x. \<exists>p. PolicePersonnel_bytes x = PolicePersonnel_bytes p \<and>
                 Unmarshal_PolicePersonnel (PolicePersonnel_bytes x) = Inr p \<and>
                 OfficerID p = toValidUTF8 (OfficerID x)"
      using personnel_record_fresh by blast
  qed
qed

text \<open>On a world state that both contracts write, an entry is a personnel record keyed
  as above, or a case record that is keyed as above or has an empty \<open>FIRID\<close>: the latter
  is what \<open>UpdateFIR\<close> writes on a key that held a personnel record.\<close>

lemma shared_reachable_keyed:
  "shared_reachable w \<Longrightarrow>
   \<forall>k v. Mapping.lookup w k = Some v \<longrightarrow>
     (\<exists>p. v = PolicePersonnel_bytes p \<and> Unmarshal_PolicePersonnel v = Inr p \<and>
          OfficerID p = toValidUTF8 k) \<or>
     (\<exists>fir. v = FIR_bytes fir \<and> Unmarshal_FIR v = Inr fir \<and>
          (FIRID fir = toValidUTF8 k \<or> FIRID fir = []))"
proof (induction rule: shared_reachable.induct)
  case shared_empty
  show ?case by simp
next
  case (shared_fir ctx tx)
  show ?case
  proof (rule fir_invoke_kept [OF shared_fir.IH])
    show "\<forall>x. (\<exists>p. FIR_bytes x = PolicePersonnel_bytes p \<and>
                    Unmarshal_PolicePersonnel (FIR_bytes x) = Inr p \<and>
                    OfficerID p = toValidUTF8 (FIRID x)) \<or>
               (\<exists>fir. FIR_bytes x = FIR_bytes fir \<and> Unmarshal_FIR (FIR_bytes x) = Inr fir \<and>
                    (FIRID fir = toValidUTF8 (FIRID x) \<or> FIRID fir = []))"
      using fir_record_fresh by blast
    show "\<forall>k v fir s.
        ((\<exists>p. v = PolicePersonnel_bytes p \<and> Unmarshal_PolicePersonnel v = Inr p \<and>
              OfficerID p = toValidUTF8 k) \<or>
         (\<exists>fir. v = FIR_bytes fir \<and> Unmarshal_FIR v = Inr fir \<and>
              (FIRID fir = toValidUTF8 k \<or> FIRID fir = []))) \<and>
        Unmarshal_FIR v = Inr fir \<longrightarrow>
        (\<exists>p. FIR_bytes (fir\<lparr>Status := s\<rparr>) = PolicePersonnel_bytes p \<and>
              Unmarshal_PolicePersonnel (FIR_bytes (fir\<lparr>Status := s\<rparr>)) = Inr p \<and>
              OfficerID p = toValidUTF8 k) \<or>
        (\<exists>fir'. FIR_bytes (fir\<lparr>Status := s\<rparr>) = FIR_bytes fir' \<and>
              Unmarshal_FIR (FIR_bytes (fir\<lparr>Status := s\<rparr>)) = Inr fir' \<and>
              (FIRID fir' = toValidUTF8 k \<or> FIRID fir' = []))"
    proof (intro allI impI)
      fix k v fir s
      assume h: "((\<exists>p. v = PolicePersonnel_bytes p \<and> Unmarshal_PolicePersonnel v = Inr p \<and>
              OfficerID p = toValidUTF8 k) \<or>
         (\<exists>fir. v = FIR_bytes fir \<and> Unmarshal_FIR v = Inr fir \<and>
              (FIRID fir = toValidUTF8 k \<or> FIRID fir = []))) \<and>
        Unmarshal_FIR v = Inr fir"
      then have dec: "Unmarshal_FIR v = Inr fir"
        by blast
      from h consider
          (officer) p where "v = PolicePersonnel_bytes p"
        | (filed) fir0 where "v = FIR_bytes fir0"
            "FIRID fir = toValidUTF8 k \<or> FIRID fir = []"
        by auto
      then have "\<exists>fir'. FIR_bytes (fir\<lparr>Status := s\<rparr>) = FIR_bytes fir' \<and>
              Unmarshal_FIR (FIR_bytes (fir\<lparr>Status := s\<rparr>)) = Inr fir' \<and>
              (FIRID fir' = toValidUTF8 k \<or> FIRID fir' = [])"
      proof cases
        case officer
        with dec have "FIRID fir = []"
          by (auto simp: Unmarshal_FIR_of_personnel)
        then show ?thesis
          by (intro exI [of _ "FIR_coerced (fir\<lparr>Status := s\<rparr>)"] conjI) simp_all
      next
        case filed
        then show ?thesis
          using fir_record_rewrite [OF filed(1) dec, of s] by auto
      qed
      then show "(\<exists>p. FIR_bytes (fir\<lparr>Status := s\<rparr>) = PolicePersonnel_bytes p \<and>
              Unmarshal_PolicePersonnel (FIR_bytes (fir\<lparr>Status := s\<rparr>)) = Inr p \<and>
              OfficerID p = toValidUTF8 k) \<or>
        (\<exists>fir'. FIR_bytes (fir\<lparr>Status := s\<rparr>) = FIR_bytes fir' \<and>
              Unmarshal_FIR (FIR_bytes (fir\<lparr>Status := s\<rparr>)) = Inr fir' \<and>
              (FIRID fir' = toValidUTF8 k \<or> FIRID fir' = []))"
        by blast
    qed
  qed
next
  case (shared_personnel ctx ptx)
  show ?case
  proof (rule personnel_invoke_kept [OF shared_personnel.IH])
    show "\<forall>x. (\<exists>p. PolicePersonnel_bytes x = PolicePersonnel_bytes p \<and>
                    Unmarshal_PolicePersonnel (PolicePersonnel_bytes x) = Inr p \<and>
                    OfficerID p = toValidUTF8 (OfficerID x)) \<or>
               (\<exists>fir. PolicePersonnel_bytes x = FIR_bytes fir \<and>
                    Unmarshal_FIR (PolicePersonnel_bytes x) = Inr fir \<and>
                    (FIRID fir = toValidUTF8 (OfficerID x) \<or> FIRID fir = []))"
      using personnel_record_fresh by blast
  qed
qed

text \<open>
  Claim C9 (as amended). In every world state that one contract reaches from the empty
  one by its own transactions alone (\<open>InitLedger\<close>, create, update, delete and the reads;
  any caller, any ledger faults), each stored value is a record of that contract's kind
  whose identifier field (\<open>FIRID\<close>, \<open>OfficerID\<close>) is the storage key with every byte
  that is not part of valid UTF-8 replaced by U+FFFD: the key itself when the key is
  valid UTF-8. \<open>UpdateFIR\<close> keeps this, rewriting the record it read under the same key.
  In every world state reached when both contracts write one shared world state, each
  stored value is a personnel record whose \<open>OfficerID\<close> is the key so coerced, or a case
  record whose \<open>FIRID\<close> is the key so coerced or is empty.
\<close>

theorem C9_identifier_is_key:
  "(fir_reachable w \<longrightarrow>
      (\<forall>k v. Mapping.lookup w k = Some v \<longrightarrow>
         (\<exists>fir. v = FIR_bytes fir \<and> Unmarshal_FIR v = Inr fir \<and>
               FIRID fir = toValidUTF8 k \<and> (validUTF8 k \<longrightarrow> FIRID fir = k)))) \<and>
   (personnel_reachable w \<longrightarrow>
      (\<forall>k v. Mapping.lookup w k = Some v \<longrightarrow>
         (\<exists>p. v = PolicePersonnel_bytes p \<and> Unmarshal_PolicePersonnel v = Inr p \<and>
              OfficerID p = toValidUTF8 k \<and> (validUTF8 k \<longrightarrow> OfficerID p = k)))) \<and>
   (fir_reachable (world ctx) \<longrightarrow>
      (\<forall>k' v. Mapping.lookup (world (snd (UpdateFIR ctx k s))) k' = Some v \<longrightarrow>
         (\<exists>fir. v = FIR_bytes fir \<and> Unmarshal_FIR v = Inr fir \<and>
               FIRID fir = toValidUTF8 k' \<and> (validUTF8 k' \<longrightarrow> FIRID fir = k')))) \<and>
   (shared_reachable w \<longrightarrow>
      (\<forall>k v. Mapping.lookup w k = Some v \<longrightarrow>
         (\<exists>p. v = PolicePersonnel_bytes p \<and> Unmarshal_PolicePersonnel v = Inr p \<and>
              OfficerID p = toValidUTF8 k) \<or>
         (\<exists>fir. v = FIR_bytes fir \<and> Unmarshal_FIR v = Inr fir \<and>
              (FIRID fir = toValidUTF8 k \<or> FIRID fir = []))))"
proof (intro conjI impI allI)
  fix key v
  assume "fir_reachable w" "Mapping.lookup w key = Some v"
  then obtain x where "v = FIR_bytes x" "Unmarshal_FIR v = Inr x" "FIRID x = toValidUTF8 key"
    using fir_reachable_keyed by blast
  then show "\<exists>fir. v = FIR_bytes fir \<and> Unmarshal_FIR v = Inr fir \<and>
               FIRID fir = toValidUTF8 key \<and> (validUTF8 key \<longrightarrow> FIRID fir = key)"
    by (auto simp: toValidUTF8_valid)
next
  fix key v
  assume "personnel_reachable w" "Mapping.lookup w key = Some v"
  then obtain x where "v = PolicePersonnel_bytes x" "Unmarshal_PolicePersonnel v = Inr x"
      "OfficerID x = toValidUTF8 key"
    using personnel_reachable_keyed by blast
  then show "\<exists>p. v = PolicePersonnel_bytes p \<and> Unmarshal_PolicePersonnel v = Inr p \<and>
               OfficerID p = toValidUTF8 key \<and> (validUTF8 key \<longrightarrow> OfficerID p = key)"
    by (auto simp: toValidUTF8_valid)
next
  fix key v
  assume "fir_reachable (world ctx)"
  then have "fir_reachable (world (fir_invoke ctx (Tx_UpdateFIR k s)))"
    by (rule fir_step)
  moreover assume "Mapping.lookup (world (snd (UpdateFIR ctx k s))) key = Some v"
  ultimately obtain x where "v = FIR_bytes x" "Unmarshal_FIR v = Inr x"
      "FIRID x = toValidUTF8 key"
    using fir_reachable_keyed by fastforce
  then show "\<exists>fir. v = FIR_bytes fir \<and> Unmarshal_FIR v = Inr fir \<and>
               FIRID fir = toValidUTF8 key \<and> (validUTF8 key \<longrightarrow> FIRID fir = key)"
    by (auto simp: toValidUTF8_valid)
next
  fix key v
  assume "shared_reachable w" "Mapping.lookup w key = Some v"
  then show "(\<exists>p. v = PolicePersonnel_bytes p \<and> Unmarshal_PolicePersonnel v = Inr p \<and>
              OfficerID p = toValidUTF8 key) \<or>
         (\<exists>fir. v = FIR_bytes fir \<and> Unmarshal_FIR v = Inr fir \<and>
              (FIRID fir = toValidUTF8 key \<or> FIRID fir = []))"
    using shared_reachable_keyed by blast
qed

theorem C9_witness:
  "fir_reachable (world (fir_invoke (callerOn ''Org2MSP'' Mapping.empty) Tx_fir_InitLedger)) \<and>
   Mapping.lookup (world (fir_invoke (callerOn ''Org2MSP'' Mapping.empty) Tx_fir_InitLedger))
       ''FIR2''
     = Some (FIR_bytes
         \<lparr>Accused = ''Jane Smith'', CrimeType = ''Assault'',
          Description = ''Physical altercation'', FiledBy = ''OfficerB'', FIRID = ''FIR2'',
          Status = ''Investigation'', Timestamp = ''2024-01-02T14:30:00Z''\<rparr>) \<and>
   validUTF8 ''FIR2'' \<and>
   (\<exists>fir. Unmarshal_FIR (FIR_bytes
         \<lparr>Accused = ''Jane Smith'', CrimeType = ''Assault'',
          Description = ''Physical altercation'', FiledBy = ''OfficerB'', FIRID = ''FIR2'',
          Status = ''Investigation'', Timestamp = ''2024-01-02T14:30:00Z''\<rparr>) = Inr fir \<and>
      FIRID fir = ''FIR2'') \<and>
   (\<exists>fir. Mapping.lookup
        (world (snd (UpdateFIR (fir_invoke (callerOn ''Org2MSP'' Mapping.empty)
                                  Tx_fir_InitLedger\<lparr>clientMSPID := Some ''Org1MSP''\<rparr>)
                       ''FIR2'' ''Closed''))) ''FIR2'' = Some (FIR_bytes fir) \<and>
      FIRID fir = ''FIR2'') \<and>
   personnel_reachable
     (world (personnel_invoke (callerOn ''Org1MSP'' Mapping.empty) Tx_personnel_InitLedger)) \<and>
   validUTF8 ''POL12345'' \<and>
   (\<exists>p. Mapping.lookup
        (world (personnel_invoke (callerOn ''Org1MSP'' Mapping.empty) Tx_personnel_InitLedger))
        ''POL12345'' = Some (PolicePersonnel_bytes p) \<and>
      OfficerID p = ''POL12345'') \<and>
   shared_reachable
     (world (personnel_invoke (callerOn ''Org1MSP'' Mapping.empty)
          (Tx_CreatePolicePersonnel ''POL12346''
            ''Raj Kumar'' ''Sub-Inspector'' ''1990-01-25'' ''Crime Branch, Delhi''
            ''DEL-7890'' ''Active'' ''2015-07-10'' ''Meritorious Service Medal''
            [] ''Org1'' ''2025-01-01''))) \<and>
   ((\<exists>p. Mapping.lookup
        (world (personnel_invoke (callerOn ''Org1MSP'' Mapping.empty)
          (Tx_CreatePolicePersonnel ''POL12346''
            ''Raj Kumar'' ''Sub-Inspector'' ''1990-01-25'' ''Crime Branch, Delhi''
            ''DEL-7890'' ''Active'' ''2015-07-10'' ''Meritorious Service Medal''
            [] ''Org1'' ''2025-01-01'')))
        ''POL12346'' = Some (PolicePersonnel_bytes p) \<and>
      OfficerID p = toValidUTF8 ''POL12346'') \<or>
    (\<exists>fir. Mapping.lookup
        (world (personnel_invoke (callerOn ''Org1MSP'' Mapping.empty)
          (Tx_CreatePolicePersonnel ''POL12346''
            ''Raj Kumar'' ''Sub-Inspector'' ''1990-01-25'' ''Crime Branch, Delhi''
            ''DEL-7890'' ''Active'' ''2015-07-10'' ''Meritorious Service Medal''
            [] ''Org1'' ''2025-01-01'')))
        ''POL12346'' = Some (FIR_bytes fir) \<and>
      (FIRID fir = toValidUTF8 ''POL12346'' \<or> FIRID fir = [])))"
proof -
  let ?seeded = "fir_invoke (callerOn ''Org2MSP'' Mapping.empty) Tx_fir_InitLedger"
  let ?fir2 = "\<lparr>Accused = ''Jane Smith'', CrimeType = ''Assault'',
          Description = ''Physical altercation'', FiledBy = ''OfficerB'', FIRID = ''FIR2'',
          Status = ''Investigation'', Timestamp = ''2024-01-02T14:30:00Z''\<rparr>"
  let ?police = "?seeded\<lparr>clientMSPID := Some ''Org1MSP''\<rparr>"
  let ?staffed = "personnel_invoke (callerOn ''Org1MSP'' Mapping.empty) Tx_personnel_InitLedger"
  let ?both = "personnel_invoke (callerOn ''Org1MSP'' Mapping.empty)
          (Tx_CreatePolicePersonnel ''POL12346''
            ''Raj Kumar'' ''Sub-Inspector'' ''1990-01-25'' ''Crime Branch, Delhi''
            ''DEL-7890'' ''Active'' ''2015-07-10'' ''Meritorious Service Medal''
            [] ''Org1'' ''2025-01-01'')"
  have valid2: "validUTF8 ''FIR2''" and valid5: "validUTF8 ''POL12345''"
    by code_simp+
  have "fir_reachable (world (callerOn ''Org2MSP'' Mapping.empty))"
    by (simp add: fir_empty)
  then have reach: "fir_reachable (world ?seeded)"
    by (rule fir_step)
  have w: "world (snd (fir_InitLedger (callerOn ''Org2MSP'' Mapping.empty))) =
      Mapping.update ''FIR2'' (FIR_bytes ?fir2)
        (Mapping.update ''FIR1'' (FIR_bytes (hd fir_seed)) Mapping.empty)"
    by (simp add: fir_InitLedger_def fir_seed_def Marshal_FIR_def PutState_def)
  have held: "Mapping.lookup (world ?seeded) ''FIR2'' = Some (FIR_bytes ?fir2)"
    by (simp add: w)
  note seeded =
    C9_identifier_is_key [where w = "world ?seeded", THEN conjunct1, THEN mp, OF reach,
      THEN spec, THEN spec, THEN mp, OF held]
  have reach': "fir_reachable (world ?police)"
    using reach by simp
  have upd: "Mapping.lookup (world (snd (UpdateFIR ?police ''FIR2'' ''Closed''))) ''FIR2''
      = Some (FIR_bytes (?fir2\<lparr>Status := ''Closed''\<rparr>))"
    by (simp add: UpdateFIR_eq ReadFIR_eq PutState_def w fir_InitLedger_fault)
  note updated =
    C9_identifier_is_key [where ctx = ?police and k = "''FIR2''" and s = "''Closed''",
      THEN conjunct2, THEN conjunct2, THEN conjunct1, THEN mp, OF reach', THEN spec,
      THEN spec, THEN mp, OF upd]
  have "personnel_reachable (world (callerOn ''Org1MSP'' Mapping.empty))"
    by (simp add: personnel_empty)
  then have staffed: "personnel_reachable (world ?staffed)"
    by (rule personnel_step)
  have officer: "Mapping.lookup (world ?staffed) ''POL12345''
      = Some (PolicePersonnel_bytes (hd personnel_seed))"
    by (simp add: personnel_InitLedger_def personnel_onlyPolice_eq personnel_seed_def
        Marshal_PolicePersonnel_def PutState_def)
  note staff =
    C9_identifier_is_key [where w = "world ?staffed", THEN conjunct2, THEN conjunct1, THEN mp,
      OF staffed, THEN spec, THEN spec, THEN mp, OF officer]
  have "shared_reachable (world (callerOn ''Org1MSP'' Mapping.empty))"
    by (simp add: shared_empty)
  then have both: "shared_reachable (world ?both)"
    by (rule shared_personnel)
  obtain v where v: "Mapping.lookup (world ?both) ''POL12346'' = Some v"
    by (simp add: CreatePolicePersonnel_eq PutState_def)
  note mixed =
    C9_identifier_is_key [where w = "world ?both", THEN conjunct2, THEN conjunct2,
      THEN conjunct2, THEN mp, OF both, THEN spec, THEN spec, THEN mp, OF v]
  have a: "\<exists>fir. Unmarshal_FIR (FIR_bytes ?fir2) = Inr fir \<and> FIRID fir = ''FIR2''"
    using seeded valid2 by metis
  have b: "\<exists>fir. Mapping.lookup (world (snd (UpdateFIR ?police ''FIR2'' ''Closed'')))
                    ''FIR2'' = Some (FIR_bytes fir) \<and> FIRID fir = ''FIR2''"
    using updated upd valid2 by metis
  have c: "\<exists>p. Mapping.lookup (world ?staffed) ''POL12345''
                    = Some (PolicePersonnel_bytes p) \<and> OfficerID p = ''POL12345''"
    using staff officer valid5 by metis
  have d: "(\<exists>p. Mapping.lookup (world ?both) ''POL12346'' = Some (PolicePersonnel_bytes p) \<and>
               OfficerID p = toValidUTF8 ''POL12346'') \<or>
           (\<exists>fir. Mapping.lookup (world ?both) ''POL12346'' = Some (FIR_bytes fir) \<and>
               (FIRID fir = toValidUTF8 ''POL12346'' \<or> FIRID fir = []))"
    using mixed v by metis
  show ?thesis
    using reach held valid2 a b staffed valid5 c both d by (intro conjI)
qed

text \<open>
  The claim as first stated fails in two ways. On a world state shared by both
  contracts, as the specification describes it: officer \<open>POL12346\<close> is created, then
  \<open>UpdateFIR\<close> is called on that key; it decodes the personnel record as a case record
  with no field set and writes back a case record whose \<open>FIRID\<close> is empty (and whose
  \<open>OfficerID\<close>, read as a personnel record, is empty too). And on the case-record contract
  alone, with a ledger that accepts the key: a case filed under the key \<open>FF\<close>, which is
  not valid UTF-8, is stored with \<open>FIRID\<close> U+FFFD.
\<close>

theorem C9_counterexample:
  "shared_reachable
     (world (fir_invoke
        (personnel_invoke (callerOn ''Org1MSP'' Mapping.empty)
          (Tx_CreatePolicePersonnel ''POL12346''
            ''Raj Kumar'' ''Sub-Inspector'' ''1990-01-25'' ''Crime Branch, Delhi''
            ''DEL-7890'' ''Active'' ''2015-07-10'' ''Meritorious Service Medal''
            [] ''Org1'' ''2025-01-01''))
        (Tx_UpdateFIR ''POL12346'' ''Closed''))) \<and>
   Mapping.lookup
     (world (fir_invoke
        (personnel_invoke (callerOn ''Org1MSP'' Mapping.empty)
          (Tx_CreatePolicePersonnel ''POL12346''
            ''Raj Kumar'' ''Sub-Inspector'' ''1990-01-25'' ''Crime Branch, Delhi''
            ''DEL-7890'' ''Active'' ''2015-07-10'' ''Meritorious Service Medal''
            [] ''Org1'' ''2025-01-01''))
        (Tx_UpdateFIR ''POL12346'' ''Closed''))) ''POL12346''
     = Some (FIR_bytes
          \<lparr>Accused = [], CrimeType = [], Description = [], FiledBy = [], FIRID = [],
          Status = ''Closed'', Timestamp = []\<rparr>) \<and>
   Unmarshal_FIR (FIR_bytes
          \<lparr>Accused = [], CrimeType = [], Description = [], FiledBy = [], FIRID = [],
          Status = ''Closed'', Timestamp = []\<rparr>)
     = Inr \<lparr>Accused = [], CrimeType = [], Description = [], FiledBy = [], FIRID = [],
          Status = ''Closed'', Timestamp = []\<rparr> \<and>
   FIRID \<lparr>Accused = [], CrimeType = [], Description = [], FiledBy = [], FIRID = [],
          Status = ''Closed'', Timestamp = []\<rparr> \<noteq> ''POL12346'' \<and>
   Unmarshal_PolicePersonnel (FIR_bytes
          \<lparr>Accused = [], CrimeType = [], Description = [], FiledBy = [], FIRID = [],
          Status = ''Closed'', Timestamp = []\<rparr>)
     = Inr \<lparr>OfficerID = [], Name = [], Rank = [], DOB = [], Posting = [], BadgeNumber = [],
          EmploymentStatus = [], DateOfJoining = [], Award = [], Suspension = [],
          LastUpdatedBy = [], LastUpdatedOn = []\<rparr> \<and>
   OfficerID \<lparr>OfficerID = [], Name = [], Rank = [], DOB = [], Posting = [], BadgeNumber = [],
          EmploymentStatus = [], DateOfJoining = [], Award = [], Suspension = [],
          LastUpdatedBy = [], LastUpdatedOn = []\<rparr> \<noteq> ''POL12346'' \<and>
   fir_reachable
     (world (fir_invoke (callerOn ''Org1MSP'' Mapping.empty)
        (Tx_FileFIR [CHR 0xFF]
          ''OfficerC'' ''Robbery'' ''Bank robbery at downtown'' ''Alex Murphy''
          ''Open'' ''2024-01-03T12:00:00Z''))) \<and>
   Mapping.lookup
     (world (fir_invoke (callerOn ''Org1MSP'' Mapping.empty)
        (Tx_FileFIR [CHR 0xFF]
          ''OfficerC'' ''Robbery'' ''Bank robbery at downtown'' ''Alex Murphy''
          ''Open'' ''2024-01-03T12:00:00Z''))) [CHR 0xFF]
     = Some (FIR_bytes
          \<lparr>Accused = ''Robbery'', CrimeType = ''Bank robbery at downtown'',
          Description = ''Alex Murphy'', FiledBy = ''OfficerC'', FIRID = [CHR 0xFF],
          Status = ''Open'', Timestamp = ''2024-01-03T12:00:00Z''\<rparr>) \<and>
   Unmarshal_FIR (FIR_bytes
          \<lparr>Accused = ''Robbery'', CrimeType = ''Bank robbery at downtown'',
          Description = ''Alex Murphy'', FiledBy = ''OfficerC'', FIRID = [CHR 0xFF],
          Status = ''Open'', Timestamp = ''2024-01-03T12:00:00Z''\<rparr>)
     = Inr \<lparr>Accused = ''Robbery'', CrimeType = ''Bank robbery at downtown'',
          Description = ''Alex Murphy'', FiledBy = ''OfficerC'', FIRID = [CHR 0xEF, CHR 0xBF, CHR 0xBD],
          Status = ''Open'', Timestamp = ''2024-01-03T12:00:00Z''\<rparr> \<and>
   FIRID \<lparr>Accused = ''Robbery'', CrimeType = ''Bank robbery at downtown'',
          Description = ''Alex Murphy'', FiledBy = ''OfficerC'', FIRID = [CHR 0xEF, CHR 0xBF, CHR 0xBD],
          Status = ''Open'', Timestamp = ''2024-01-03T12:00:00Z''\<rparr> \<noteq> [CHR 0xFF]"
proof -
  let ?created = "personnel_invoke (callerOn ''Org1MSP'' Mapping.empty)
          (Tx_CreatePolicePersonnel ''POL12346''
            ''Raj Kumar'' ''Sub-Inspector'' ''1990-01-25'' ''Crime Branch, Delhi''
            ''DEL-7890'' ''Active'' ''2015-07-10'' ''Meritorious Service Medal''
            [] ''Org1'' ''2025-01-01'')"
  have "shared_reachable (world (callerOn ''Org1MSP'' Mapping.empty))"
    by (simp add: shared_empty)
  then have "shared_reachable (world ?created)"
    by (rule shared_personnel)
  then have shared: "shared_reachable
      (world (fir_invoke ?created (Tx_UpdateFIR ''POL12346'' ''Closed'')))"
    by (rule shared_fir)
  have "fir_reachable (world (callerOn ''Org1MSP'' Mapping.empty))"
    by (simp add: fir_empty)
  then have alone: "fir_reachable
     (world (fir_invoke (callerOn ''Org1MSP'' Mapping.empty)
        (Tx_FileFIR [CHR 0xFF]
          ''OfficerC'' ''Robbery'' ''Bank robbery at downtown'' ''Alex Murphy''
          ''Open'' ''2024-01-03T12:00:00Z'')))"
    by (rule fir_step)
  have closed: "FIR_coerced
          \<lparr>Accused = [], CrimeType = [], Description = [], FiledBy = [], FIRID = [],
          Status = ''Closed'', Timestamp = []\<rparr>
       = \<lparr>Accused = [], CrimeType = [], Description = [], FiledBy = [], FIRID = [],
          Status = ''Closed'', Timestamp = []\<rparr>"
    by code_simp
  have repl: "FIR_coerced
          \<lparr>Accused = ''Robbery'', CrimeType = ''Bank robbery at downtown'',
          Description = ''Alex Murphy'', FiledBy = ''OfficerC'', FIRID = [CHR 0xFF],
          Status = ''Open'', Timestamp = ''2024-01-03T12:00:00Z''\<rparr>
       = \<lparr>Accused = ''Robbery'', CrimeType = ''Bank robbery at downtown'',
          Description = ''Alex Murphy'', FiledBy = ''OfficerC'', FIRID = [CHR 0xEF, CHR 0xBF, CHR 0xBD],
          Status = ''Open'', Timestamp = ''2024-01-03T12:00:00Z''\<rparr>"
    by code_simp
  have held: "Mapping.lookup
     (world (fir_invoke ?created (Tx_UpdateFIR ''POL12346'' ''Closed''))) ''POL12346''
     = Some (FIR_bytes
          \<lparr>Accused = [], CrimeType = [], Description = [], FiledBy = [], FIRID = [],
          Status = ''Closed'', Timestamp = []\<rparr>)"
    by (simp add: CreatePolicePersonnel_eq UpdateFIR_eq ReadFIR_eq PutState_def
        Unmarshal_FIR_of_personnel)
  have stored: "Mapping.lookup
     (world (fir_invoke (callerOn ''Org1MSP'' Mapping.empty)
        (Tx_FileFIR [CHR 0xFF]
          ''OfficerC'' ''Robbery'' ''Bank robbery at downtown'' ''Alex Murphy''
          ''Open'' ''2024-01-03T12:00:00Z''))) [CHR 0xFF]
     = Some (FIR_bytes
          \<lparr>Accused = ''Robbery'', CrimeType = ''Bank robbery at downtown'',
          Description = ''Alex Murphy'', FiledBy = ''OfficerC'', FIRID = [CHR 0xFF],
          Status = ''Open'', Timestamp = ''2024-01-03T12:00:00Z''\<rparr>)"
    by (simp add: FileFIR_eq PutState_def)
  have "Unmarshal_FIR (FIR_bytes
          \<lparr>Accused = [], CrimeType = [], Description = [], FiledBy = [], FIRID = [],
          Status = ''Closed'', Timestamp = []\<rparr>)
     = Inr \<lparr>Accused = [], CrimeType = [], Description = [], FiledBy = [], FIRID = [],
          Status = ''Closed'', Timestamp = []\<rparr>"
    by (simp add: closed)
  moreover have "Unmarshal_FIR (FIR_bytes
          \<lparr>Accused = ''Robbery'', CrimeType = ''Bank robbery at downtown'',
          Description = ''Alex Murphy'', FiledBy = ''OfficerC'', FIRID = [CHR 0xFF],
          Status = ''Open'', Timestamp = ''2024-01-03T12:00:00Z''\<rparr>)
     = Inr \<lparr>Accused = ''Robbery'', CrimeType = ''Bank robbery at downtown'',
          Description = ''Alex Murphy'', FiledBy = ''OfficerC'', FIRID = [CHR 0xEF, CHR 0xBF, CHR 0xBD],
          Status = ''Open'', Timestamp = ''2024-01-03T12:00:00Z''\<rparr>"
    by (simp add: repl)
  moreover have "Unmarshal_PolicePersonnel (FIR_bytes
          \<lparr>Accused = [], CrimeType = [], Description = [], FiledBy = [], FIRID = [],
          Status = ''Closed'', Timestamp = []\<rparr>)
     = Inr \<lparr>OfficerID = [], Name = [], Rank = [], DOB = [], Posting = [], BadgeNumber = [],
          EmploymentStatus = [], DateOfJoining = [], Award = [], Suspension = [],
          LastUpdatedBy = [], LastUpdatedOn = []\<rparr>"
    by (rule Unmarshal_PolicePersonnel_of_FIR)
  moreover have "FIRID \<lparr>Accused = [], CrimeType = [], Description = [], FiledBy = [], FIRID = [],
          Status = ''Closed'', Timestamp = []\<rparr> \<noteq> ''POL12346''"
    "OfficerID \<lparr>OfficerID = [], Name = [], Rank = [], DOB = [], Posting = [], BadgeNumber = [],
          EmploymentStatus = [], DateOfJoining = [], Award = [], Suspension = [],
          LastUpdatedBy = [], LastUpdatedOn = []\<rparr> \<noteq> ''POL12346''"
    "FIRID \<lparr>Accused = ''Robbery'', CrimeType = ''Bank robbery at downtown'',
          Description = ''Alex Murphy'', FiledBy = ''OfficerC'', FIRID = [CHR 0xEF, CHR 0xBF, CHR 0xBD],
          Status = ''Open'', Timestamp = ''2024-01-03T12:00:00Z''\<rparr> \<noteq> [CHR 0xFF]"
    by simp_all
  ultimately show ?thesis
    using shared held alone stored by (intro conjI)
qed

text \<open>
  \<open>UpdateFIR\<close> does not look at the kind of record it reads: on a key that holds a
  personnel record, no object key selects a field of \<open>FIR\<close>, the decoded record is empty,
  and what is written back is a case record with only \<open>Status\<close> set.
\<close>

lemma UpdateFIR_on_personnel_record:
  assumes "clientMSPID ctx = Some ''Org1MSP''"
    and "Mapping.lookup (world ctx) k = Some (PolicePersonnel_bytes p)"
    and "\<not> fault ctx (GetStateCall k)" and "\<not> fault ctx (PutStateCall k)"
  shows "fst (UpdateFIR ctx k s) = Inr () \<and>
         Mapping.lookup (world (snd (UpdateFIR ctx k s))) k =
           Some (FIR_bytes \<lparr>Accused = [], CrimeType = [], Description = [], FiledBy = [],
                   FIRID = [], Status = s, Timestamp = []\<rparr>)"
  using assms
  by (simp add: UpdateFIR_eq ReadFIR_eq PutState_ok Unmarshal_FIR_of_personnel)

subsection \<open>Enumeration after a series of creates\<close>

lemma keys_fst_entries: "Mapping.keys m = fst ` Mapping.entries m"
  by (metis Mapping.keys_dom_lookup entries_lookup fst_graph_eq_dom)

lemma lookup_None_keys: "Mapping.lookup m k = None \<longleftrightarrow> k \<notin> Mapping.keys m"
  by (simp add: Mapping.keys_dom_lookup domIff)

lemma mset_ordered_entries_update:
  assumes fin: "finite (Mapping.keys m)" and new: "k \<notin> Mapping.keys m"
  shows "mset (Mapping.ordered_entries (Mapping.update k v m)) =
           add_mset (k, v) (mset (Mapping.ordered_entries m))"
proof -
  have notin: "k \<notin> fst ` set (Mapping.ordered_entries m)"
  proof -
    have "set (Mapping.ordered_entries m) = Mapping.entries m"
      using fin by (rule set_ordered_entries)
    then show ?thesis
      using new by (simp only: keys_fst_entries not_False_eq_True)
  qed
  have "Mapping.ordered_entries (Mapping.update k v m)
          = insort_insert_key fst (k, v) (AList.delete k (Mapping.ordered_entries m))"
    using fin by (rule ordered_entries_update)
  also have "\<dots> = insort_key fst (k, v) (Mapping.ordered_entries m)"
  proof -
    have "AList.delete k (Mapping.ordered_entries m) = Mapping.ordered_entries m"
      using notin by (rule AList.delete_id)
    then show ?thesis
      using notin by (simp add: insort_insert_key_def)
  qed
  finally show ?thesis
    by simp
qed

lemma inRange_open: "inRange [] [] key"
  by (simp add: inRange_def)

lemma fir_collect_ok:
  assumes "\<forall>e\<in>set it. \<not> fault ctx (NextCall (fst e))"
    and "\<forall>e\<in>set it. \<exists>x. snd e = FIR_bytes x"
  shows "fst (fir_collect ctx it acc)
           = Inr (acc @ map (\<lambda>e. projr (Unmarshal_FIR (snd e))) it)"
  using assms
proof (induction it arbitrary: ctx acc)
  case Nil
  show ?case by simp
next
  case (Cons e it)
  from Cons.prems(2) obtain x where x: "snd e = FIR_bytes x"
    by auto
  have nxt: "Next ctx e = (Inr e, logCall (NextCall (fst e)) ctx)"
    using Cons.prems(1) by (simp add: Next_def)
  have "fst (fir_collect (logCall (NextCall (fst e)) ctx) it (acc @ [FIR_coerced x]))
          = Inr ((acc @ [FIR_coerced x]) @ map (\<lambda>e. projr (Unmarshal_FIR (snd e))) it)"
    using Cons.prems by (intro Cons.IH) simp_all
  then show ?case
    by (simp add: nxt x)
qed

lemma personnel_collect_ok:
  assumes "\<forall>e\<in>set it. \<not> fault ctx (NextCall (fst e))"
    and "\<forall>e\<in>set it. \<exists>x. snd e = PolicePersonnel_bytes x"
  shows "fst (personnel_collect ctx it acc)
           = Inr (acc @ map (\<lambda>e. projr (Unmarshal_PolicePersonnel (snd e))) it)"
  using assms
proof (induction it arbitrary: ctx acc)
  case Nil
  show ?case by simp
next
  case (Cons e it)
  from Cons.prems(2) obtain x where x: "snd e = PolicePersonnel_bytes x"
    by auto
  have nxt: "Next ctx e = (Inr e, logCall (NextCall (fst e)) ctx)"
    using Cons.prems(1) by (simp add: Next_def)
  have "fst (personnel_collect (logCall (NextCall (fst e)) ctx) it (acc @ [PolicePersonnel_coerced x]))
          = Inr ((acc @ [PolicePersonnel_coerced x]) @ map (\<lambda>e. projr (Unmarshal_PolicePersonnel (snd e))) it)"
    using Cons.prems by (intro Cons.IH) simp_all
  then show ?case
    by (simp add: nxt x)
qed

lemma fileAll_ok:
  assumes "clientMSPID ctx = Some ''Org1MSP''"
    and "\<forall>f\<in>set fs. \<not> fault ctx (GetStateCall (FIRID f)) \<and>
                    \<not> fault ctx (PutStateCall (FIRID f))"
    and "distinct (map FIRID fs)" and "\<forall>f\<in>set fs. FIRID f \<notin> Mapping.keys (world ctx)"
    and "finite (Mapping.keys (world ctx))"
  shows "fst (fileAll ctx fs) = Inr () \<and>
         finite (Mapping.keys (world (snd (fileAll ctx fs)))) \<and>
         mset (Mapping.ordered_entries (world (snd (fileAll ctx fs))))
           = mset (Mapping.ordered_entries (world ctx))
             + mset (map (\<lambda>f. (FIRID f, FIR_bytes f)) fs)"
  using assms
proof (induction fs arbitrary: ctx)
  case Nil
  then show ?case by simp
next
  case (Cons f fs)
  let ?ctx1 = "logCall (PutStateCall (FIRID f))
                 ((logCall (GetStateCall (FIRID f)) ctx)
                    \<lparr>world := Mapping.update (FIRID f) (FIR_bytes f) (world ctx)\<rparr>)"
  have new: "FIRID f \<notin> Mapping.keys (world ctx)"
    using Cons.prems(4) by simp
  have rec: "\<lparr>Accused = Accused f, CrimeType = CrimeType f, Description = Description f,
       FiledBy = FiledBy f, FIRID = FIRID f, Status = Status f, Timestamp = Timestamp f\<rparr> = f"
    by simp
  have call: "FileFIR ctx (FIRID f) (FiledBy f) (Accused f) (CrimeType f) (Description f)
                (Status f) (Timestamp f) = (Inr (), ?ctx1)"
    using Cons.prems(1,2) new
    by (simp add: FileFIR_eq PutState_ok rec lookup_None_keys)
  have step: "fst (fileAll ?ctx1 fs) = Inr () \<and>
         finite (Mapping.keys (world (snd (fileAll ?ctx1 fs)))) \<and>
         mset (Mapping.ordered_entries (world (snd (fileAll ?ctx1 fs))))
           = mset (Mapping.ordered_entries (world ?ctx1))
             + mset (map (\<lambda>f. (FIRID f, FIR_bytes f)) fs)"
    using Cons.prems by (intro Cons.IH) (auto simp: image_iff)
  have w1: "world ?ctx1 = Mapping.update (FIRID f) (FIR_bytes f) (world ctx)"
    by simp
  have "mset (Mapping.ordered_entries (world ?ctx1))
          = add_mset (FIRID f, FIR_bytes f) (mset (Mapping.ordered_entries (world ctx)))"
    unfolding w1 using Cons.prems(5) new by (rule mset_ordered_entries_update)
  with step show ?case
    by (simp add: call)
qed

lemma createAll_ok:
  assumes "clientMSPID ctx = Some ''Org1MSP''"
    and "\<forall>p\<in>set ps. \<not> fault ctx (GetStateCall (OfficerID p)) \<and>
                    \<not> fault ctx (PutStateCall (OfficerID p))"
    and "distinct (map OfficerID ps)"
    and "\<forall>p\<in>set ps. OfficerID p \<notin> Mapping.keys (world ctx)"
    and "finite (Mapping.keys (world ctx))"
  shows "fst (createAll ctx ps) = Inr () \<and>
         finite (Mapping.keys (world (snd (createAll ctx ps)))) \<and>
         mset (Mapping.ordered_entries (world (snd (createAll ctx ps))))
           = mset (Mapping.ordered_entries (world ctx))
             + mset (map (\<lambda>p. (OfficerID p, PolicePersonnel_bytes p)) ps)"
  using assms
proof (induction ps arbitrary: ctx)
  case Nil
  then show ?case by simp
next
  case (Cons p ps)
  let ?ctx1 = "logCall (PutStateCall (OfficerID p))
                 ((logCall (GetStateCall (OfficerID p)) ctx)
                    \<lparr>world := Mapping.update (OfficerID p) (PolicePersonnel_bytes p)
                                (world ctx)\<rparr>)"
  have new: "OfficerID p \<notin> Mapping.keys (world ctx)"
    using Cons.prems(4) by simp
  have rec: "\<lparr>OfficerID = OfficerID p, Name = Name p, Rank = Rank p, DOB = DOB p,
       Posting = Posting p, BadgeNumber = BadgeNumber p,
       EmploymentStatus = EmploymentStatus p, DateOfJoining = DateOfJoining p,
       Award = Award p, Suspension = Suspension p, LastUpdatedBy = LastUpdatedBy p,
       LastUpdatedOn = LastUpdatedOn p\<rparr> = p"
    by simp
  have call: "CreatePolicePersonnel ctx (OfficerID p) (Name p) (Rank p) (DOB p) (Posting p)
                (BadgeNumber p) (EmploymentStatus p) (DateOfJoining p) (Award p)
                (Suspension p) (LastUpdatedBy p) (LastUpdatedOn p) = (Inr (), ?ctx1)"
    using Cons.prems(1,2) new
    by (simp add: CreatePolicePersonnel_eq PutState_ok rec lookup_None_keys)
  have step: "fst (createAll ?ctx1 ps) = Inr () \<and>
         finite (Mapping.keys (world (snd (createAll ?ctx1 ps)))) \<and>
         mset (Mapping.ordered_entries (world (snd (createAll ?ctx1 ps))))
           = mset (Mapping.ordered_entries (world ?ctx1))
             + mset (map (\<lambda>p. (OfficerID p, PolicePersonnel_bytes p)) ps)"
    using Cons.prems by (intro Cons.IH) (auto simp: image_iff)
  have w1: "world ?ctx1 = Mapping.update (OfficerID p) (PolicePersonnel_bytes p) (world ctx)"
    by simp
  have "mset (Mapping.ordered_entries (world ?ctx1))
          = add_mset (OfficerID p, PolicePersonnel_bytes p)
              (mset (Mapping.ordered_entries (world ctx)))"
    unfolding w1 using Cons.prems(5) new by (rule mset_ordered_entries_update)
  with step show ?case
    by (simp add: call)
qed

lemma GetAllFIRs_of_records:
  assumes range_ok: "\<not> fault rd (GetStateByRangeCall [] [])"
    and next_ok: "\<forall>f\<in>set fs. \<not> fault rd (NextCall (FIRID f))"
    and entries: "mset (Mapping.ordered_entries (world rd))
                    = mset (map (\<lambda>f. (FIRID f, FIR_bytes f)) fs)"
  shows "\<exists>rs. fst (GetAllFIRs rd) = Inr rs \<and> length rs = length fs \<and>
              mset rs = mset (map FIR_coerced fs)"
proof -
  let ?it = "Mapping.ordered_entries (world rd)"
  let ?rs = "map (\<lambda>e. projr (Unmarshal_FIR (snd e))) ?it"
  have it: "set ?it = set (map (\<lambda>f. (FIRID f, FIR_bytes f)) fs)"
    using entries by (rule mset_eq_setD)
  then have "\<forall>e\<in>set ?it. \<exists>f. snd e = FIR_bytes f"
    by auto
  moreover have "\<forall>e\<in>set ?it. \<not> fault (logCall (GetStateByRangeCall [] []) rd) (NextCall (fst e))"
    using it next_ok by auto
  ultimately have "fst (fir_collect (logCall (GetStateByRangeCall [] []) rd) ?it [])
               = Inr ([] @ ?rs)"
    by (intro fir_collect_ok)
  then have res: "fst (GetAllFIRs rd) = Inr ?rs"
    using range_ok by (simp add: GetAllFIRs_fst inRange_open)
  have "mset ?rs = image_mset (\<lambda>e. projr (Unmarshal_FIR (snd e))) (mset ?it)"
    by simp
  also have "\<dots> = image_mset (\<lambda>e. projr (Unmarshal_FIR (snd e)))
                     (mset (map (\<lambda>f. (FIRID f, FIR_bytes f)) fs))"
    by (simp only: entries)
  also have "\<dots> = mset (map FIR_coerced fs)"
    by (simp add: image_mset.compositionality comp_def)
  finally have m: "mset ?rs = mset (map FIR_coerced fs)" .
  then have "length ?rs = length (map FIR_coerced fs)"
    by (rule mset_eq_length)
  with res m show ?thesis
    by auto
qed

lemma GetAllPersonnel_of_records:
  assumes range_ok: "\<not> fault rd (GetStateByRangeCall [] [])"
    and next_ok: "\<forall>p\<in>set ps. \<not> fault rd (NextCall (OfficerID p))"
    and entries: "mset (Mapping.ordered_entries (world rd))
                    = mset (map (\<lambda>p. (OfficerID p, PolicePersonnel_bytes p)) ps)"
  shows "\<exists>rs. fst (GetAllPersonnel rd) = Inr rs \<and> length rs = length ps \<and>
              mset rs = mset (map PolicePersonnel_coerced ps)"
proof -
  let ?it = "Mapping.ordered_entries (world rd)"
  let ?rs = "map (\<lambda>e. projr (Unmarshal_PolicePersonnel (snd e))) ?it"
  have it: "set ?it = set (map (\<lambda>p. (OfficerID p, PolicePersonnel_bytes p)) ps)"
    using entries by (rule mset_eq_setD)
  then have "\<forall>e\<in>set ?it. \<exists>p. snd e = PolicePersonnel_bytes p"
    by auto
  moreover have "\<forall>e\<in>set ?it. \<not> fault (logCall (GetStateByRangeCall [] []) rd) (NextCall (fst e))"
    using it next_ok by auto
  ultimately have "fst (personnel_collect (logCall (GetStateByRangeCall [] []) rd) ?it [])
               = Inr ([] @ ?rs)"
    by (intro personnel_collect_ok)
  then have res: "fst (GetAllPersonnel rd) = Inr ?rs"
    using range_ok by (simp add: GetAllPersonnel_fst inRange_open)
  have "mset ?rs = image_mset (\<lambda>e. projr (Unmarshal_PolicePersonnel (snd e))) (mset ?it)"
    by simp
  also have "\<dots> = image_mset (\<lambda>e. projr (Unmarshal_PolicePersonnel (snd e)))
                     (mset (map (\<lambda>p. (OfficerID p, PolicePersonnel_bytes p)) ps))"
    by (simp only: entries)
  also have "\<dots> = mset (map PolicePersonnel_coerced ps)"
    by (simp add: image_mset.compositionality comp_def)
  finally have m: "mset ?rs = mset (map PolicePersonnel_coerced ps)" .
  then have "length ?rs = length (map PolicePersonnel_coerced ps)"
    by (rule mset_eq_length)
  with res m show ?thesis
    by auto
qed

lemma strictCallerOn_simps [simp]:
  "clientMSPID (strictCallerOn org w) = Some org"
  "fault (strictCallerOn org w) c
     = (c = GetStateCall [] \<or> c = PutStateCall [] \<or> c = DelStateCall [])"
  "world (strictCallerOn org w) = w"
  "trace (strictCallerOn org w) = []"
  by (simp_all add: strictCallerOn_def)

text \<open>
  Claim C7 (as amended). A police caller on an empty ledger creates \<open>N\<close> records with
  \<open>N\<close> distinct keys, one create call after the other (case records \<open>fs\<close> through
  \<open>FileFIR\<close>, or personnel records \<open>ps\<close> through \<open>CreatePolicePersonnel\<close>), the ledger
  answering the read and the write of each of these keys. Every call succeeds. On the
  world state they leave, the enumeration of that kind (\<open>GetAllFIRs\<close>,
  \<open>GetAllPersonnel\<close>) by any caller, the ledger answering the range query and the
  \<open>Next\<close> of each of these keys, returns \<open>N\<close> records: the records written, each once,
  with every byte that is not part of valid UTF-8 replaced by U+FFFD, in whatever order.
  So it returns exactly the records written when all their fields are valid UTF-8.
\<close>

theorem C7_enumeration:
  assumes org1: "clientMSPID ctx = Some ''Org1MSP''"
    and empty: "world ctx = Mapping.empty"
    and writesF: "\<forall>f\<in>set fs. \<not> fault ctx (GetStateCall (FIRID f)) \<and>
                              \<not> fault ctx (PutStateCall (FIRID f))"
    and writesP: "\<forall>p\<in>set ps. \<not> fault ctx (GetStateCall (OfficerID p)) \<and>
                              \<not> fault ctx (PutStateCall (OfficerID p))"
    and keysF: "distinct (map FIRID fs)"
    and keysP: "distinct (map OfficerID ps)"
  shows
    "fst (fileAll ctx fs) = Inr () \<and>
     (\<forall>rd. world rd = world (snd (fileAll ctx fs)) \<and>
           \<not> fault rd (GetStateByRangeCall [] []) \<and>
           (\<forall>f\<in>set fs. \<not> fault rd (NextCall (FIRID f))) \<longrightarrow>
        (\<exists>rs. fst (GetAllFIRs rd) = Inr rs \<and> length rs = length fs \<and>
              mset rs = mset (map FIR_coerced fs) \<and>
              ((\<forall>f\<in>set fs. FIR_valid f) \<longrightarrow> mset rs = mset fs))) \<and>
     fst (createAll ctx ps) = Inr () \<and>
     (\<forall>rd. world rd = world (snd (createAll ctx ps)) \<and>
           \<not> fault rd (GetStateByRangeCall [] []) \<and>
           (\<forall>p\<in>set ps. \<not> fault rd (NextCall (OfficerID p))) \<longrightarrow>
        (\<exists>rs. fst (GetAllPersonnel rd) = Inr rs \<and> length rs = length ps \<and>
              mset rs = mset (map PolicePersonnel_coerced ps) \<and>
              ((\<forall>p\<in>set ps. PolicePersonnel_valid p) \<longrightarrow> mset rs = mset ps)))"
proof -
  have filed: "fst (fileAll ctx fs) = Inr () \<and>
         finite (Mapping.keys (world (snd (fileAll ctx fs)))) \<and>
         mset (Mapping.ordered_entries (world (snd (fileAll ctx fs))))
           = mset (Mapping.ordered_entries (world ctx))
             + mset (map (\<lambda>f. (FIRID f, FIR_bytes f)) fs)"
    using org1 writesF keysF by (intro fileAll_ok) (simp_all add: empty)
  have created: "fst (createAll ctx ps) = Inr () \<and>
         finite (Mapping.keys (world (snd (createAll ctx ps)))) \<and>
         mset (Mapping.ordered_entries (world (snd (createAll ctx ps))))
           = mset (Mapping.ordered_entries (world ctx))
             + mset (map (\<lambda>p. (OfficerID p, PolicePersonnel_bytes p)) ps)"
    using org1 writesP keysP by (intro createAll_ok) (simp_all add: empty)
  have sameF: "map FIR_coerced fs = fs" if "\<forall>f\<in>set fs. FIR_valid f"
    using that by (intro map_idI) (simp add: FIR_coerced_valid)
  have sameP: "map PolicePersonnel_coerced ps = ps" if "\<forall>p\<in>set ps. PolicePersonnel_valid p"
    using that by (intro map_idI) (simp add: PolicePersonnel_coerced_valid)
  have cases: "\<exists>rs. fst (GetAllFIRs rd) = Inr rs \<and> length rs = length fs \<and>
              mset rs = mset (map FIR_coerced fs) \<and>
              ((\<forall>f\<in>set fs. FIR_valid f) \<longrightarrow> mset rs = mset fs)"
    if rd: "world rd = world (snd (fileAll ctx fs)) \<and>
           \<not> fault rd (GetStateByRangeCall [] []) \<and>
           (\<forall>f\<in>set fs. \<not> fault rd (NextCall (FIRID f)))" for rd
  proof -
    have "\<exists>rs. fst (GetAllFIRs rd) = Inr rs \<and> length rs = length fs \<and>
              mset rs = mset (map FIR_coerced fs)"
      using rd filed by (intro GetAllFIRs_of_records) (simp_all add: empty)
    then obtain rs where rs: "fst (GetAllFIRs rd) = Inr rs" "length rs = length fs"
        "mset rs = mset (map FIR_coerced fs)"
      by blast
    have "mset rs = mset fs" if "\<forall>f\<in>set fs. FIR_valid f"
      using rs(3) sameF [OF that] by (simp only:)
    with rs show ?thesis
      by (intro exI [of _ rs]) blast
  qed
  have staff: "\<exists>rs. fst (GetAllPersonnel rd) = Inr rs \<and> length rs = length ps \<and>
              mset rs = mset (map PolicePersonnel_coerced ps) \<and>
              ((\<forall>p\<in>set ps. PolicePersonnel_valid p) \<longrightarrow> mset rs = mset ps)"
    if rd: "world rd = world (snd (createAll ctx ps)) \<and>
           \<not> fault rd (GetStateByRangeCall [] []) \<and>
           (\<forall>p\<in>set ps. \<not> fault rd (NextCall (OfficerID p)))" for rd
  proof -
    have "\<exists>rs. fst (GetAllPersonnel rd) = Inr rs \<and> length rs = length ps \<and>
              mset rs = mset (map PolicePersonnel_coerced ps)"
      using rd created by (intro GetAllPersonnel_of_records) (simp_all add: empty)
    then obtain rs where rs: "fst (GetAllPersonnel rd) = Inr rs" "length rs = length ps"
        "mset rs = mset (map PolicePersonnel_coerced ps)"
      by blast
    have "mset rs = mset ps" if "\<forall>p\<in>set ps. PolicePersonnel_valid p"
      using rs(3) sameP [OF that] by (simp only:)
    with rs show ?thesis
      by (intro exI [of _ rs]) blast
  qed
  show ?thesis
    using filed created cases staff by blast
qed

theorem C7_witness:
  "clientMSPID (strictCallerOn ''Org1MSP'' Mapping.empty) = Some ''Org1MSP'' \<and>
   fault (strictCallerOn ''Org1MSP'' Mapping.empty) (PutStateCall []) \<and>
   world (strictCallerOn ''Org1MSP'' Mapping.empty) = Mapping.empty \<and>
   distinct (map FIRID
     [\<lparr>Accused = ''Sam Reed'', CrimeType = ''Fraud'', Description = ''Forged cheque'',
        FiledBy = ''OfficerD'', FIRID = ''FIR4'', Status = ''Open'',
        Timestamp = ''2024-02-01T09:00:00Z''\<rparr>,
      \<lparr>Accused = ''Robbery'', CrimeType = ''Bank robbery at downtown'',
        Description = ''Alex Murphy'', FiledBy = ''OfficerC'', FIRID = ''FIR3'',
        Status = ''Open'', Timestamp = ''2024-01-03T12:00:00Z''\<rparr>]) \<and>
   FIR_valid
      \<lparr>Accused = ''Sam Reed'', CrimeType = ''Fraud'', Description = ''Forged cheque'',
        FiledBy = ''OfficerD'', FIRID = ''FIR4'', Status = ''Open'',
        Timestamp = ''2024-02-01T09:00:00Z''\<rparr> \<and>
   FIR_valid
      \<lparr>Accused = ''Robbery'', CrimeType = ''Bank robbery at downtown'',
        Description = ''Alex Murphy'', FiledBy = ''OfficerC'', FIRID = ''FIR3'',
        Status = ''Open'', Timestamp = ''2024-01-03T12:00:00Z''\<rparr> \<and>
   fst (fileAll (strictCallerOn ''Org1MSP'' Mapping.empty)
     [\<lparr>Accused = ''Sam Reed'', CrimeType = ''Fraud'', Description = ''Forged cheque'',
        FiledBy = ''OfficerD'', FIRID = ''FIR4'', Status = ''Open'',
        Timestamp = ''2024-02-01T09:00:00Z''\<rparr>,
      \<lparr>Accused = ''Robbery'', CrimeType = ''Bank robbery at downtown'',
        Description = ''Alex Murphy'', FiledBy = ''OfficerC'', FIRID = ''FIR3'',
        Status = ''Open'', Timestamp = ''2024-01-03T12:00:00Z''\<rparr>]) = Inr () \<and>
   (\<exists>rs. fst (GetAllFIRs (strictCallerOn ''Org2MSP''
            (world (snd (fileAll (strictCallerOn ''Org1MSP'' Mapping.empty)
     [\<lparr>Accused = ''Sam Reed'', CrimeType = ''Fraud'', Description = ''Forged cheque'',
        FiledBy = ''OfficerD'', FIRID = ''FIR4'', Status = ''Open'',
        Timestamp = ''2024-02-01T09:00:00Z''\<rparr>,
      \<lparr>Accused = ''Robbery'', CrimeType = ''Bank robbery at downtown'',
        Description = ''Alex Murphy'', FiledBy = ''OfficerC'', FIRID = ''FIR3'',
        Status = ''Open'', Timestamp = ''2024-01-03T12:00:00Z''\<rparr>]))))) = Inr rs \<and>
      mset rs = mset
     [\<lparr>Accused = ''Sam Reed'', CrimeType = ''Fraud'', Description = ''Forged cheque'',
        FiledBy = ''OfficerD'', FIRID = ''FIR4'', Status = ''Open'',
        Timestamp = ''2024-02-01T09:00:00Z''\<rparr>,
      \<lparr>Accused = ''Robbery'', CrimeType = ''Bank robbery at downtown'',
        Description = ''Alex Murphy'', FiledBy = ''OfficerC'', FIRID = ''FIR3'',
        Status = ''Open'', Timestamp = ''2024-01-03T12:00:00Z''\<rparr>] \<and>
      length rs = 2) \<and>
   PolicePersonnel_valid
      \<lparr>OfficerID = ''POL12346'', Name = ''Raj Kumar'', Rank = ''Sub-Inspector'',
        DOB = ''1990-01-25'', Posting = ''Crime Branch, Delhi'', BadgeNumber = ''DEL-7890'',
        EmploymentStatus = ''Active'', DateOfJoining = ''2015-07-10'',
        Award = ''Meritorious Service Medal'', Suspension = [], LastUpdatedBy = ''Org1'',
        LastUpdatedOn = ''2025-01-01''\<rparr> \<and>
   fst (createAll (strictCallerOn ''Org1MSP'' Mapping.empty)
     [\<lparr>OfficerID = ''POL12346'', Name = ''Raj Kumar'', Rank = ''Sub-Inspector'',
        DOB = ''1990-01-25'', Posting = ''Crime Branch, Delhi'', BadgeNumber = ''DEL-7890'',
        EmploymentStatus = ''Active'', DateOfJoining = ''2015-07-10'',
        Award = ''Meritorious Service Medal'', Suspension = [], LastUpdatedBy = ''Org1'',
        LastUpdatedOn = ''2025-01-01''\<rparr>]) = Inr () \<and>
   (\<exists>rs. fst (GetAllPersonnel (strictCallerOn ''Org2MSP''
            (world (snd (createAll (strictCallerOn ''Org1MSP'' Mapping.empty)
     [\<lparr>OfficerID = ''POL12346'', Name = ''Raj Kumar'', Rank = ''Sub-Inspector'',
        DOB = ''1990-01-25'', Posting = ''Crime Branch, Delhi'', BadgeNumber = ''DEL-7890'',
        EmploymentStatus = ''Active'', DateOfJoining = ''2015-07-10'',
        Award = ''Meritorious Service Medal'', Suspension = [], LastUpdatedBy = ''Org1'',
        LastUpdatedOn = ''2025-01-01''\<rparr>]))))) = Inr rs \<and>
      mset rs = mset
     [\<lparr>OfficerID = ''POL12346'', Name = ''Raj Kumar'', Rank = ''Sub-Inspector'',
        DOB = ''1990-01-25'', Posting = ''Crime Branch, Delhi'', BadgeNumber = ''DEL-7890'',
        EmploymentStatus = ''Active'', DateOfJoining = ''2015-07-10'',
        Award = ''Meritorious Service Medal'', Suspension = [], LastUpdatedBy = ''Org1'',
        LastUpdatedOn = ''2025-01-01''\<rparr>] \<and>
      length rs = 1)"
proof -
  let ?c = "strictCallerOn ''Org1MSP'' Mapping.empty"
  let ?fs = "[\<lparr>Accused = ''Sam Reed'', CrimeType = ''Fraud'', Description = ''Forged cheque'',
        FiledBy = ''OfficerD'', FIRID = ''FIR4'', Status = ''Open'',
        Timestamp = ''2024-02-01T09:00:00Z''\<rparr>,
      \<lparr>Accused = ''Robbery'', CrimeType = ''Bank robbery at downtown'',
        Description = ''Alex Murphy'', FiledBy = ''OfficerC'', FIRID = ''FIR3'',
        Status = ''Open'', Timestamp = ''2024-01-03T12:00:00Z''\<rparr>]"
  let ?ps = "[\<lparr>OfficerID = ''POL12346'', Name = ''Raj Kumar'', Rank = ''Sub-Inspector'',
        DOB = ''1990-01-25'', Posting = ''Crime Branch, Delhi'', BadgeNumber = ''DEL-7890'',
        EmploymentStatus = ''Active'', DateOfJoining = ''2015-07-10'',
        Award = ''Meritorious Service Medal'', Suspension = [], LastUpdatedBy = ''Org1'',
        LastUpdatedOn = ''2025-01-01''\<rparr>]"
  have org1: "clientMSPID ?c = Some ''Org1MSP''"
    by simp
  have empty: "world ?c = Mapping.empty"
    by simp
  have refuses: "fault ?c (PutStateCall [])"
    by simp
  have writesF: "\<forall>f\<in>set ?fs. \<not> fault ?c (GetStateCall (FIRID f)) \<and>
                               \<not> fault ?c (PutStateCall (FIRID f))"
    by simp
  have writesP: "\<forall>p\<in>set ?ps. \<not> fault ?c (GetStateCall (OfficerID p)) \<and>
                               \<not> fault ?c (PutStateCall (OfficerID p))"
    by simp
  have keysF: "distinct (map FIRID ?fs)"
    by simp
  have keysP: "distinct (map OfficerID ?ps)"
    by simp
  have valid4: "FIR_valid
      \<lparr>Accused = ''Sam Reed'', CrimeType = ''Fraud'', Description = ''Forged cheque'',
        FiledBy = ''OfficerD'', FIRID = ''FIR4'', Status = ''Open'',
        Timestamp = ''2024-02-01T09:00:00Z''\<rparr>"
    by code_simp
  have valid3: "FIR_valid
      \<lparr>Accused = ''Robbery'', CrimeType = ''Bank robbery at downtown'',
        Description = ''Alex Murphy'', FiledBy = ''OfficerC'', FIRID = ''FIR3'',
        Status = ''Open'', Timestamp = ''2024-01-03T12:00:00Z''\<rparr>"
    by code_simp
  have validR: "PolicePersonnel_valid
      \<lparr>OfficerID = ''POL12346'', Name = ''Raj Kumar'', Rank = ''Sub-Inspector'',
        DOB = ''1990-01-25'', Posting = ''Crime Branch, Delhi'', BadgeNumber = ''DEL-7890'',
        EmploymentStatus = ''Active'', DateOfJoining = ''2015-07-10'',
        Award = ''Meritorious Service Medal'', Suspension = [], LastUpdatedBy = ''Org1'',
        LastUpdatedOn = ''2025-01-01''\<rparr>"
    by code_simp
  have validF: "\<forall>f\<in>set ?fs. FIR_valid f"
    using valid4 valid3 by simp
  have validP: "\<forall>p\<in>set ?ps. PolicePersonnel_valid p"
    using validR by simp
  note listed = C7_enumeration [OF org1 empty writesF writesP keysF keysP]
  have readerF: "world (strictCallerOn ''Org2MSP'' (world (snd (fileAll ?c ?fs))))
                   = world (snd (fileAll ?c ?fs)) \<and>
                 \<not> fault (strictCallerOn ''Org2MSP'' (world (snd (fileAll ?c ?fs))))
                     (GetStateByRangeCall [] []) \<and>
                 (\<forall>f\<in>set ?fs. \<not> fault (strictCallerOn ''Org2MSP'' (world (snd (fileAll ?c ?fs))))
                                  (NextCall (FIRID f)))"
    by simp
  have readerP: "world (strictCallerOn ''Org2MSP'' (world (snd (createAll ?c ?ps))))
                   = world (snd (createAll ?c ?ps)) \<and>
                 \<not> fault (strictCallerOn ''Org2MSP'' (world (snd (createAll ?c ?ps))))
                     (GetStateByRangeCall [] []) \<and>
                 (\<forall>p\<in>set ?ps. \<not> fault (strictCallerOn ''Org2MSP'' (world (snd (createAll ?c ?ps))))
                                  (NextCall (OfficerID p)))"
    by simp
  obtain rs where rs:
    "fst (GetAllFIRs (strictCallerOn ''Org2MSP'' (world (snd (fileAll ?c ?fs))))) = Inr rs"
    "length rs = length ?fs" "(\<forall>f\<in>set ?fs. FIR_valid f) \<longrightarrow> mset rs = mset ?fs"
    using listed [THEN conjunct2, THEN conjunct1, THEN spec, THEN mp, OF readerF] by blast
  obtain qs where qs:
    "fst (GetAllPersonnel (strictCallerOn ''Org2MSP'' (world (snd (createAll ?c ?ps))))) = Inr qs"
    "length qs = length ?ps" "(\<forall>p\<in>set ?ps. PolicePersonnel_valid p) \<longrightarrow> mset qs = mset ?ps"
    using listed [THEN conjunct2, THEN conjunct2, THEN conjunct2, THEN spec, THEN mp,
        OF readerP] by blast
  have "mset rs = mset ?fs"
    using rs(3) validF by blast
  then have cases: "\<exists>rs. fst (GetAllFIRs (strictCallerOn ''Org2MSP'' (world (snd (fileAll ?c ?fs)))))
                       = Inr rs \<and> mset rs = mset ?fs \<and> length rs = 2"
    using rs(1,2) by (intro exI [of _ rs]) simp
  have "mset qs = mset ?ps"
    using qs(3) validP by blast
  then have staff: "\<exists>rs. fst (GetAllPersonnel
                           (strictCallerOn ''Org2MSP'' (world (snd (createAll ?c ?ps))))) = Inr rs \<and>
                     mset rs = mset ?ps \<and> length rs = 1"
    using qs(1,2) by (intro exI [of _ qs]) simp
  have succeeded: "fst (fileAll ?c ?fs) = Inr ()" "fst (createAll ?c ?ps) = Inr ()"
    using listed by blast+
  show ?thesis
    using org1 refuses empty keysF valid4 valid3 succeeded(1) cases validR succeeded(2) staff
    by (intro conjI)
qed

text \<open>The claim as first stated, for every record written, fails on a record with a field
  that is not valid UTF-8: one case filed with description \<open>FF\<close> is enumerated with
  description U+FFFD, which is not the record written.\<close>

theorem C7_counterexample:
  "fst (fileAll (callerOn ''Org1MSP'' Mapping.empty)
     [\<lparr>Accused = ''Robbery'', CrimeType = ''Bank robbery at downtown'',
        Description = [CHR 0xFF], FiledBy = ''OfficerC'', FIRID = ''FIR3'',
        Status = ''Open'', Timestamp = ''2024-01-03T12:00:00Z''\<rparr>]) = Inr () \<and>
   fst (GetAllFIRs (callerOn ''Org1MSP''
          (world (snd (fileAll (callerOn ''Org1MSP'' Mapping.empty)
     [\<lparr>Accused = ''Robbery'', CrimeType = ''Bank robbery at downtown'',
        Description = [CHR 0xFF], FiledBy = ''OfficerC'', FIRID = ''FIR3'',
        Status = ''Open'', Timestamp = ''2024-01-03T12:00:00Z''\<rparr>])))))
     = Inr [\<lparr>Accused = ''Robbery'', CrimeType = ''Bank robbery at downtown'',
        Description = [CHR 0xEF, CHR 0xBF, CHR 0xBD], FiledBy = ''OfficerC'', FIRID = ''FIR3'',
        Status = ''Open'', Timestamp = ''2024-01-03T12:00:00Z''\<rparr>] \<and>
   mset [\<lparr>Accused = ''Robbery'', CrimeType = ''Bank robbery at downtown'',
        Description = [CHR 0xEF, CHR 0xBF, CHR 0xBD], FiledBy = ''OfficerC'', FIRID = ''FIR3'',
        Status = ''Open'', Timestamp = ''2024-01-03T12:00:00Z''\<rparr>]
     \<noteq> mset [\<lparr>Accused = ''Robbery'', CrimeType = ''Bank robbery at downtown'',
        Description = [CHR 0xFF], FiledBy = ''OfficerC'', FIRID = ''FIR3'',
        Status = ''Open'', Timestamp = ''2024-01-03T12:00:00Z''\<rparr>]"
proof -
  have coerced: "FIR_coerced
        \<lparr>Accused = ''Robbery'', CrimeType = ''Bank robbery at downtown'',
        Description = [CHR 0xFF], FiledBy = ''OfficerC'', FIRID = ''FIR3'',
        Status = ''Open'', Timestamp = ''2024-01-03T12:00:00Z''\<rparr>
      = \<lparr>Accused = ''Robbery'', CrimeType = ''Bank robbery at downtown'',
        Description = [CHR 0xEF, CHR 0xBF, CHR 0xBD], FiledBy = ''OfficerC'', FIRID = ''FIR3'',
        Status = ''Open'', Timestamp = ''2024-01-03T12:00:00Z''\<rparr>"
    by code_simp
  have w: "world (snd (fileAll (callerOn ''Org1MSP'' Mapping.empty)
     [\<lparr>Accused = ''Robbery'', CrimeType = ''Bank robbery at downtown'',
        Description = [CHR 0xFF], FiledBy = ''OfficerC'', FIRID = ''FIR3'',
        Status = ''Open'', Timestamp = ''2024-01-03T12:00:00Z''\<rparr>]))
     = Mapping.update ''FIR3'' (FIR_bytes
        \<lparr>Accused = ''Robbery'', CrimeType = ''Bank robbery at downtown'',
        Description = [CHR 0xFF], FiledBy = ''OfficerC'', FIRID = ''FIR3'',
        Status = ''Open'', Timestamp = ''2024-01-03T12:00:00Z''\<rparr>) Mapping.empty"
    by (simp add: FileFIR_eq PutState_ok)
  have listed: "fst (GetAllFIRs (callerOn ''Org1MSP''
          (Mapping.update ''FIR3'' (FIR_bytes
        \<lparr>Accused = ''Robbery'', CrimeType = ''Bank robbery at downtown'',
        Description = [CHR 0xFF], FiledBy = ''OfficerC'', FIRID = ''FIR3'',
        Status = ''Open'', Timestamp = ''2024-01-03T12:00:00Z''\<rparr>) Mapping.empty)))
     = Inr [\<lparr>Accused = ''Robbery'', CrimeType = ''Bank robbery at downtown'',
        Description = [CHR 0xEF, CHR 0xBF, CHR 0xBD], FiledBy = ''OfficerC'', FIRID = ''FIR3'',
        Status = ''Open'', Timestamp = ''2024-01-03T12:00:00Z''\<rparr>]"
    by (simp add: GetAllFIRs_fst inRange_open insort_insert_key_def Next_def coerced)
  have "fst (fileAll (callerOn ''Org1MSP'' Mapping.empty)
     [\<lparr>Accused = ''Robbery'', CrimeType = ''Bank robbery at downtown'',
        Description = [CHR 0xFF], FiledBy = ''OfficerC'', FIRID = ''FIR3'',
        Status = ''Open'', Timestamp = ''2024-01-03T12:00:00Z''\<rparr>]) = Inr ()"
    by (simp add: FileFIR_eq PutState_ok)
  then show ?thesis
    using listed unfolding w by simp
qed

end
